theory Spec2Isabelle
  imports Complex_Main "HOL-Library.Log_Nat" "HOL-Library.AList"
begin

section \<open>JavaScript values\<close>

text \<open>
  A JavaScript number is an IEEE 754 binary64 value. The finite ones are modelled by the
  rational they denote (the sign of zero is not tracked); the three special values are
  constructors of their own.
\<close>

datatype jsnum = Fin rat | NaN | PInf | NInf

text \<open>
  A string is the list of its code units, restricted to the code units below 256. An
  object is the list of its own enumerable properties in property order (the order of
  \<^verbatim>\<open>Object.entries\<close>); the keys of an object are pairwise distinct.
\<close>

datatype jsval =
    JUndefined
  | JNull
  | JBool bool
  | JNum jsnum
  | JStr string
  | JArr "jsval list"
  | JObj "(string \<times> jsval) list"

type_synonym props = "(string \<times> jsval) list"

fun typeof :: "jsval \<Rightarrow> string" where
  "typeof JUndefined = ''undefined''"
| "typeof JNull = ''object''"
| "typeof (JBool _) = ''boolean''"
| "typeof (JNum _) = ''number''"
| "typeof (JStr _) = ''string''"
| "typeof (JArr _) = ''object''"
| "typeof (JObj _) = ''object''"

text \<open>
  \<^verbatim>\<open>params.key\<close> on a record of arguments: the value of the own property, or
  \<^verbatim>\<open>undefined\<close>. The source reads fixed names only, none of them a member of
  \<^verbatim>\<open>Object.prototype\<close>.
\<close>

definition get_prop :: "props \<Rightarrow> string \<Rightarrow> jsval" where
  "get_prop ps k = (case map_of ps k of Some v \<Rightarrow> v | None \<Rightarrow> JUndefined)"

fun Number_isFinite :: "jsnum \<Rightarrow> bool" where
  "Number_isFinite (Fin _) = True"
| "Number_isFinite _ = False"

text \<open>The comparisons \<^verbatim>\<open><\<close> and \<^verbatim>\<open><=\<close> on numbers: false as soon as one side is NaN.\<close>

fun num_lt :: "jsnum \<Rightarrow> jsnum \<Rightarrow> bool" where
  "num_lt NaN _ = False"
| "num_lt _ NaN = False"
| "num_lt (Fin a) (Fin b) = (a < b)"
| "num_lt _ NInf = False"
| "num_lt NInf _ = True"
| "num_lt PInf _ = False"
| "num_lt (Fin _) PInf = True"

fun num_le :: "jsnum \<Rightarrow> jsnum \<Rightarrow> bool" where
  "num_le NaN _ = False"
| "num_le _ NaN = False"
| "num_le a b = (a = b \<or> num_lt a b)"

text \<open>Truthiness (\<^verbatim>\<open>if (v)\<close>, \<^verbatim>\<open>!v\<close>).\<close>

fun truthy :: "jsval \<Rightarrow> bool" where
  "truthy JUndefined = False"
| "truthy JNull = False"
| "truthy (JBool b) = b"
| "truthy (JNum n) = (n \<noteq> NaN \<and> n \<noteq> Fin 0)"
| "truthy (JStr s) = (s \<noteq> [])"
| "truthy (JArr _) = True"
| "truthy (JObj _) = True"

subsection \<open>Strings\<close>

definition is_white_space :: "char \<Rightarrow> bool" where
  "is_white_space c = (of_char c \<in> {9, 10, 11, 12, 13, 32, 160 :: nat})"

definition trim :: "string \<Rightarrow> string" where
  "trim s = rev (dropWhile is_white_space (rev (dropWhile is_white_space s)))"

definition is_digit :: "char \<Rightarrow> bool" where
  "is_digit c = (48 \<le> (of_char c :: nat) \<and> (of_char c :: nat) \<le> 57)"

definition digit_val :: "char \<Rightarrow> nat" where
  "digit_val c = of_char c - 48"

definition digit_char :: "nat \<Rightarrow> char" where
  "digit_char n = ''0123456789'' ! n"

fun nat_to_string :: "nat \<Rightarrow> string" where
  "nat_to_string n =
     (if n < 10 then [digit_char n] else nat_to_string (n div 10) @ [digit_char (n mod 10)])"

declare nat_to_string.simps [simp del]

definition int_to_string :: "int \<Rightarrow> string" where
  "int_to_string i = (if i < 0 then CHR ''-'' # nat_to_string (nat (- i)) else nat_to_string (nat i))"

text \<open>\<^verbatim>\<open>Number(s)\<close> on a string of decimal digits.\<close>

definition digits_to_nat :: "string \<Rightarrow> nat" where
  "digits_to_nat s = foldl (\<lambda>a c. 10 * a + digit_val c) 0 s"

text \<open>
  \<^verbatim>\<open>s.replace(pat, rep)\<close> with a string pattern: the first occurrence of the pattern is
  replaced (the replacements of the source hold no \<^verbatim>\<open>$\<close>).
\<close>

fun replace_first :: "string \<Rightarrow> string \<Rightarrow> string \<Rightarrow> string" where
  "replace_first pat rep [] = (if pat = [] then rep else [])"
| "replace_first pat rep (c # cs) =
     (if take (length pat) (c # cs) = pat then rep @ drop (length pat) (c # cs)
      else c # replace_first pat rep cs)"

text \<open>\<^verbatim>\<open>xs.join(sep)\<close> on strings.\<close>

fun join :: "string \<Rightarrow> string list \<Rightarrow> string" where
  "join sep [] = []"
| "join sep [x] = x"
| "join sep (x # y # ys) = x @ sep @ join sep (y # ys)"

section \<open>Errors\<close>

text \<open>
  The error codes of the protocol SDK that the source uses, with their numbers.
\<close>

datatype ErrorCode = InvalidRequest | MethodNotFound | InvalidParams | InternalError

fun error_code_number :: "ErrorCode \<Rightarrow> int" where
  "error_code_number InvalidRequest = - 32600"
| "error_code_number MethodNotFound = - 32601"
| "error_code_number InvalidParams = - 32602"
| "error_code_number InternalError = - 32603"

text \<open>
  What the HTTP client throws: the message of the error and, if a response came back,
  its status and its decoded body.
\<close>

record axios_error =
  ax_message :: string
  ax_response :: "(nat \<times> jsval) option"

text \<open>
  The values a \<^verbatim>\<open>throw\<close> of the source raises. \<^verbatim>\<open>ValidationError\<close> (validation.ts)
  extends \<^verbatim>\<open>McpError\<close>; it keeps the field and is built from the field and a message.
  \<^verbatim>\<open>McpError\<close> holds the code and the message given to its constructor. \<open>Thrown\<close> is
  a thrown value that is not an \<^verbatim>\<open>Error\<close>.
\<close>

datatype js_error =
    McpError ErrorCode string
  | ValidationError string string
  | Error string
  | ConfigurationError string
  | InfaktApiError nat jsval string
  | AxiosError axios_error
  | Thrown jsval

fun instanceof_McpError :: "js_error \<Rightarrow> bool" where
  "instanceof_McpError (McpError _ _) = True"
| "instanceof_McpError (ValidationError _ _) = True"
| "instanceof_McpError _ = False"

fun instanceof_ValidationError :: "js_error \<Rightarrow> bool" where
  "instanceof_ValidationError (ValidationError _ _) = True"
| "instanceof_ValidationError _ = False"

text \<open>
  \<^verbatim>\<open>super(ErrorCode.InvalidParams, `Validation error for '${field}': ${message}`)\<close>:
  the code and the message a \<^verbatim>\<open>ValidationError\<close> hands to \<^verbatim>\<open>McpError\<close>.
\<close>

definition validation_message :: "string \<Rightarrow> string \<Rightarrow> string" where
  "validation_message field message = ''Validation error for '' @ [CHR 0x27] @ field @ [CHR 0x27] @ '': '' @ message"

fun error_code :: "js_error \<Rightarrow> ErrorCode option" where
  "error_code (McpError c _) = Some c"
| "error_code (ValidationError _ _) = Some InvalidParams"
| "error_code _ = None"

text \<open>
  The \<^verbatim>\<open>message\<close> property. The SDK's \<^verbatim>\<open>McpError\<close> constructor calls
  \<^verbatim>\<open>super(`MCP error ${code}: ${message}`)\<close>.
\<close>

definition mcp_message :: "ErrorCode \<Rightarrow> string \<Rightarrow> string" where
  "mcp_message c m = ''MCP error '' @ int_to_string (error_code_number c) @ '': '' @ m"

fun error_message :: "js_error \<Rightarrow> string" where
  "error_message (McpError c m) = mcp_message c m"
| "error_message (ValidationError f m) = mcp_message InvalidParams (validation_message f m)"
| "error_message (Error m) = m"
| "error_message (ConfigurationError m) = m"
| "error_message (InfaktApiError _ _ m) = m"
| "error_message (AxiosError e) = ax_message e"
| "error_message (Thrown _) = []"

fun error_field :: "js_error \<Rightarrow> string" where
  "error_field (ValidationError f _) = f"
| "error_field _ = []"

text \<open>A sequence of statements that each return or throw: the first throw wins.\<close>

fun checks :: "('e + unit) list \<Rightarrow> 'e + unit" where
  "checks [] = Inr ()"
| "checks (c # cs) = (case c of Inl e \<Rightarrow> Inl e | Inr _ \<Rightarrow> checks cs)"

definition only_if :: "bool \<Rightarrow> ('e + unit) \<Rightarrow> 'e + unit" where
  "only_if b c = (if b then c else Inr ())"

section \<open>Input validation (validation.ts)\<close>

definition validateRequiredString :: "jsval \<Rightarrow> string \<Rightarrow> js_error + unit" where
  "validateRequiredString v fieldName =
     (case v of
        JStr s \<Rightarrow>
          if length (trim s) = 0 then Inl (ValidationError fieldName ''must be a non-empty string'')
          else Inr ()
      | _ \<Rightarrow> Inl (ValidationError fieldName ''must be a non-empty string''))"

definition validatePositiveNumber :: "jsval \<Rightarrow> string \<Rightarrow> js_error + unit" where
  "validatePositiveNumber v fieldName =
     (case v of
        JNum n \<Rightarrow>
          if num_le n (Fin 0) \<or> \<not> Number_isFinite n
          then Inl (ValidationError fieldName ''must be a positive number'')
          else Inr ()
      | _ \<Rightarrow> Inl (ValidationError fieldName ''must be a positive number''))"

definition validateNonNegativeNumber :: "jsval \<Rightarrow> string \<Rightarrow> js_error + unit" where
  "validateNonNegativeNumber v fieldName =
     (case v of
        JNum n \<Rightarrow>
          if num_lt n (Fin 0) \<or> \<not> Number_isFinite n
          then Inl (ValidationError fieldName ''must be a non-negative number'')
          else Inr ()
      | _ \<Rightarrow> Inl (ValidationError fieldName ''must be a non-negative number''))"

text \<open>
  \<^verbatim>\<open>params.limit > 100\<close>, read after \<^verbatim>\<open>validatePositiveNumber\<close> has returned, so on a
  number.
\<close>

definition exceeds :: "jsval \<Rightarrow> rat \<Rightarrow> bool" where
  "exceeds v bound = (case v of JNum n \<Rightarrow> num_lt (Fin bound) n | _ \<Rightarrow> False)"

definition validatePaginationParams :: "props \<Rightarrow> js_error + unit" where
  "validatePaginationParams params =
     checks
       [ only_if (get_prop params ''offset'' \<noteq> JUndefined)
           (validateNonNegativeNumber (get_prop params ''offset'') ''offset''),
         only_if (get_prop params ''limit'' \<noteq> JUndefined)
           (checks
              [ validatePositiveNumber (get_prop params ''limit'') ''limit'',
                only_if (exceeds (get_prop params ''limit'') 100)
                  (Inl (ValidationError ''limit'' ''must not exceed 100'')) ]) ]"

subsection \<open>Dates\<close>

text \<open>
  The \<^verbatim>\<open>Date\<close> built-in, as far as \<^verbatim>\<open>validateDateString\<close> uses it. A time value is a
  number of milliseconds since the epoch; the functions below are those of the language
  standard (Day, DaysInYear, DayFromYear, TimeFromYear, YearFromTime, InLeapYear,
  DayWithinYear, MonthFromTime, DateFromTime, MakeDay, MakeDate).
\<close>

definition msPerDay :: int where
  "msPerDay = 86400000"

definition Day :: "int \<Rightarrow> int" where
  "Day t = t div msPerDay"

definition DaysInYear :: "int \<Rightarrow> int" where
  "DaysInYear y =
     (if y mod 4 \<noteq> 0 then 365
      else if y mod 100 \<noteq> 0 then 366
      else if y mod 400 \<noteq> 0 then 365
      else 366)"

definition DayFromYear :: "int \<Rightarrow> int" where
  "DayFromYear y =
     365 * (y - 1970) + (y - 1969) div 4 - (y - 1901) div 100 + (y - 1601) div 400"

definition TimeFromYear :: "int \<Rightarrow> int" where
  "TimeFromYear y = msPerDay * DayFromYear y"

text \<open>
  YearFromTime is the largest year whose TimeFromYear is at most the time value
  (lemma \<open>YearFromTime_largest\<close> below); it is computed from an estimate that is off by
  one year at most.
\<close>

definition YearFromTime :: "int \<Rightarrow> int" where
  "YearFromTime t =
     (let d = Day t; y0 = 1970 + (400 * d) div 146097
      in if d < DayFromYear y0 then y0 - 1
         else if DayFromYear (y0 + 1) \<le> d then y0 + 1
         else y0)"

definition InLeapYear :: "int \<Rightarrow> int" where
  "InLeapYear t = (if DaysInYear (YearFromTime t) = 366 then 1 else 0)"

definition DayWithinYear :: "int \<Rightarrow> int" where
  "DayWithinYear t = Day t - DayFromYear (YearFromTime t)"

definition MonthFromTime :: "int \<Rightarrow> int" where
  "MonthFromTime t =
     (let d = DayWithinYear t; l = InLeapYear t
      in if d < 31 then 0
         else if d < 59 + l then 1
         else if d < 90 + l then 2
         else if d < 120 + l then 3
         else if d < 151 + l then 4
         else if d < 181 + l then 5
         else if d < 212 + l then 6
         else if d < 243 + l then 7
         else if d < 273 + l then 8
         else if d < 304 + l then 9
         else if d < 334 + l then 10
         else 11)"

definition DateFromTime :: "int \<Rightarrow> int" where
  "DateFromTime t =
     (let d = DayWithinYear t; l = InLeapYear t; m = MonthFromTime t
      in if m = 0 then d + 1
         else if m = 1 then d - 30
         else if m = 2 then d - 58 - l
         else if m = 3 then d - 89 - l
         else if m = 4 then d - 119 - l
         else if m = 5 then d - 150 - l
         else if m = 6 then d - 180 - l
         else if m = 7 then d - 211 - l
         else if m = 8 then d - 242 - l
         else if m = 9 then d - 272 - l
         else if m = 10 then d - 303 - l
         else d - 333 - l)"

text \<open>
  The day within its year on which a month starts (the time value MakeDay looks for has
  this month and the date 1).
\<close>

definition month_start :: "int \<Rightarrow> int \<Rightarrow> int" where
  "month_start l mn =
     (if mn = 0 then 0
      else if mn = 1 then 31
      else if mn = 2 then 59 + l
      else if mn = 3 then 90 + l
      else if mn = 4 then 120 + l
      else if mn = 5 then 151 + l
      else if mn = 6 then 181 + l
      else if mn = 7 then 212 + l
      else if mn = 8 then 243 + l
      else if mn = 9 then 273 + l
      else if mn = 10 then 304 + l
      else 334 + l)"

definition MakeDay :: "int \<Rightarrow> int \<Rightarrow> int \<Rightarrow> int" where
  "MakeDay year month date =
     (let ym = year + month div 12; mn = month mod 12;
          l = (if DaysInYear ym = 366 then 1 else 0)
      in DayFromYear ym + month_start l mn + date - 1)"

definition MakeDate :: "int \<Rightarrow> int \<Rightarrow> int" where
  "MakeDate day time = day * msPerDay + time"

text \<open>
  \<^verbatim>\<open>/^\d{4}-\d{2}-\d{2}$/.test(value)\<close>.
\<close>

fun dateRegex_test :: "string \<Rightarrow> bool" where
  "dateRegex_test [y1, y2, y3, y4, s1, m1, m2, s2, d1, d2] =
     (is_digit y1 \<and> is_digit y2 \<and> is_digit y3 \<and> is_digit y4 \<and> s1 = CHR ''-'' \<and>
      is_digit m1 \<and> is_digit m2 \<and> s2 = CHR ''-'' \<and> is_digit d1 \<and> is_digit d2)"
| "dateRegex_test _ = False"

text \<open>
  \<^verbatim>\<open>new Date(value)\<close> on a string of the date-only form \<^verbatim>\<open>YYYY-MM-DD\<close>, which is read as
  UTC midnight; \<^verbatim>\<open>None\<close> is the invalid date, whose time value is NaN. Node's engine
  refuses a month outside 1..12 and a day outside 1..31 and lets a day beyond the end of
  its month run over into the next one. \<^verbatim>\<open>validateDateString\<close> gives the constructor no
  string of another form.
\<close>

definition Date_new :: "string \<Rightarrow> int option" where
  "Date_new s =
     (let year = digits_to_nat (take 4 s);
          month = digits_to_nat (take 2 (drop 5 s));
          day = digits_to_nat (drop 8 s)
      in if dateRegex_test s \<and> 1 \<le> month \<and> month \<le> 12 \<and> 1 \<le> day \<and> day \<le> 31
         then Some (MakeDate (MakeDay (int year) (int month - 1) (int day)) 0)
         else None)"

text \<open>\<^verbatim>\<open>value.split(c)\<close> with a separator of one code unit.\<close>

fun split :: "char \<Rightarrow> string \<Rightarrow> string list" where
  "split c [] = [[]]"
| "split c (x # xs) =
     (if x = c then [] # split c xs
      else (case split c xs of [] \<Rightarrow> [[x]] | p # ps \<Rightarrow> (x # p) # ps))"

text \<open>
  The destructuring \<^verbatim>\<open>[year, month, day]\<close> takes the first three pieces; a string that
  passed the pattern has exactly three.
\<close>

definition validateDateString :: "jsval \<Rightarrow> string \<Rightarrow> js_error + unit" where
  "validateDateString v fieldName =
     (case v of
        JStr value \<Rightarrow>
          if \<not> dateRegex_test value
          then Inl (ValidationError fieldName ''must be in YYYY-MM-DD format'')
          else
            (case Date_new value of
               None \<Rightarrow> Inl (ValidationError fieldName ''is not a valid date'')
             | Some t \<Rightarrow>
                 (case map digits_to_nat (split CHR ''-'' value) of
                    year # month # day # _ \<Rightarrow>
                      if YearFromTime t \<noteq> int year \<or>
                         MonthFromTime t + 1 \<noteq> int month \<or>
                         DateFromTime t \<noteq> int day
                      then Inl (ValidationError fieldName ''is not a valid date'')
                      else Inr ()
                  | _ \<Rightarrow> Inl (ValidationError fieldName ''is not a valid date'')))
      | _ \<Rightarrow> Inl (ValidationError fieldName ''must be a string''))"

text \<open>
  The calendar, stated on its own: a month from 1 to 12 and a day from 1 to the length of
  the month, February having 29 days in the leap years of the Gregorian calendar.
\<close>

definition leap_year :: "nat \<Rightarrow> bool" where
  "leap_year y = ((y mod 4 = 0 \<and> y mod 100 \<noteq> 0) \<or> y mod 400 = 0)"

definition days_in_month :: "nat \<Rightarrow> nat \<Rightarrow> nat" where
  "days_in_month y m =
     (if m = 2 then (if leap_year y then 29 else 28)
      else if m = 4 \<or> m = 6 \<or> m = 9 \<or> m = 11 then 30
      else 31)"

definition calendar_date :: "nat \<Rightarrow> nat \<Rightarrow> nat \<Rightarrow> bool" where
  "calendar_date y m d = (1 \<le> m \<and> m \<le> 12 \<and> 1 \<le> d \<and> d \<le> days_in_month y m)"

text \<open>The year, month and day that the digits of a string of that form denote.\<close>

definition date_fields :: "string \<Rightarrow> nat \<times> nat \<times> nat" where
  "date_fields s =
     (digits_to_nat (take 4 s), digits_to_nat (take 2 (drop 5 s)), digits_to_nat (drop 8 s))"

definition month_length :: "int \<Rightarrow> int \<Rightarrow> int" where
  "month_length l m =
     (if m = 2 then 28 + l else if m = 4 \<or> m = 6 \<or> m = 9 \<or> m = 11 then 30 else 31)"

definition is_hex_digit :: "char \<Rightarrow> bool" where
  "is_hex_digit c =
     (is_digit c \<or> (97 \<le> (of_char c :: nat) \<and> (of_char c :: nat) \<le> 102) \<or>
      (65 \<le> (of_char c :: nat) \<and> (of_char c :: nat) \<le> 70))"

text \<open>
  \<^verbatim>\<open>/^[0-9a-f]{8}-[0-9a-f]{4}-[0-9a-f]{4}-[0-9a-f]{4}-[0-9a-f]{12}$/i.test(value)\<close>:
  the groups of hexadecimal digits, of either case, between dashes.
\<close>

fun hex_groups :: "nat list \<Rightarrow> string \<Rightarrow> bool" where
  "hex_groups [] s = False"
| "hex_groups [n] s = (length s = n \<and> list_all is_hex_digit s)"
| "hex_groups (n # m # ns) s =
     (list_all is_hex_digit (take n s) \<and> n < length s \<and> s ! n = CHR ''-'' \<and>
      hex_groups (m # ns) (drop (Suc n) s))"

definition uuidRegex_test :: "string \<Rightarrow> bool" where
  "uuidRegex_test s = hex_groups [8, 4, 4, 4, 12] s"

definition validateUUID :: "jsval \<Rightarrow> string \<Rightarrow> js_error + unit" where
  "validateUUID v fieldName =
     (case v of
        JStr value \<Rightarrow>
          if \<not> uuidRegex_test value then Inl (ValidationError fieldName ''is not a valid UUID'')
          else Inr ()
      | _ \<Rightarrow> Inl (ValidationError fieldName ''must be a string''))"

definition validateEnum :: "jsval \<Rightarrow> string \<Rightarrow> string list \<Rightarrow> js_error + unit" where
  "validateEnum v fieldName allowedValues =
     (case v of
        JStr value \<Rightarrow>
          if value \<notin> set allowedValues
          then Inl (ValidationError fieldName (''must be one of: '' @ join '', '' allowedValues))
          else Inr ()
      | _ \<Rightarrow> Inl (ValidationError fieldName ''must be a string''))"

text \<open>
  \<^verbatim>\<open>validateArray\<close>: the loop over the items stops at the first item the validator
  refuses. A \<^verbatim>\<open>ValidationError\<close> of the item is thrown again under the path
  \<^verbatim>\<open>`${fieldName}[${index}].${error.field}`\<close>, with the message
  \<^verbatim>\<open>error.message.replace(`Validation error for '${error.field}': `, "")\<close>; any other
  error is thrown as it is.
\<close>

type_synonym ItemValidator = "jsval \<Rightarrow> nat \<Rightarrow> js_error + unit"

fun validate_items :: "ItemValidator \<Rightarrow> string \<Rightarrow> jsval list \<Rightarrow> nat \<Rightarrow> js_error + unit" where
  "validate_items validator fieldName [] index = Inr ()"
| "validate_items validator fieldName (item # items) index =
     (case validator item index of
        Inl error \<Rightarrow>
          if instanceof_ValidationError error
          then Inl (ValidationError
                 (fieldName @ ''['' @ nat_to_string index @ ''].'' @ error_field error)
                 (replace_first (validation_message (error_field error) []) []
                    (error_message error)))
          else Inl error
      | Inr _ \<Rightarrow> validate_items validator fieldName items (index + 1))"

definition validateArray :: "jsval \<Rightarrow> string \<Rightarrow> ItemValidator option \<Rightarrow> js_error + unit" where
  "validateArray v fieldName itemValidator =
     (case v of
        JArr items \<Rightarrow>
          if length items = 0 then Inl (ValidationError fieldName ''must not be empty'')
          else (case itemValidator of
                  Some validator \<Rightarrow> validate_items validator fieldName items 0
                | None \<Rightarrow> Inr ())
      | _ \<Rightarrow> Inl (ValidationError fieldName ''must be an array''))"

text \<open>
  \<^verbatim>\<open>service.key\<close> on a value that passed \<^verbatim>\<open>!value || typeof value !== "object"\<close>:
  an object gives its property, an array has none of the names the source reads.
\<close>

definition get_member :: "jsval \<Rightarrow> string \<Rightarrow> jsval" where
  "get_member v k = (case v of JObj ps \<Rightarrow> get_prop ps k | _ \<Rightarrow> JUndefined)"

definition validateInvoiceService :: "jsval \<Rightarrow> nat \<Rightarrow> js_error + unit" where
  "validateInvoiceService v index =
     (if \<not> truthy v \<or> typeof v \<noteq> ''object''
      then Inl (ValidationError (''services['' @ nat_to_string index @ '']'') ''must be an object'')
      else
        checks
          [ validateRequiredString (get_member v ''name'') ''name'',
            only_if
              (get_member v ''tax_symbol'' = JUndefined \<or>
               (typeof (get_member v ''tax_symbol'') \<noteq> ''string'' \<and>
                typeof (get_member v ''tax_symbol'') \<noteq> ''number''))
              (Inl (ValidationError ''tax_symbol'' ''is required and must be a string or number'')),
            only_if (get_member v ''net_price'' \<noteq> JUndefined)
              (validateNonNegativeNumber (get_member v ''net_price'') ''net_price''),
            only_if (get_member v ''unit_net_price'' \<noteq> JUndefined)
              (validateNonNegativeNumber (get_member v ''unit_net_price'') ''unit_net_price''),
            only_if (get_member v ''gross_price'' \<noteq> JUndefined)
              (validateNonNegativeNumber (get_member v ''gross_price'') ''gross_price''),
            only_if (get_member v ''quantity'' \<noteq> JUndefined)
              (validatePositiveNumber (get_member v ''quantity'') ''quantity''),
            only_if
              (get_member v ''net_price'' = JUndefined \<and>
               get_member v ''unit_net_price'' = JUndefined \<and>
               get_member v ''gross_price'' = JUndefined)
              (Inl (ValidationError ''services''
                 ''each service must have at least one of: net_price, unit_net_price, or gross_price'')) ])"

text \<open>\<^verbatim>\<open>validateRequiredFields\<close>: the first field that is absent or null is reported.\<close>

fun validateRequiredFields :: "props \<Rightarrow> string list \<Rightarrow> js_error + unit" where
  "validateRequiredFields data [] = Inr ()"
| "validateRequiredFields data (f # requiredFields) =
     (if get_prop data f = JUndefined \<or> get_prop data f = JNull
      then Inl (ValidationError f ''is required'')
      else validateRequiredFields data requiredFields)"

text \<open>
  \<^verbatim>\<open>sanitizeParams\<close> copies the entries that are neither undefined nor null with
  \<^verbatim>\<open>sanitized[key] = value\<close>, which sets no property for the key \<^verbatim>\<open>__proto__\<close>.
\<close>

definition sanitizeParams :: "props \<Rightarrow> props" where
  "sanitizeParams params =
     filter (\<lambda>(key, v). v \<noteq> JUndefined \<and> v \<noteq> JNull \<and> key \<noteq> ''__proto__'') params"

section \<open>Number arithmetic\<close>

text \<open>
  Rounding a rational to binary64, to nearest with ties to even. \<open>ilog2 r\<close> is the
  exponent of the binade of a positive \<open>r\<close> (lemma \<open>ilog2_bounds\<close>); the spacing of the
  doubles around \<open>r\<close> is \<open>2 powi ulp_exp r\<close>, with 53 significant bits in the normal
  range and the fixed spacing \<open>2 powi (- 1074)\<close> below it. A result of magnitude
  \<open>2 powi 1024\<close> or more overflows to an infinity.
\<close>

definition ilog2 :: "rat \<Rightarrow> int" where
  "ilog2 r =
     (case quotient_of r of
        (p, q) \<Rightarrow> let e = bitlen p - bitlen q in if 2 powi e \<le> r then e else e - 1)"

definition round_half_even :: "rat \<Rightarrow> int" where
  "round_half_even x =
     (let f = \<lfloor>x\<rfloor>; d = x - of_int f
      in if d < 1 / 2 then f
         else if 1 / 2 < d then f + 1
         else if even f then f
         else f + 1)"

definition ulp_exp :: "rat \<Rightarrow> int" where
  "ulp_exp r = max (ilog2 \<bar>r\<bar> - 52) (- 1074)"

definition fl :: "rat \<Rightarrow> rat" where
  "fl r =
     (if r = 0 then 0
      else of_int (round_half_even (r / 2 powi ulp_exp r)) * 2 powi ulp_exp r)"

definition to_double :: "rat \<Rightarrow> jsnum" where
  "to_double r =
     (let x = fl r
      in if 2 powi 1024 \<le> \<bar>x\<bar> then (if 0 < r then PInf else NInf) else Fin x)"

text \<open>\<^verbatim>\<open>x / c\<close> and \<^verbatim>\<open>x * c\<close> for a finite constant \<open>c\<close> above zero.\<close>

fun num_div_by :: "jsnum \<Rightarrow> rat \<Rightarrow> jsnum" where
  "num_div_by (Fin a) c = to_double (a / c)"
| "num_div_by n c = n"

fun num_mul_by :: "jsnum \<Rightarrow> rat \<Rightarrow> jsnum" where
  "num_mul_by (Fin a) c = to_double (a * c)"
| "num_mul_by n c = n"

text \<open>\<^verbatim>\<open>Math.round\<close>: the nearest integer, a tie going up.\<close>

fun Math_round :: "jsnum \<Rightarrow> jsnum" where
  "Math_round (Fin r) = Fin (of_int \<lfloor>r + 1 / 2\<rfloor>)"
| "Math_round n = n"

text \<open>
  \<^verbatim>\<open>parseFloat\<close>: leading white space is skipped, then the longest prefix that is a
  decimal literal is read (a sign, then \<^verbatim>\<open>Infinity\<close> or digits with an optional
  fraction and an optional exponent); there is no such prefix for NaN. The value is
  rounded to a double.
\<close>

definition parse_sign :: "string \<Rightarrow> bool \<times> string" where
  "parse_sign s =
     (case s of
        [] \<Rightarrow> (False, [])
      | c # cs \<Rightarrow>
          if c = CHR ''-'' then (True, cs) else if c = CHR ''+'' then (False, cs) else (False, s))"

definition parse_exponent :: "string \<Rightarrow> int" where
  "parse_exponent s =
     (case s of
        [] \<Rightarrow> 0
      | c # cs \<Rightarrow>
          if c = CHR ''e'' \<or> c = CHR ''E''
          then (case parse_sign cs of
                  (neg, ds) \<Rightarrow>
                    let digits = takeWhile is_digit ds
                    in if digits = [] then 0
                       else if neg then - int (digits_to_nat digits)
                       else int (digits_to_nat digits))
          else 0)"

definition parse_fraction :: "string \<Rightarrow> string \<times> string" where
  "parse_fraction s =
     (case s of
        [] \<Rightarrow> ([], [])
      | c # cs \<Rightarrow>
          if c = CHR ''.'' then (takeWhile is_digit cs, dropWhile is_digit cs) else ([], s))"

definition parseFloat :: "string \<Rightarrow> jsnum" where
  "parseFloat s =
     (case parse_sign (dropWhile is_white_space s) of
        (neg, u) \<Rightarrow>
          if take 8 u = ''Infinity'' then (if neg then NInf else PInf)
          else
            (case parse_fraction (dropWhile is_digit u) of
               (fs, rest) \<Rightarrow>
                 let ds = takeWhile is_digit u
                 in if ds = [] \<and> fs = [] then NaN
                    else
                      let m = of_nat (digits_to_nat (ds @ fs)) *
                                10 powi (parse_exponent rest - int (length fs))
                      in to_double (if neg then - m else m)))"

section \<open>Currency conversion (currency.ts)\<close>

text \<open>
  \<^verbatim>\<open>groszeToPLN(grosze: number | string)\<close>: the argument is a number (\<open>Inl\<close>) or a
  string (\<open>Inr\<close>).
\<close>

definition groszeToPLN :: "jsnum + string \<Rightarrow> jsnum" where
  "groszeToPLN grosze =
     (let v = (case grosze of Inr s \<Rightarrow> parseFloat s | Inl n \<Rightarrow> n)
      in num_div_by (Math_round v) 100)"

definition plnToGrosze :: "jsnum \<Rightarrow> jsnum" where
  "plnToGrosze pln = Math_round (num_mul_by pln 100)"

definition MONETARY_FIELDS :: "string list" where
  "MONETARY_FIELDS =
     [''net_price'', ''gross_price'', ''tax_price'', ''unit_net_price'', ''unit_gross_price'',
      ''price'', ''amount'', ''total'', ''value'']"

text \<open>
  What the loop stores under a recognized key: \<^verbatim>\<open>groszeToPLN(value)\<close> when
  \<^verbatim>\<open>typeof value\<close> is \<^verbatim>\<open>'number'\<close> or \<^verbatim>\<open>'string'\<close>, the value otherwise.
\<close>

definition convert_monetary :: "jsval \<Rightarrow> jsval" where
  "convert_monetary v =
     (case v of
        JNum n \<Rightarrow> JNum (groszeToPLN (Inl n))
      | JStr s \<Rightarrow> JNum (groszeToPLN (Inr s))
      | _ \<Rightarrow> v)"

text \<open>
  \<^verbatim>\<open>convertAllMonetaryFields\<close>. \<open>convert_items\<close> is \<^verbatim>\<open>data.map(...)\<close> and
  \<open>convert_entries\<close> is the loop over \<^verbatim>\<open>Object.entries(obj)\<close> with its assignment
  \<^verbatim>\<open>converted[key] = ...\<close>, which gives the new object a property for a property of the
  old one, in the same order. The assignment to the key \<^verbatim>\<open>__proto__\<close> is the exception:
  on an object literal that name is the accessor of \<^verbatim>\<open>Object.prototype\<close>, whose setter
  changes the prototype of \<^verbatim>\<open>converted\<close> (to an object or null; any other value is
  ignored) and creates no property. A value of the model is the own properties of an
  object, which are what \<^verbatim>\<open>JSON.stringify\<close> and \<^verbatim>\<open>Object.entries\<close> read.
\<close>

fun convertAllMonetaryFields :: "jsval \<Rightarrow> jsval"
  and convert_items :: "jsval list \<Rightarrow> jsval list"
  and convert_entries :: "props \<Rightarrow> props" where
  "convertAllMonetaryFields JNull = JNull"
| "convertAllMonetaryFields JUndefined = JUndefined"
| "convertAllMonetaryFields (JArr items) = JArr (convert_items items)"
| "convertAllMonetaryFields (JObj obj) = JObj (convert_entries obj)"
| "convertAllMonetaryFields (JBool b) = JBool b"
| "convertAllMonetaryFields (JNum n) = JNum n"
| "convertAllMonetaryFields (JStr s) = JStr s"
| "convert_items [] = []"
| "convert_items (item # items) = convertAllMonetaryFields item # convert_items items"
| "convert_entries [] = []"
| "convert_entries ((key, v) # entries) =
     (let x = (if key \<in> set MONETARY_FIELDS then convert_monetary v
               else convertAllMonetaryFields v)
      in if key = ''__proto__'' then convert_entries entries
         else (key, x) # convert_entries entries)"

text \<open>
  Paths into a value: a step enters an object by a key or an array by an index.
\<close>

datatype step = Key string | Idx nat

fun lookup_step :: "jsval \<Rightarrow> step \<Rightarrow> jsval option" where
  "lookup_step (JObj obj) (Key k) = map_of obj k"
| "lookup_step (JArr items) (Idx i) = (if i < length items then Some (items ! i) else None)"
| "lookup_step _ _ = None"

fun lookup_path :: "jsval \<Rightarrow> step list \<Rightarrow> jsval option" where
  "lookup_path v [] = Some v"
| "lookup_path v (s # p) =
     (case lookup_step v s of None \<Rightarrow> None | Some w \<Rightarrow> lookup_path w p)"

text \<open>
  The steps the conversion recurses through: an index, or a key that is outside the
  recognized set (and is not \<^verbatim>\<open>__proto__\<close>).
\<close>

fun unrecognized :: "step \<Rightarrow> bool" where
  "unrecognized (Key k) = (k \<notin> set MONETARY_FIELDS \<and> k \<noteq> ''__proto__'')"
| "unrecognized (Idx i) = True"

fun is_scalar :: "jsval \<Rightarrow> bool" where
  "is_scalar (JArr _) = False"
| "is_scalar (JObj _) = False"
| "is_scalar _ = True"

section \<open>The conversion on a store\<close>

text \<open>
  To say that the conversion leaves its argument alone, the arrays and objects are
  placed in a store: a value is a primitive or a reference to an array or an object of
  the store, an address is an index of the store, and a new array or object takes the
  next index.
\<close>

type_synonym addr = nat

datatype hval = HUndefined | HNull | HBool bool | HNum jsnum | HStr string | HRef addr

datatype hobj = HArray "hval list" | HObject "(string \<times> hval) list"

type_synonym heap = "hobj list"

text \<open>
  \<^verbatim>\<open>data[k]\<close> on the array at an address, \<^verbatim>\<open>A[k] = x\<close> on the array that
  \<^verbatim>\<open>map\<close> creates with the length of its source, and \<^verbatim>\<open>converted[key] = x\<close>, which
  replaces the value of a key the object has and adds the key at the end otherwise; the
  key \<^verbatim>\<open>__proto__\<close> adds no property (the store holds own properties, not prototypes).
\<close>

definition get_index :: "heap \<Rightarrow> addr \<Rightarrow> nat \<Rightarrow> hval" where
  "get_index h a k =
     (case h ! a of
        HArray items \<Rightarrow> if k < length items then items ! k else HUndefined
      | HObject _ \<Rightarrow> HUndefined)"

definition set_index :: "heap \<Rightarrow> addr \<Rightarrow> nat \<Rightarrow> hval \<Rightarrow> heap" where
  "set_index h c k x =
     (case h ! c of
        HArray out \<Rightarrow> h[c := HArray (out[k := x])]
      | HObject _ \<Rightarrow> h)"

definition set_property :: "heap \<Rightarrow> addr \<Rightarrow> string \<Rightarrow> hval \<Rightarrow> heap" where
  "set_property h c key x =
     (if key = ''__proto__'' then h
      else (case h ! c of
              HObject obj \<Rightarrow> h[c := HObject (AList.update key x obj)]
            | HArray _ \<Rightarrow> h))"

definition convert_monetary_h :: "hval \<Rightarrow> hval" where
  "convert_monetary_h v =
     (case v of
        HNum n \<Rightarrow> HNum (groszeToPLN (Inl n))
      | HStr s \<Rightarrow> HNum (groszeToPLN (Inr s))
      | _ \<Rightarrow> v)"

text \<open>
  \<^verbatim>\<open>convertAllMonetaryFields\<close> on the store. The first argument bounds the depth of the
  recursion, which has no end on a cyclic structure: \<open>None\<close> is the call that does not
  return within the bound (or that follows a reference to nothing). \<open>convert_items_h\<close>
  is \<^verbatim>\<open>data.map(...)\<close>, which reads \<^verbatim>\<open>data[k]\<close> when it gets to \<open>k\<close>, and
  \<open>convert_entries_h\<close> is the loop over \<^verbatim>\<open>Object.entries(obj)\<close>, taken before the loop.
\<close>

function convertAllMonetaryFields_h :: "nat \<Rightarrow> heap \<Rightarrow> hval \<Rightarrow> (hval \<times> heap) option"
  and convert_items_h :: "nat \<Rightarrow> heap \<Rightarrow> addr \<Rightarrow> addr \<Rightarrow> nat \<Rightarrow> nat \<Rightarrow> heap option"
  and convert_entries_h :: "nat \<Rightarrow> heap \<Rightarrow> (string \<times> hval) list \<Rightarrow> addr \<Rightarrow> heap option" where
  "convertAllMonetaryFields_h 0 h data = None"
| "convertAllMonetaryFields_h (Suc n) h data =
     (case data of
        HNull \<Rightarrow> Some (data, h)
      | HUndefined \<Rightarrow> Some (data, h)
      | HRef a \<Rightarrow>
          if a < length h
          then (case h ! a of
                  HArray items \<Rightarrow>
                    (case convert_items_h n (h @ [HArray (replicate (length items) HUndefined)])
                            a (length h) 0 (length items) of
                       None \<Rightarrow> None
                     | Some h' \<Rightarrow> Some (HRef (length h), h'))
                | HObject obj \<Rightarrow>
                    (case convert_entries_h n (h @ [HObject []]) obj (length h) of
                       None \<Rightarrow> None
                     | Some h' \<Rightarrow> Some (HRef (length h), h')))
          else None
      | _ \<Rightarrow> Some (data, h))"
| "convert_items_h n h a c k len =
     (if k < len
      then (case convertAllMonetaryFields_h n h (get_index h a k) of
              None \<Rightarrow> None
            | Some (x, h') \<Rightarrow> convert_items_h n (set_index h' c k x) a c (Suc k) len)
      else Some h)"
| "convert_entries_h n h [] c = Some h"
| "convert_entries_h n h ((key, v) # entries) c =
     (if key \<in> set MONETARY_FIELDS
      then convert_entries_h n (set_property h c key (convert_monetary_h v)) entries c
      else (case convertAllMonetaryFields_h n h v of
              None \<Rightarrow> None
            | Some (x, h') \<Rightarrow> convert_entries_h n (set_property h' c key x) entries c))"
  by pat_completeness auto
termination
  by (relation
      "inv_image (less_than <*lex*> less_than <*lex*> less_than)
         (\<lambda>x. case x of
                Inl (n, h, data) \<Rightarrow> (n, 0, 0)
              | Inr (Inl (n, h, a, c, k, len)) \<Rightarrow> (n, 1, len - k)
              | Inr (Inr (n, h, entries, c)) \<Rightarrow> (n, 1, length entries))")
    auto

declare convert_items_h.simps [simp del]

text \<open>
  A value of the store stands for a tree when following its references gives the tree.
  The first argument is the set of addresses that may be followed; the keys of an object
  are pairwise distinct.
\<close>

fun repr :: "(addr \<Rightarrow> bool) \<Rightarrow> heap \<Rightarrow> hval \<Rightarrow> jsval \<Rightarrow> bool"
  and repr_items :: "(addr \<Rightarrow> bool) \<Rightarrow> heap \<Rightarrow> hval list \<Rightarrow> jsval list \<Rightarrow> bool"
  and repr_entries :: "(addr \<Rightarrow> bool) \<Rightarrow> heap \<Rightarrow> (string \<times> hval) list \<Rightarrow> props \<Rightarrow> bool" where
  "repr P h v JUndefined = (v = HUndefined)"
| "repr P h v JNull = (v = HNull)"
| "repr P h v (JBool b) = (v = HBool b)"
| "repr P h v (JNum n) = (v = HNum n)"
| "repr P h v (JStr s) = (v = HStr s)"
| "repr P h v (JArr ts) =
     (case v of
        HRef a \<Rightarrow>
          P a \<and> a < length h \<and>
          (case h ! a of HArray items \<Rightarrow> repr_items P h items ts | HObject _ \<Rightarrow> False)
      | _ \<Rightarrow> False)"
| "repr P h v (JObj ts) =
     (case v of
        HRef a \<Rightarrow>
          P a \<and> a < length h \<and>
          (case h ! a of
             HObject obj \<Rightarrow> distinct (map fst obj) \<and> repr_entries P h obj ts
           | HArray _ \<Rightarrow> False)
      | _ \<Rightarrow> False)"
| "repr_items P h [] [] = True"
| "repr_items P h (v # vs) (t # ts) = (repr P h v t \<and> repr_items P h vs ts)"
| "repr_items P h _ _ = False"
| "repr_entries P h [] [] = True"
| "repr_entries P h ((k, v) # es) ((k', t) # ts) =
     (k = k' \<and> repr P h v t \<and> repr_entries P h es ts)"
| "repr_entries P h _ _ = False"

fun depth :: "jsval \<Rightarrow> nat"
  and depth_items :: "jsval list \<Rightarrow> nat"
  and depth_entries :: "props \<Rightarrow> nat" where
  "depth (JArr ts) = Suc (depth_items ts)"
| "depth (JObj ts) = Suc (depth_entries ts)"
| "depth JUndefined = 0"
| "depth JNull = 0"
| "depth (JBool _) = 0"
| "depth (JNum _) = 0"
| "depth (JStr _) = 0"
| "depth_items [] = 0"
| "depth_items (t # ts) = max (depth t) (depth_items ts)"
| "depth_entries [] = 0"
| "depth_entries ((k, t) # ts) = max (depth t) (depth_entries ts)"

text \<open>
  What is shown of the conversion on the store, for a tree \<open>t\<close>, by induction on \<open>t\<close>:
  on every store and value that stand for \<open>t\<close>, with a bound above the depth of \<open>t\<close>,
  the call returns, the store it returns starts with the store it was given, and the
  value it returns stands for the converted tree, through the addresses that were
  followed before and the new ones.
\<close>

definition conv_ok :: "jsval \<Rightarrow> bool" where
  "conv_ok t \<longleftrightarrow>
     (\<forall>n h v P. repr P h v t \<longrightarrow> (\<forall>a. P a \<longrightarrow> a < length h) \<longrightarrow> depth t < n \<longrightarrow>
        (\<exists>v' h'. convertAllMonetaryFields_h n h v = Some (v', h') \<and>
           length h \<le> length h' \<and> take (length h) h' = h \<and>
           repr (\<lambda>a. P a \<or> length h \<le> a) h' v' (convertAllMonetaryFields t) \<and>
           (if is_scalar t then v' = v \<and> h' = h else v' = HRef (length h))))"

section \<open>Strings of values\<close>

text \<open>
  \<^verbatim>\<open>Number::toString\<close>: the shortest decimal digits \<open>s\<close> (\<open>k\<close> of them) and exponent \<open>n\<close>
  such that \<open>s * 10 ^ (n - k)\<close> rounds to the number, the nearest to the number when
  several have \<open>k\<close> digits. \<open>ilog10 x\<close> is the \<open>n\<close> with \<open>10 ^ (n - 1) \<le> x < 10 ^ n\<close>.
\<close>

definition ilog10 :: "rat \<Rightarrow> int" where
  "ilog10 x =
     (if 1 \<le> x then int (floorlog 10 (nat \<lfloor>x\<rfloor>))
      else let d = int (floorlog 10 (nat \<lfloor>1 / x\<rfloor>))
           in if x = 10 powi (1 - d) then 2 - d else 1 - d)"

definition digit_candidates :: "rat \<Rightarrow> nat \<Rightarrow> (int \<times> int) list" where
  "digit_candidates x k =
     (let n = ilog10 x; sc = x / 10 powi (n - int k); lo = \<lfloor>sc\<rfloor>
      in filter (\<lambda>(s, m). to_double (of_int s * 10 powi (m - int k)) = Fin x)
           ((lo, n) #
            (if of_int lo = sc then []
             else if lo + 1 = 10 ^ k then [(10 ^ (k - 1), n + 1)]
             else [(lo + 1, n)])))"

definition nearest_candidate :: "rat \<Rightarrow> nat \<Rightarrow> (int \<times> int) list \<Rightarrow> (int \<times> int) option" where
  "nearest_candidate x k cs =
     (case cs of
        [] \<Rightarrow> None
      | [c] \<Rightarrow> Some c
      | (s1, n1) # (s2, n2) # _ \<Rightarrow>
          let d1 = \<bar>of_int s1 * 10 powi (n1 - int k) - x\<bar>;
              d2 = \<bar>of_int s2 * 10 powi (n2 - int k) - x\<bar>
          in if d1 < d2 \<or> (d1 = d2 \<and> even s1) then Some (s1, n1) else Some (s2, n2))"

fun shortest_digits :: "rat \<Rightarrow> nat list \<Rightarrow> (int \<times> nat \<times> int)" where
  "shortest_digits x [] = (\<lfloor>x / 10 powi (ilog10 x - 17)\<rfloor>, 17, ilog10 x)"
| "shortest_digits x (k # ks) =
     (case nearest_candidate x k (digit_candidates x k) of
        Some (s, n) \<Rightarrow> (s, k, n)
      | None \<Rightarrow> shortest_digits x ks)"

definition positive_to_string :: "rat \<Rightarrow> string" where
  "positive_to_string x =
     (case shortest_digits x [1 ..< 18] of
        (s, k, n) \<Rightarrow>
          let ds = nat_to_string (nat s)
          in if int k \<le> n \<and> n \<le> 21 then ds @ replicate (nat (n - int k)) CHR ''0''
             else if 0 < n \<and> n \<le> 21 then take (nat n) ds @ ''.'' @ drop (nat n) ds
             else if - 6 < n \<and> n \<le> 0 then ''0.'' @ replicate (nat (- n)) CHR ''0'' @ ds
             else
               (let e = n - 1;
                    es = (if e < 0 then ''-'' else ''+'') @ nat_to_string (nat \<bar>e\<bar>)
                in if k = 1 then ds @ ''e'' @ es
                   else take 1 ds @ ''.'' @ drop 1 ds @ ''e'' @ es))"

fun Number_toString :: "jsnum \<Rightarrow> string" where
  "Number_toString NaN = ''NaN''"
| "Number_toString PInf = ''Infinity''"
| "Number_toString NInf = ''-Infinity''"
| "Number_toString (Fin x) =
     (if x = 0 then ''0''
      else if x < 0 then ''-'' @ positive_to_string (- x)
      else positive_to_string x)"

text \<open>
  \<^verbatim>\<open>String(v)\<close> and the string a template literal puts for \<^verbatim>\<open>${v}\<close>: an array is its
  elements joined by commas, null and undefined among them giving the empty string; an
  object (one without a \<^verbatim>\<open>toString\<close> of its own) is \<^verbatim>\<open>[object Object]\<close>.
\<close>

fun String :: "jsval \<Rightarrow> string"
  and String_elements :: "jsval list \<Rightarrow> string list" where
  "String JUndefined = ''undefined''"
| "String JNull = ''null''"
| "String (JBool b) = (if b then ''true'' else ''false'')"
| "String (JNum n) = Number_toString n"
| "String (JStr s) = s"
| "String (JArr items) = join '','' (String_elements items)"
| "String (JObj _) = ''[object Object]''"
| "String_elements [] = []"
| "String_elements (item # items) =
     (if item = JUndefined \<or> item = JNull then [] else String item) # String_elements items"

text \<open>\<^verbatim>\<open>items.join(sep)\<close> on an array of values.\<close>

definition Array_join :: "jsval list \<Rightarrow> string \<Rightarrow> string" where
  "Array_join items sep = join sep (String_elements items)"

text \<open>
  \<^verbatim>\<open>JSON.stringify(value)\<close> and \<^verbatim>\<open>JSON.stringify(value, null, 2)\<close>. The first argument
  of \<open>json\<close> is the gap (empty, or two spaces), the second the current indentation.
  \<open>None\<close> is the result \<^verbatim>\<open>undefined\<close>: of the value undefined itself, whose property is
  left out of an object and which is \<^verbatim>\<open>null\<close> in an array.
\<close>

definition hex_digit :: "nat \<Rightarrow> char" where
  "hex_digit n = ''0123456789abcdef'' ! n"

definition quote_char :: "char \<Rightarrow> string" where
  "quote_char c =
     (let n = (of_char c :: nat)
      in if n = 8 then [CHR 0x5C, CHR ''b'']
         else if n = 9 then [CHR 0x5C, CHR ''t'']
         else if n = 10 then [CHR 0x5C, CHR ''n'']
         else if n = 12 then [CHR 0x5C, CHR ''f'']
         else if n = 13 then [CHR 0x5C, CHR ''r'']
         else if n = 34 then [CHR 0x5C, CHR 0x22]
         else if n = 92 then [CHR 0x5C, CHR 0x5C]
         else if n < 32 then [CHR 0x5C, CHR ''u'', CHR ''0'', CHR ''0'', hex_digit (n div 16),
                              hex_digit (n mod 16)]
         else [c])"

definition QuoteJSONString :: "string \<Rightarrow> string" where
  "QuoteJSONString s = [CHR 0x22] @ concat (map quote_char s) @ [CHR 0x22]"

definition json_wrap :: "string \<Rightarrow> string \<Rightarrow> string \<Rightarrow> string \<Rightarrow> string list \<Rightarrow> string" where
  "json_wrap gap ind opening closing partial =
     (if partial = [] then opening @ closing
      else if gap = [] then opening @ join '','' partial @ closing
      else opening @ [CHR 0x0A] @ (ind @ gap) @
           join ('','' @ [CHR 0x0A] @ (ind @ gap)) partial @ [CHR 0x0A] @ ind @ closing)"

fun json :: "string \<Rightarrow> string \<Rightarrow> jsval \<Rightarrow> string option"
  and json_elements :: "string \<Rightarrow> string \<Rightarrow> jsval list \<Rightarrow> string list"
  and json_members :: "string \<Rightarrow> string \<Rightarrow> props \<Rightarrow> string list" where
  "json gap ind JUndefined = None"
| "json gap ind JNull = Some ''null''"
| "json gap ind (JBool b) = Some (if b then ''true'' else ''false'')"
| "json gap ind (JNum n) = Some (if Number_isFinite n then Number_toString n else ''null'')"
| "json gap ind (JStr s) = Some (QuoteJSONString s)"
| "json gap ind (JArr items) =
     Some (json_wrap gap ind ''['' '']'' (json_elements gap (ind @ gap) items))"
| "json gap ind (JObj obj) =
     Some (json_wrap gap ind ''{'' ''}'' (json_members gap (ind @ gap) obj))"
| "json_elements gap ind [] = []"
| "json_elements gap ind (item # items) =
     (case json gap ind item of None \<Rightarrow> ''null'' | Some s \<Rightarrow> s) # json_elements gap ind items"
| "json_members gap ind [] = []"
| "json_members gap ind ((key, v) # obj) =
     (case json gap ind v of
        None \<Rightarrow> json_members gap ind obj
      | Some s \<Rightarrow>
          (QuoteJSONString key @ '':'' @ (if gap = [] then [] else '' '') @ s) #
          json_members gap ind obj)"

definition JSON_stringify :: "jsval \<Rightarrow> string option" where
  "JSON_stringify v = json [] [] v"

definition JSON_stringify_2 :: "jsval \<Rightarrow> string option" where
  "JSON_stringify_2 v = json ''  '' [] v"

text \<open>The string a template literal puts for \<^verbatim>\<open>${JSON.stringify(v)}\<close>.\<close>

definition template_of :: "string option \<Rightarrow> string" where
  "template_of r = (case r of Some s \<Rightarrow> s | None \<Rightarrow> ''undefined'')"

section \<open>Configuration (config.ts)\<close>

text \<open>
  \<^verbatim>\<open>process.env\<close> maps names to strings. \<^verbatim>\<open>new URL(url)\<close> is the platform's parser of
  URLs: whether it returns or throws on a string is the parameter \<open>URL_parses\<close>.
\<close>

type_synonym env = "string \<rightharpoonup> string"

record ServerConfig =
  apiKey :: string
  baseUrl :: string
  useSandbox :: bool

definition API_ENDPOINTS_PRODUCTION :: string where
  "API_ENDPOINTS_PRODUCTION = ''https://api.infakt.pl/api/v3''"

definition API_ENDPOINTS_SANDBOX :: string where
  "API_ENDPOINTS_SANDBOX = ''https://api.sandbox-infakt.pl/api/v3''"

definition requireEnvVar :: "env \<Rightarrow> string \<Rightarrow> js_error + string" where
  "requireEnvVar process_env name =
     (case process_env name of
        None \<Rightarrow> Inl (ConfigurationError (''Missing required environment variable: '' @ name))
      | Some v \<Rightarrow>
          if v = [] then Inl (ConfigurationError (''Missing required environment variable: '' @ name))
          else Inr v)"

definition parseBooleanEnvVar :: "env \<Rightarrow> string \<Rightarrow> bool \<Rightarrow> bool" where
  "parseBooleanEnvVar process_env name defaultValue =
     (case process_env name of
        None \<Rightarrow> defaultValue
      | Some v \<Rightarrow> v = ''true'' \<or> v = ''1'')"

definition validateApiKey :: "string \<Rightarrow> js_error + unit" where
  "validateApiKey key =
     (if length key < 10
      then Inl (ConfigurationError ''Invalid API key format: key appears to be too short'')
      else Inr ())"

definition validateUrl :: "(string \<Rightarrow> bool) \<Rightarrow> string \<Rightarrow> js_error + unit" where
  "validateUrl URL_parses url =
     (if URL_parses url then Inr () else Inl (ConfigurationError (''Invalid URL format: '' @ url)))"

definition loadConfig :: "(string \<Rightarrow> bool) \<Rightarrow> env \<Rightarrow> js_error + ServerConfig" where
  "loadConfig URL_parses process_env =
     (case requireEnvVar process_env ''INFAKT_API_KEY'' of
        Inl e \<Rightarrow> Inl e
      | Inr key \<Rightarrow>
          (case validateApiKey key of
             Inl e \<Rightarrow> Inl e
           | Inr _ \<Rightarrow>
               let sandbox = parseBooleanEnvVar process_env ''INFAKT_USE_SANDBOX'' False;
                   customBaseUrl = process_env ''INFAKT_BASE_URL'';
                   url = (if sandbox then API_ENDPOINTS_SANDBOX
                          else (case customBaseUrl of
                                  Some u \<Rightarrow> u
                                | None \<Rightarrow> API_ENDPOINTS_PRODUCTION))
               in (case validateUrl URL_parses url of
                     Inl e \<Rightarrow> Inl e
                   | Inr _ \<Rightarrow> Inr \<lparr>apiKey = key, baseUrl = url, useSandbox = sandbox\<rparr>)))"

section \<open>Error translation (api-client.ts)\<close>

text \<open>
  \<^verbatim>\<open>extractErrorMessage\<close>. \<^verbatim>\<open>!status\<close> holds without a response and for the status 0.
\<close>

definition status_message :: "nat \<Rightarrow> string" where
  "status_message status =
     (if status = 400 then ''Bad request: Invalid parameters''
      else if status = 401 then ''Unauthorized: Invalid or missing API key''
      else if status = 403 then ''Forbidden: Insufficient permissions''
      else if status = 404 then ''Not found: Resource does not exist''
      else if status = 422 then ''Unprocessable entity: Validation failed''
      else if status = 429 then ''Too many requests: Rate limit exceeded''
      else if status = 500 then ''Internal server error''
      else if status = 503 then ''Service unavailable: API is temporarily down''
      else ''API error: '' @ nat_to_string status)"

definition body_message :: "jsval \<Rightarrow> string option" where
  "body_message dataObj =
     (case get_member dataObj ''message'' of
        JStr m \<Rightarrow> Some m
      | _ \<Rightarrow>
          (case get_member dataObj ''error'' of
             JStr m \<Rightarrow> Some m
           | _ \<Rightarrow>
               (case get_member dataObj ''errors'' of
                  JStr m \<Rightarrow> Some m
                | JArr errors \<Rightarrow> if length errors > 0 then Some (Array_join errors '', '') else None
                | _ \<Rightarrow> None)))"

definition extractErrorMessage :: "axios_error \<Rightarrow> string" where
  "extractErrorMessage error =
     (case ax_response error of
        None \<Rightarrow> if ax_message error = [] then ''Network error occurred'' else ax_message error
      | Some (status, d) \<Rightarrow>
          if status = 0
          then (if ax_message error = [] then ''Network error occurred'' else ax_message error)
          else
            (case (if truthy d \<and> typeof d = ''object'' then body_message d else None) of
               Some m \<Rightarrow> m
             | None \<Rightarrow> status_message status))"

text \<open>
  \<^verbatim>\<open>handleApiError\<close> always throws; the model returns what it throws. The lines it
  writes to the error stream are left out.
\<close>

definition handleApiError :: "js_error \<Rightarrow> js_error" where
  "handleApiError error =
     (if instanceof_McpError error then error
      else
        (case error of
           AxiosError axiosError \<Rightarrow>
             let status = map_option fst (ax_response axiosError);
                 d = (case ax_response axiosError of Some (_, b) \<Rightarrow> b | None \<Rightarrow> JUndefined);
                 message = extractErrorMessage axiosError;
                 errorCode =
                   (if status = Some 400 \<or> status = Some 422 then InvalidParams
                    else if status = Some 401 \<or> status = Some 403 then InvalidRequest
                    else if status = Some 404 then InvalidRequest
                    else InternalError)
             in McpError errorCode
                  (''inFakt API error ('' @
                   (case status of Some n \<Rightarrow> nat_to_string n | None \<Rightarrow> ''unknown'') @
                   ''): '' @ message @
                   (if truthy d then [CHR 0x0A] @ ''Details: '' @ template_of (JSON_stringify d)
                    else []))
         | InfaktApiError statusCode _ m \<Rightarrow>
             McpError InternalError
               (''inFakt API error ('' @ nat_to_string statusCode @ ''): '' @ m)
         | Thrown v \<Rightarrow> McpError InternalError (''Unexpected error: '' @ String v)
         | _ \<Rightarrow> McpError InternalError (''Unexpected error: '' @ error_message error)))"

section \<open>The remote client (api-client.ts)\<close>

text \<open>
  The HTTP client is an interface: what it answers to a request is a field of
  \<open>AxiosInstance\<close>, an answer being the decoded body of a 2xx response or the error
  the library throws. The requests made are kept, in order, beside the result of a
  computation (\<open>io\<close>), so that a result with no request is one obtained before any
  call. A response of type \<^verbatim>\<open>arraybuffer\<close> is a list of bytes.
\<close>

datatype http_method = GET | POST | PUT | DELETE

record request =
  req_method :: http_method
  req_url :: string
  req_data :: jsval
  req_config :: jsval

record AxiosInstance =
  respond :: "request \<Rightarrow> js_error + jsval"
  respond_binary :: "request \<Rightarrow> js_error + nat list"

type_synonym 'a io = "(js_error + 'a) \<times> request list"

definition ApiClient_request :: "AxiosInstance \<Rightarrow> request \<Rightarrow> jsval io" where
  "ApiClient_request client req =
     (case respond client req of
        Inl error \<Rightarrow> (Inl (handleApiError error), [req])
      | Inr d \<Rightarrow> (Inr d, [req]))"

definition ApiClient_get :: "AxiosInstance \<Rightarrow> string \<Rightarrow> jsval \<Rightarrow> jsval io" where
  "ApiClient_get client url config =
     ApiClient_request client
       \<lparr>req_method = GET, req_url = url, req_data = JUndefined, req_config = config\<rparr>"

definition ApiClient_post :: "AxiosInstance \<Rightarrow> string \<Rightarrow> jsval \<Rightarrow> jsval io" where
  "ApiClient_post client url d =
     ApiClient_request client
       \<lparr>req_method = POST, req_url = url, req_data = d, req_config = JUndefined\<rparr>"

definition ApiClient_put :: "AxiosInstance \<Rightarrow> string \<Rightarrow> jsval \<Rightarrow> jsval io" where
  "ApiClient_put client url d =
     ApiClient_request client
       \<lparr>req_method = PUT, req_url = url, req_data = d, req_config = JUndefined\<rparr>"

definition ApiClient_delete :: "AxiosInstance \<Rightarrow> string \<Rightarrow> jsval io" where
  "ApiClient_delete client url =
     ApiClient_request client
       \<lparr>req_method = DELETE, req_url = url, req_data = JUndefined, req_config = JUndefined\<rparr>"

text \<open>\<^verbatim>\<open>{ ...config, responseType: "arraybuffer" }\<close>\<close>

definition with_responseType :: "jsval \<Rightarrow> jsval" where
  "with_responseType config =
     (case config of
        JObj ps \<Rightarrow> JObj (AList.update ''responseType'' (JStr ''arraybuffer'') ps)
      | _ \<Rightarrow> JObj [(''responseType'', JStr ''arraybuffer'')])"

definition ApiClient_getBinary :: "AxiosInstance \<Rightarrow> string \<Rightarrow> jsval \<Rightarrow> (nat list) io" where
  "ApiClient_getBinary client url config =
     (let req = \<lparr>req_method = GET, req_url = url, req_data = JUndefined,
                 req_config = with_responseType config\<rparr>
      in case respond_binary client req of
           Inl error \<Rightarrow> (Inl (handleApiError error), [req])
         | Inr d \<Rightarrow> (Inr d, [req]))"

section \<open>Tool handlers\<close>

text \<open>
  A handler validates, makes one call and shapes the answer. \<open>validated c k\<close> is the
  statements \<open>c\<close> followed by \<open>k\<close>: when one of \<open>c\<close> throws, \<open>k\<close> is not reached and no
  request is made. \<open>respond_with r f\<close> awaits the call \<open>r\<close> and returns \<open>f\<close> of its
  result.
\<close>

record TextContent =
  content_type :: string
  content_text :: "string option"

record ToolResponse =
  content :: "TextContent list"

type_synonym ToolHandler = "AxiosInstance \<Rightarrow> jsval \<Rightarrow> ToolResponse io"

definition validated :: "js_error + unit \<Rightarrow> 'a io \<Rightarrow> 'a io" where
  "validated c k = (case c of Inl e \<Rightarrow> (Inl e, []) | Inr _ \<Rightarrow> k)"

definition respond_with :: "'b io \<Rightarrow> ('b \<Rightarrow> ToolResponse) \<Rightarrow> ToolResponse io" where
  "respond_with r f = (case r of (Inl e, reqs) \<Rightarrow> (Inl e, reqs) | (Inr d, reqs) \<Rightarrow> (Inr (f d), reqs))"

text \<open>
  \<^verbatim>\<open>params.key\<close> throws a \<^verbatim>\<open>TypeError\<close> when \<^verbatim>\<open>params\<close> is undefined or null; on any
  other value the names the handlers read are own properties of an object or undefined
  (\<open>get_member\<close>).
\<close>

definition reads :: "jsval \<Rightarrow> string \<Rightarrow> js_error + unit" where
  "reads params key =
     (if params = JUndefined \<or> params = JNull
      then Inl (Error (''Cannot read properties of '' @ String params @ '' (reading '' @
                       [CHR 0x27] @ key @ [CHR 0x27] @ '')''))
      else Inr ())"

definition own_props :: "jsval \<Rightarrow> props" where
  "own_props v = (case v of JObj ps \<Rightarrow> ps | _ \<Rightarrow> [])"

text \<open>\<^verbatim>\<open>const { key, ...rest } = params\<close>\<close>

definition rest_without :: "string \<Rightarrow> jsval \<Rightarrow> jsval" where
  "rest_without key params = JObj (filter (\<lambda>(k, v). k \<noteq> key) (own_props params))"

text \<open>\<^verbatim>\<open>if (params.key) filters.name = params.key\<close>\<close>

definition filter_entry :: "jsval \<Rightarrow> string \<Rightarrow> string \<Rightarrow> props" where
  "filter_entry params key name =
     (if truthy (get_member params key) then [(name, get_member params key)] else [])"

text \<open>\<^verbatim>\<open>if (Object.keys(filters).length > 0) queryParams.q = filters\<close>\<close>

definition with_filters :: "props \<Rightarrow> props \<Rightarrow> jsval" where
  "with_filters queryParams filters =
     JObj (if length filters > 0 then queryParams @ [(''q'', JObj filters)] else queryParams)"

definition createTextResponse :: "string \<Rightarrow> ToolResponse" where
  "createTextResponse t = \<lparr>content = [\<lparr>content_type = ''text'', content_text = Some t\<rparr>]\<rparr>"

subsection \<open>Invoices (invoice-handlers.ts)\<close>

definition PAYMENT_METHODS :: "string list" where
  "PAYMENT_METHODS =
     [''cash'', ''transfer'', ''card'', ''barter'', ''check'', ''bill_of_sale'', ''delivery'',
      ''compensation'', ''accredited'', ''paypal'', ''payu'', ''tpay'', ''przelewy24'', ''dotpay'',
      ''other'']"

definition INVOICE_STATUSES :: "string list" where
  "INVOICE_STATUSES = [''draft'', ''paid'', ''printed'', ''sent'']"

definition DOCUMENT_TYPES :: "string list" where
  "DOCUMENT_TYPES =
     [''original'', ''copy'', ''original_copy'', ''duplicate'', ''original_duplicate'',
      ''copy_duplicate'', ''regular'', ''double_regular'']"

definition LOCALES :: "string list" where
  "LOCALES = [''pl'', ''en'', ''pe'']"

definition createJsonResponse_invoice :: "jsval \<Rightarrow> ToolResponse" where
  "createJsonResponse_invoice d =
     (let convertedData = convertAllMonetaryFields d
      in \<lparr>content = [\<lparr>content_type = ''text'',
                       content_text = JSON_stringify_2 convertedData\<rparr>]\<rparr>)"

definition createInvoice :: ToolHandler where
  "createInvoice apiClient params =
     validated
       (checks
          [ reads params ''client_company_name'',
            validateRequiredString (get_member params ''client_company_name'')
              ''client_company_name'',
            validateRequiredString (get_member params ''payment_method'') ''payment_method'',
            validateEnum (get_member params ''payment_method'') ''payment_method'' PAYMENT_METHODS,
            only_if (\<not> truthy (get_member params ''services''))
              (Inl (Error ''services is required'')),
            validateArray (get_member params ''services'') ''services''
              (Some validateInvoiceService),
            only_if (get_member params ''status'' \<noteq> JUndefined)
              (validateEnum (get_member params ''status'') ''status'' INVOICE_STATUSES),
            only_if (get_member params ''status'' = JStr ''paid'')
              (checks
                 [ only_if (\<not> truthy (get_member params ''paid_date''))
                     (Inl (Error (''paid_date is required when status is '' @
                                  [CHR 0x27] @ ''paid'' @ [CHR 0x27]))),
                   validateDateString (get_member params ''paid_date'') ''paid_date'' ]),
            only_if (get_member params ''invoice_date'' \<noteq> JUndefined)
              (validateDateString (get_member params ''invoice_date'') ''invoice_date''),
            only_if (get_member params ''sale_date'' \<noteq> JUndefined)
              (validateDateString (get_member params ''sale_date'') ''sale_date''),
            only_if (get_member params ''payment_date'' \<noteq> JUndefined)
              (validateDateString (get_member params ''payment_date'') ''payment_date'') ])
       (respond_with
          (ApiClient_post apiClient ''/async/invoices.json'' (JObj [(''invoice'', params)]))
          createJsonResponse_invoice)"

definition checkInvoiceStatus :: ToolHandler where
  "checkInvoiceStatus apiClient params =
     validated
       (checks
          [ reads params ''task_reference_number'',
            validateRequiredString (get_member params ''task_reference_number'')
              ''task_reference_number'' ])
       (respond_with
          (ApiClient_get apiClient
             (''/async/invoices/status/'' @ String (get_member params ''task_reference_number'') @
              ''.json'')
             JUndefined)
          createJsonResponse_invoice)"

definition listInvoices :: ToolHandler where
  "listInvoices apiClient params =
     validated
       (checks
          [ reads params ''offset'',
            validatePaginationParams (own_props params),
            only_if (truthy (get_member params ''number''))
              (validateRequiredString (get_member params ''number'') ''number''),
            only_if (truthy (get_member params ''client_company_name''))
              (validateRequiredString (get_member params ''client_company_name'')
                 ''client_company_name''),
            only_if (truthy (get_member params ''status''))
              (validateEnum (get_member params ''status'') ''status'' INVOICE_STATUSES),
            only_if (truthy (get_member params ''invoice_date_from''))
              (validateDateString (get_member params ''invoice_date_from'') ''invoice_date_from''),
            only_if (truthy (get_member params ''invoice_date_to''))
              (validateDateString (get_member params ''invoice_date_to'') ''invoice_date_to'') ])
       (let queryParams =
              sanitizeParams
                [ (''offset'', get_member params ''offset''),
                  (''limit'', get_member params ''limit''),
                  (''order'', get_member params ''order''),
                  (''fields'', get_member params ''fields'') ];
            filters =
              filter_entry params ''number'' ''number_eq'' @
              filter_entry params ''client_company_name'' ''client_company_name_cont'' @
              filter_entry params ''status'' ''status_eq'' @
              filter_entry params ''invoice_date_from'' ''invoice_date_gteq'' @
              filter_entry params ''invoice_date_to'' ''invoice_date_lteq''
        in respond_with
             (ApiClient_get apiClient ''/invoices.json''
                (JObj [(''params'', with_filters queryParams filters)]))
             createJsonResponse_invoice)"

definition getInvoice :: ToolHandler where
  "getInvoice apiClient params =
     validated
       (checks
          [ reads params ''invoice_uuid'',
            validateUUID (get_member params ''invoice_uuid'') ''invoice_uuid'' ])
       (let queryParams = sanitizeParams [(''fields'', get_member params ''fields'')]
        in respond_with
             (ApiClient_get apiClient
                (''/invoices/'' @ String (get_member params ''invoice_uuid'') @ ''.json'')
                (JObj [(''params'', JObj queryParams)]))
             createJsonResponse_invoice)"

definition updateInvoice :: ToolHandler where
  "updateInvoice apiClient params =
     validated
       (checks
          [ reads params ''invoice_uuid'',
            validateUUID (get_member params ''invoice_uuid'') ''invoice_uuid'',
            only_if (get_member params ''payment_method'' \<noteq> JUndefined)
              (validateEnum (get_member params ''payment_method'') ''payment_method''
                 PAYMENT_METHODS),
            only_if (get_member params ''invoice_date'' \<noteq> JUndefined)
              (validateDateString (get_member params ''invoice_date'') ''invoice_date''),
            only_if (get_member params ''sale_date'' \<noteq> JUndefined)
              (validateDateString (get_member params ''sale_date'') ''sale_date''),
            only_if (get_member params ''payment_date'' \<noteq> JUndefined)
              (validateDateString (get_member params ''payment_date'') ''payment_date''),
            only_if (get_member params ''services'' \<noteq> JUndefined)
              (validateArray (get_member params ''services'') ''services''
                 (Some validateInvoiceService)) ])
       (let invoice_uuid = get_member params ''invoice_uuid'';
            invoiceData = rest_without ''invoice_uuid'' params
        in respond_with
             (ApiClient_put apiClient (''/invoices/'' @ String invoice_uuid @ ''.json'')
                (JObj [(''invoice'', invoiceData)]))
             createJsonResponse_invoice)"

definition deleteInvoice :: ToolHandler where
  "deleteInvoice apiClient params =
     validated
       (checks
          [ reads params ''invoice_uuid'',
            validateUUID (get_member params ''invoice_uuid'') ''invoice_uuid'' ])
       (respond_with
          (ApiClient_delete apiClient
             (''/invoices/'' @ String (get_member params ''invoice_uuid'') @ ''.json''))
          (\<lambda>_. createTextResponse
                 (''Invoice '' @ String (get_member params ''invoice_uuid'') @
                  '' deleted successfully'')))"

text \<open>\<^verbatim>\<open>Buffer.from(pdfData).toString("base64")\<close>, on bytes.\<close>

definition base64_char :: "nat \<Rightarrow> char" where
  "base64_char n =
     ''ABCDEFGHIJKLMNOPQRSTUVWXYZabcdefghijklmnopqrstuvwxyz0123456789+/'' ! n"

fun base64 :: "nat list \<Rightarrow> string" where
  "base64 [] = []"
| "base64 [a] = [base64_char (a div 4), base64_char ((a mod 4) * 16), CHR ''='', CHR ''='']"
| "base64 [a, b] =
     [base64_char (a div 4), base64_char ((a mod 4) * 16 + b div 16),
      base64_char ((b mod 16) * 4), CHR ''='']"
| "base64 (a # b # c # bytes) =
     [base64_char (a div 4), base64_char ((a mod 4) * 16 + b div 16),
      base64_char ((b mod 16) * 4 + c div 64), base64_char (c mod 64)] @ base64 bytes"

definition downloadInvoicePdf :: ToolHandler where
  "downloadInvoicePdf apiClient params =
     validated
       (checks
          [ reads params ''invoice_uuid'',
            validateUUID (get_member params ''invoice_uuid'') ''invoice_uuid'',
            only_if (get_member params ''document_type'' \<noteq> JUndefined)
              (validateEnum (get_member params ''document_type'') ''document_type''
                 DOCUMENT_TYPES),
            only_if (get_member params ''locale'' \<noteq> JUndefined)
              (validateEnum (get_member params ''locale'') ''locale'' LOCALES) ])
       (let queryParams =
              sanitizeParams
                [ (''document_type'', get_member params ''document_type''),
                  (''locale'', get_member params ''locale'') ]
        in respond_with
             (ApiClient_getBinary apiClient
                (''/invoices/'' @ String (get_member params ''invoice_uuid'') @ ''/pdf.json'')
                (JObj [(''params'', JObj queryParams)]))
             (\<lambda>pdfData.
                let base64Pdf = base64 pdfData
                in \<lparr>content =
                      [ \<lparr>content_type = ''text'',
                         content_text =
                           Some (''PDF downloaded successfully. Base64 encoded ('' @
                                 nat_to_string (length base64Pdf) @
                                 '' characters). Use base64 decode to save the file.'')\<rparr>,
                        \<lparr>content_type = ''text'', content_text = Some base64Pdf\<rparr> ]\<rparr>))"

definition sendInvoiceEmail :: ToolHandler where
  "sendInvoiceEmail apiClient params =
     validated
       (checks
          [ reads params ''invoice_uuid'',
            validateUUID (get_member params ''invoice_uuid'') ''invoice_uuid'' ])
       (let invoice_uuid = get_member params ''invoice_uuid'';
            emailData = rest_without ''invoice_uuid'' params
        in respond_with
             (ApiClient_post apiClient
                (''/invoices/'' @ String invoice_uuid @ ''/deliver_via_email.json'')
                (JObj (sanitizeParams (own_props emailData))))
             createJsonResponse_invoice)"

definition markInvoicePaid :: ToolHandler where
  "markInvoicePaid apiClient params =
     validated
       (checks
          [ reads params ''invoice_uuid'',
            validateUUID (get_member params ''invoice_uuid'') ''invoice_uuid'',
            validateDateString (get_member params ''paid_date'') ''paid_date'' ])
       (respond_with
          (ApiClient_post apiClient
             (''/async/invoices/'' @ String (get_member params ''invoice_uuid'') @ ''/paid.json'')
             (JObj [(''paid_date'', get_member params ''paid_date'')]))
          createJsonResponse_invoice)"

subsection \<open>Clients (client-handlers.ts)\<close>

definition BUSINESS_ACTIVITY_KINDS :: "string list" where
  "BUSINESS_ACTIVITY_KINDS = [''company'', ''self_employed'', ''private_person'']"

definition createJsonResponse_client :: "jsval \<Rightarrow> ToolResponse" where
  "createJsonResponse_client d =
     (let convertedData = convertAllMonetaryFields d
      in \<lparr>content = [\<lparr>content_type = ''text'',
                       content_text = JSON_stringify_2 convertedData\<rparr>]\<rparr>)"

definition listClients :: ToolHandler where
  "listClients apiClient params =
     validated
       (checks
          [ reads params ''offset'',
            validatePaginationParams (own_props params),
            only_if (truthy (get_member params ''company_name''))
              (validateRequiredString (get_member params ''company_name'') ''company_name''),
            only_if (truthy (get_member params ''nip''))
              (validateRequiredString (get_member params ''nip'') ''nip''),
            only_if (truthy (get_member params ''email''))
              (validateRequiredString (get_member params ''email'') ''email'') ])
       (let queryParams =
              sanitizeParams
                [ (''offset'', get_member params ''offset''),
                  (''limit'', get_member params ''limit''),
                  (''fields'', get_member params ''fields'') ];
            filters =
              filter_entry params ''company_name'' ''company_name_cont'' @
              filter_entry params ''nip'' ''nip_eq'' @
              filter_entry params ''email'' ''email_eq''
        in respond_with
             (ApiClient_get apiClient ''/clients.json''
                (JObj [(''params'', with_filters queryParams filters)]))
             createJsonResponse_client)"

definition getClient :: ToolHandler where
  "getClient apiClient params =
     validated
       (checks
          [ reads params ''client_id'',
            validatePositiveNumber (get_member params ''client_id'') ''client_id'' ])
       (respond_with
          (ApiClient_get apiClient
             (''/clients/'' @ String (get_member params ''client_id'') @ ''.json'') JUndefined)
          createJsonResponse_client)"

definition createClient :: ToolHandler where
  "createClient apiClient params =
     validated
       (checks
          [ reads params ''company_name'',
            validateRequiredString (get_member params ''company_name'') ''company_name'',
            only_if (get_member params ''business_activity_kind'' \<noteq> JUndefined)
              (validateEnum (get_member params ''business_activity_kind'')
                 ''business_activity_kind'' BUSINESS_ACTIVITY_KINDS) ])
       (respond_with
          (ApiClient_post apiClient ''/clients.json'' (JObj [(''client'', params)]))
          createJsonResponse_client)"

definition updateClient :: ToolHandler where
  "updateClient apiClient params =
     validated
       (checks
          [ reads params ''client_id'',
            validatePositiveNumber (get_member params ''client_id'') ''client_id'' ])
       (let client_id = get_member params ''client_id'';
            clientData = rest_without ''client_id'' params
        in respond_with
             (ApiClient_put apiClient (''/clients/'' @ String client_id @ ''.json'')
                (JObj [(''client'', clientData)]))
             createJsonResponse_client)"

definition deleteClient :: ToolHandler where
  "deleteClient apiClient params =
     validated
       (checks
          [ reads params ''client_id'',
            validatePositiveNumber (get_member params ''client_id'') ''client_id'' ])
       (respond_with
          (ApiClient_delete apiClient
             (''/clients/'' @ String (get_member params ''client_id'') @ ''.json''))
          (\<lambda>_. createTextResponse
                 (''Client '' @ String (get_member params ''client_id'') @
                  '' deleted successfully'')))"

subsection \<open>Products (product-handlers.ts)\<close>

definition createJsonResponse_product :: "jsval \<Rightarrow> ToolResponse" where
  "createJsonResponse_product d =
     \<lparr>content = [\<lparr>content_type = ''text'', content_text = JSON_stringify_2 d\<rparr>]\<rparr>"

definition listProducts :: ToolHandler where
  "listProducts apiClient params =
     validated
       (checks
          [ reads params ''offset'',
            validatePaginationParams (own_props params),
            only_if (truthy (get_member params ''name''))
              (validateRequiredString (get_member params ''name'') ''name'') ])
       (let queryParams =
              sanitizeParams
                [ (''offset'', get_member params ''offset''),
                  (''limit'', get_member params ''limit''),
                  (''fields'', get_member params ''fields'') ];
            filters = filter_entry params ''name'' ''name_cont''
        in respond_with
             (ApiClient_get apiClient ''/products.json''
                (JObj [(''params'', with_filters queryParams filters)]))
             createJsonResponse_product)"

definition getProduct :: ToolHandler where
  "getProduct apiClient params =
     validated
       (checks
          [ reads params ''product_id'',
            validatePositiveNumber (get_member params ''product_id'') ''product_id'' ])
       (respond_with
          (ApiClient_get apiClient
             (''/products/'' @ String (get_member params ''product_id'') @ ''.json'') JUndefined)
          createJsonResponse_product)"

definition createProduct :: ToolHandler where
  "createProduct apiClient params =
     validated
       (checks
          [ reads params ''name'',
            validateRequiredString (get_member params ''name'') ''name'',
            validatePositiveNumber (get_member params ''unit_net_price'') ''unit_net_price'',
            only_if
              (get_member params ''tax_symbol'' = JUndefined \<or>
               (typeof (get_member params ''tax_symbol'') \<noteq> ''string'' \<and>
                typeof (get_member params ''tax_symbol'') \<noteq> ''number''))
              (Inl (Error ''tax_symbol is required and must be a string or number'')) ])
       (respond_with
          (ApiClient_post apiClient ''/products.json'' (JObj [(''product'', params)]))
          createJsonResponse_product)"

definition updateProduct :: ToolHandler where
  "updateProduct apiClient params =
     validated
       (checks
          [ reads params ''product_id'',
            validatePositiveNumber (get_member params ''product_id'') ''product_id'',
            only_if (get_member params ''unit_net_price'' \<noteq> JUndefined)
              (validatePositiveNumber (get_member params ''unit_net_price'') ''unit_net_price'') ])
       (let product_id = get_member params ''product_id'';
            productData = rest_without ''product_id'' params
        in respond_with
             (ApiClient_put apiClient (''/products/'' @ String product_id @ ''.json'')
                (JObj [(''product'', productData)]))
             createJsonResponse_product)"

definition deleteProduct :: ToolHandler where
  "deleteProduct apiClient params =
     validated
       (checks
          [ reads params ''product_id'',
            validatePositiveNumber (get_member params ''product_id'') ''product_id'' ])
       (respond_with
          (ApiClient_delete apiClient
             (''/products/'' @ String (get_member params ''product_id'') @ ''.json''))
          (\<lambda>_. createTextResponse
                 (''Product '' @ String (get_member params ''product_id'') @
                  '' deleted successfully'')))"

subsection \<open>Costs (cost-handlers.ts)\<close>

definition createJsonResponse_cost :: "jsval \<Rightarrow> ToolResponse" where
  "createJsonResponse_cost d =
     \<lparr>content = [\<lparr>content_type = ''text'', content_text = JSON_stringify_2 d\<rparr>]\<rparr>"

definition listCosts :: ToolHandler where
  "listCosts apiClient params =
     validated
       (checks
          [ reads params ''offset'',
            validatePaginationParams (own_props params) ])
       (let queryParams =
              sanitizeParams
                [ (''offset'', get_member params ''offset''),
                  (''limit'', get_member params ''limit''),
                  (''fields'', get_member params ''fields'') ]
        in respond_with
             (ApiClient_get apiClient ''/documents/costs.json''
                (JObj [(''params'', JObj queryParams)]))
             createJsonResponse_cost)"

definition getCost :: ToolHandler where
  "getCost apiClient params =
     validated
       (checks
          [ reads params ''cost_uuid'',
            validateUUID (get_member params ''cost_uuid'') ''cost_uuid'' ])
       (respond_with
          (ApiClient_get apiClient
             (''/documents/costs/'' @ String (get_member params ''cost_uuid'') @ ''.json'')
             JUndefined)
          createJsonResponse_cost)"

subsection \<open>Reference data (reference-handlers.ts)\<close>

definition createJsonResponse_reference :: "jsval \<Rightarrow> ToolResponse" where
  "createJsonResponse_reference d =
     (let convertedData = convertAllMonetaryFields d
      in \<lparr>content = [\<lparr>content_type = ''text'',
                       content_text = JSON_stringify_2 convertedData\<rparr>]\<rparr>)"

definition getVatRates :: ToolHandler where
  "getVatRates apiClient args =
     respond_with (ApiClient_get apiClient ''/vat_rates.json'' JUndefined)
       createJsonResponse_reference"

definition getBankAccounts :: ToolHandler where
  "getBankAccounts apiClient args =
     respond_with (ApiClient_get apiClient ''/bank_accounts.json'' JUndefined)
       createJsonResponse_reference"

definition getAccountInfo :: ToolHandler where
  "getAccountInfo apiClient args =
     respond_with (ApiClient_get apiClient ''/account.json'' JUndefined)
       createJsonResponse_reference"

subsection \<open>Dispatch (index.ts)\<close>

definition TOOL_HANDLERS :: "(string \<times> ToolHandler) list" where
  "TOOL_HANDLERS =
     [ (''infakt_create_invoice'', createInvoice),
       (''infakt_check_invoice_status'', checkInvoiceStatus),
       (''infakt_list_invoices'', listInvoices),
       (''infakt_get_invoice'', getInvoice),
       (''infakt_update_invoice'', updateInvoice),
       (''infakt_delete_invoice'', deleteInvoice),
       (''infakt_download_invoice_pdf'', downloadInvoicePdf),
       (''infakt_send_invoice_email'', sendInvoiceEmail),
       (''infakt_mark_invoice_paid'', markInvoicePaid),
       (''infakt_list_clients'', listClients),
       (''infakt_get_client'', getClient),
       (''infakt_create_client'', createClient),
       (''infakt_update_client'', updateClient),
       (''infakt_delete_client'', deleteClient),
       (''infakt_list_products'', listProducts),
       (''infakt_get_product'', getProduct),
       (''infakt_create_product'', createProduct),
       (''infakt_update_product'', updateProduct),
       (''infakt_delete_product'', deleteProduct),
       (''infakt_get_vat_rates'', getVatRates),
       (''infakt_get_bank_accounts'', getBankAccounts),
       (''infakt_get_account_info'', getAccountInfo),
       (''infakt_list_costs'', listCosts),
       (''infakt_get_cost'', getCost) ]"

text \<open>
  What \<^verbatim>\<open>handleToolCall\<close> returns: the response of a handler, or, under a name that
  \<^verbatim>\<open>TOOL_HANDLERS\<close> inherits, what the inherited member returns.
\<close>

datatype returned = Response ToolResponse | ReturnedString string | ApiClientObject

text \<open>
  \<^verbatim>\<open>TOOL_HANDLERS[name]\<close> also finds the members an object literal inherits from
  \<^verbatim>\<open>Object.prototype\<close>, and \<^verbatim>\<open>handler(apiClient, args)\<close> calls what it finds, with no
  receiver. \<^verbatim>\<open>Object\<close> (found as \<^verbatim>\<open>constructor\<close>) returns its first argument, the client
  object; \<^verbatim>\<open>toString\<close> returns the tag of undefined; the value of \<^verbatim>\<open>__proto__\<close> is the
  prototype, an object that cannot be called; every other member wants an object as
  receiver and throws a \<^verbatim>\<open>TypeError\<close>. \<open>None\<close> is a name that is not inherited.
\<close>

definition Object_prototype_call :: "string \<Rightarrow> (js_error + returned) option" where
  "Object_prototype_call name =
     (if name = ''constructor'' then Some (Inr ApiClientObject)
      else if name = ''toString'' then Some (Inr (ReturnedString ''[object Undefined]''))
      else if name = ''toLocaleString''
        then Some (Inl (Error ''Object.prototype.toLocaleString called on null or undefined''))
      else if name \<in> set [''valueOf'', ''hasOwnProperty'', ''isPrototypeOf'',
                            ''propertyIsEnumerable'', ''__defineGetter__'', ''__defineSetter__'',
                            ''__lookupGetter__'', ''__lookupSetter__'']
        then Some (Inl (Error ''Cannot convert undefined or null to object''))
      else if name = ''__proto__'' then Some (Inl (Error ''handler is not a function''))
      else None)"

text \<open>
  \<open>handleToolCall\<close>: the handler's result, with every error thrown on the way passed
  through \<open>handleApiError\<close>, or the error for a name under which \<^verbatim>\<open>TOOL_HANDLERS\<close> has
  nothing.
\<close>

definition handleToolCall :: "AxiosInstance \<Rightarrow> string \<Rightarrow> jsval \<Rightarrow> returned io" where
  "handleToolCall apiClient name args =
     (case map_of TOOL_HANDLERS name of
        None \<Rightarrow>
          (case Object_prototype_call name of
             None \<Rightarrow>
               (Inl (McpError MethodNotFound
                       (''Unknown tool: '' @ name @ ''. Available tools: '' @
                        join '', '' (map fst TOOL_HANDLERS))), [])
           | Some (Inl error) \<Rightarrow> (Inl (handleApiError error), [])
           | Some (Inr v) \<Rightarrow> (Inr v, []))
      | Some handler \<Rightarrow>
          (case handler apiClient args of
             (Inl error, reqs) \<Rightarrow> (Inl (handleApiError error), reqs)
           | (Inr response, reqs) \<Rightarrow> (Inr (Response response), reqs)))"

section \<open>Verified properties\<close>

subsection \<open>Pagination parameters\<close>

lemma validateNonNegativeNumber_ok:
  "validateNonNegativeNumber v f = Inr () \<longleftrightarrow> (\<exists>r. v = JNum (Fin r) \<and> 0 \<le> r)"
proof (cases v)
  case (JNum n)
  then show ?thesis
    by (cases n) (auto simp: validateNonNegativeNumber_def)
qed (simp_all add: validateNonNegativeNumber_def)

lemma validatePositiveNumber_ok:
  "validatePositiveNumber v f = Inr () \<longleftrightarrow> (\<exists>r. v = JNum (Fin r) \<and> 0 < r)"
proof (cases v)
  case (JNum n)
  then show ?thesis
    by (cases n) (auto simp: validatePositiveNumber_def)
qed (simp_all add: validatePositiveNumber_def)

lemma checks_pair: "checks [a, b] = Inr () \<longleftrightarrow> a = Inr () \<and> b = Inr ()"
  by (auto split: sum.splits)

lemma offset_check:
  "only_if (v \<noteq> JUndefined) (validateNonNegativeNumber v f) = Inr () \<longleftrightarrow>
     v = JUndefined \<or> (\<exists>r. v = JNum (Fin r) \<and> 0 \<le> r)"
  by (auto simp: only_if_def validateNonNegativeNumber_ok)

lemma limit_check:
  "only_if (v \<noteq> JUndefined)
     (checks [validatePositiveNumber v f, only_if (exceeds v 100) (Inl e)]) = Inr () \<longleftrightarrow>
     v = JUndefined \<or> (\<exists>l. v = JNum (Fin l) \<and> 0 < l \<and> l \<le> 100)"
  by (auto simp add: only_if_def checks_pair validatePositiveNumber_ok exceeds_def
      simp del: checks.simps)

text \<open>
  C8. A call is accepted exactly when the offset is absent or a finite number that is not
  negative, and the limit is absent or a finite number above 0 and at most 100. A limit
  above 100 is refused with a validation error on \<^verbatim>\<open>limit\<close> (it is not clamped), a limit
  that is not positive is refused as not positive, and a negative offset is refused with
  a validation error on \<^verbatim>\<open>offset\<close>.
\<close>

theorem validatePaginationParams_limit_offset:
  "(validatePaginationParams ps = Inr () \<longleftrightarrow>
      (get_prop ps ''offset'' = JUndefined \<or> (\<exists>r. get_prop ps ''offset'' = JNum (Fin r) \<and> 0 \<le> r)) \<and>
      (get_prop ps ''limit'' = JUndefined \<or>
         (\<exists>l. get_prop ps ''limit'' = JNum (Fin l) \<and> 0 < l \<and> l \<le> 100))) \<and>
   (\<forall>r. get_prop ps ''offset'' = JNum (Fin r) \<and> r < 0 \<longrightarrow>
      validatePaginationParams ps = Inl (ValidationError ''offset'' ''must be a non-negative number'')) \<and>
   (\<forall>l. get_prop ps ''offset'' = JUndefined \<and> get_prop ps ''limit'' = JNum (Fin l) \<and> 100 < l \<longrightarrow>
      validatePaginationParams ps = Inl (ValidationError ''limit'' ''must not exceed 100'')) \<and>
   (\<forall>l. get_prop ps ''offset'' = JUndefined \<and> get_prop ps ''limit'' = JNum (Fin l) \<and> l \<le> 0 \<longrightarrow>
      validatePaginationParams ps = Inl (ValidationError ''limit'' ''must be a positive number''))"
proof -
  let ?off = "get_prop ps ''offset''" and ?lim = "get_prop ps ''limit''"
  have acc: "validatePaginationParams ps = Inr () \<longleftrightarrow>
      (?off = JUndefined \<or> (\<exists>r. ?off = JNum (Fin r) \<and> 0 \<le> r)) \<and>
      (?lim = JUndefined \<or> (\<exists>l. ?lim = JNum (Fin l) \<and> 0 < l \<and> l \<le> 100))"
    unfolding validatePaginationParams_def checks_pair offset_check limit_check ..
  have neg: "\<forall>r. ?off = JNum (Fin r) \<and> r < 0 \<longrightarrow>
      validatePaginationParams ps = Inl (ValidationError ''offset'' ''must be a non-negative number'')"
    by (auto simp: validatePaginationParams_def only_if_def validateNonNegativeNumber_def)
  have big: "\<forall>l. ?off = JUndefined \<and> ?lim = JNum (Fin l) \<and> 100 < l \<longrightarrow>
      validatePaginationParams ps = Inl (ValidationError ''limit'' ''must not exceed 100'')"
    by (auto simp: validatePaginationParams_def only_if_def validatePositiveNumber_def exceeds_def)
  have small: "\<forall>l. ?off = JUndefined \<and> ?lim = JNum (Fin l) \<and> l \<le> 0 \<longrightarrow>
      validatePaginationParams ps = Inl (ValidationError ''limit'' ''must be a positive number'')"
    by (auto simp: validatePaginationParams_def only_if_def validatePositiveNumber_def exceeds_def)
  from acc neg big small show ?thesis by blast
qed

theorem validatePaginationParams_limit_offset_witness:
  "validatePaginationParams [] = Inr () \<and>
   validatePaginationParams [(''limit'', JNum (Fin 100))] = Inr () \<and>
   validatePaginationParams [(''limit'', JNum (Fin 101))] =
     Inl (ValidationError ''limit'' ''must not exceed 100'') \<and>
   validatePaginationParams [(''limit'', JNum (Fin 0))] =
     Inl (ValidationError ''limit'' ''must be a positive number'') \<and>
   validatePaginationParams [(''offset'', JNum (Fin (- 1)))] =
     Inl (ValidationError ''offset'' ''must be a non-negative number'')"
  using validatePaginationParams_limit_offset [of "[]"]
    validatePaginationParams_limit_offset [of "[(''limit'', JNum (Fin 100))]"]
    validatePaginationParams_limit_offset [of "[(''limit'', JNum (Fin 101))]"]
    validatePaginationParams_limit_offset [of "[(''limit'', JNum (Fin 0))]"]
    validatePaginationParams_limit_offset [of "[(''offset'', JNum (Fin (- 1)))]"]
  by (simp add: get_prop_def)

subsection \<open>Dates\<close>

lemma div_bounds:
  fixes n a :: int
  assumes "0 < n"
  shows "n * (a div n) \<le> a" "a \<le> n * (a div n) + (n - 1)"
proof -
  have "n * (a div n) + a mod n = a" by simp
  moreover have "0 \<le> a mod n" "a mod n < n" using assms by simp_all
  ultimately show "n * (a div n) \<le> a" "a \<le> n * (a div n) + (n - 1)" by linarith+
qed

lemma div_step:
  fixes n a :: int
  assumes "0 < n"
  shows "(a + 1) div n = a div n + (if (a + 1) mod n = 0 then 1 else 0)"
proof -
  define q where "q = a div n"
  define r where "r = a mod n"
  have a: "a = q * n + r" by (simp add: q_def r_def)
  have r: "0 \<le> r" "r < n" using assms by (simp_all add: r_def)
  show ?thesis
  proof (cases "r + 1 = n")
    case True
    then have "a + 1 = (q + 1) * n" using a by (simp add: algebra_simps)
    then show ?thesis using assms by (simp add: q_def)
  next
    case False
    then have lt: "r + 1 < n" using r by simp
    have e: "a + 1 = q * n + (r + 1)" using a by simp
    have d: "(a + 1) div n = q" unfolding e using r lt
      by simp
    have m: "(a + 1) mod n = r + 1" unfolding e using r lt
      by simp
    show ?thesis using d m r by (simp add: q_def)
  qed
qed

lemma mod_shift:
  fixes y n k :: int
  shows "(y - n * k) mod n = y mod n"
proof -
  have "(y + n * (- k)) mod n = y mod n" by (rule mod_mult_self2)
  then show ?thesis by simp
qed

lemma mod_400_100: "y mod 100 = 0" if "y mod 400 = 0" for y :: int
proof -
  have "(400::int) dvd y" using that by (simp add: dvd_eq_mod_eq_0)
  moreover have "(100::int) dvd 400" by simp
  ultimately have "(100::int) dvd y" by (rule dvd_trans [rotated])
  then show ?thesis by (simp add: dvd_eq_mod_eq_0)
qed

lemma mod_100_4: "y mod 4 = 0" if "y mod 100 = 0" for y :: int
proof -
  have "(100::int) dvd y" using that by (simp add: dvd_eq_mod_eq_0)
  moreover have "(4::int) dvd 100" by simp
  ultimately have "(4::int) dvd y" by (rule dvd_trans [rotated])
  then show ?thesis by (simp add: dvd_eq_mod_eq_0)
qed

lemma DaysInYear_bounds: "365 \<le> DaysInYear y" "DaysInYear y \<le> 366"
  by (simp_all add: DaysInYear_def)

lemma DayFromYear_Suc: "DayFromYear (y + 1) = DayFromYear y + DaysInYear y"
proof -
  have e: "y + 1 - 1969 = (y - 1969) + 1" "y + 1 - 1901 = (y - 1901) + 1"
    "y + 1 - 1601 = (y - 1601) + 1" by simp_all
  have m4: "(y - 1969 + 1) mod 4 = y mod 4"
    using mod_shift [of y 4 492] by simp
  have m100: "(y - 1901 + 1) mod 100 = y mod 100"
    using mod_shift [of y 100 19] by simp
  have m400: "(y - 1601 + 1) mod 400 = y mod 400"
    using mod_shift [of y 400 4] by simp
  have a: "(y + 1 - 1969) div 4 = (y - 1969) div 4 + (if y mod 4 = 0 then 1 else 0)"
    unfolding e using div_step [of 4 "y - 1969"] m4 by simp
  have b: "(y + 1 - 1901) div 100 = (y - 1901) div 100 + (if y mod 100 = 0 then 1 else 0)"
    unfolding e using div_step [of 100 "y - 1901"] m100 by simp
  have c: "(y + 1 - 1601) div 400 = (y - 1601) div 400 + (if y mod 400 = 0 then 1 else 0)"
    unfolding e using div_step [of 400 "y - 1601"] m400 by simp
  show ?thesis
    unfolding DayFromYear_def DaysInYear_def a b c
    using mod_400_100 [of y] mod_100_4 [of y] by auto
qed

lemma DayFromYear_bounds:
  "400 * DayFromYear y \<le> 146097 * (y - 1970) + 600"
  "146097 * (y - 1970) - 600 \<le> 400 * DayFromYear y"
proof -
  define q4 where "q4 = (y - 1969) div 4"
  define q100 where "q100 = (y - 1901) div 100"
  define q400 where "q400 = (y - 1601) div 400"
  have a: "4 * q4 \<le> y - 1969" "y - 1969 \<le> 4 * q4 + 3"
    unfolding q4_def using div_bounds [of 4 "y - 1969"] by simp_all
  have b: "100 * q100 \<le> y - 1901" "y - 1901 \<le> 100 * q100 + 99"
    unfolding q100_def using div_bounds [of 100 "y - 1901"] by simp_all
  have c: "400 * q400 \<le> y - 1601" "y - 1601 \<le> 400 * q400 + 399"
    unfolding q400_def using div_bounds [of 400 "y - 1601"] by simp_all
  have d: "DayFromYear y = 365 * (y - 1970) + q4 - q100 + q400"
    by (simp add: DayFromYear_def q4_def q100_def q400_def)
  have a': "400 * q4 \<le> 100 * (y - 1969)" "100 * (y - 1969) \<le> 400 * q4 + 300"
    using a by simp_all
  have b': "400 * q100 \<le> 4 * (y - 1901)" "4 * (y - 1901) \<le> 400 * q100 + 396"
    using b by simp_all
  show "400 * DayFromYear y \<le> 146097 * (y - 1970) + 600"
    unfolding d using a' b' c by simp
  show "146097 * (y - 1970) - 600 \<le> 400 * DayFromYear y"
    unfolding d using a' b' c by simp
qed

lemma YearFromTime_unique:
  assumes "DayFromYear y \<le> Day t" "Day t < DayFromYear (y + 1)"
  shows "YearFromTime t = y"
proof -
  define d where "d = Day t"
  define e where "e = (400 * d) div 146097"
  have eb: "146097 * e \<le> 400 * d" "400 * d \<le> 146097 * e + 146096"
    unfolding e_def using div_bounds [of 146097 "400 * d"] by simp_all
  have lo: "146097 * (y - 1970) - 600 \<le> 400 * d"
    using DayFromYear_bounds(2) [of y] assms(1) by (simp add: d_def)
  have hi: "400 * d < 146097 * (y + 1 - 1970) + 600"
    using DayFromYear_bounds(1) [of "y + 1"] assms(2) by (simp add: d_def)
  have "146097 * (y - 1972) < 146097 * e" using eb lo by simp
  then have "y - 1972 < e" by simp
  moreover have "146097 * e < 146097 * (y - 1968)" using eb hi by simp
  then have "e < y - 1968" by simp
  ultimately have three: "1970 + e = y - 1 \<or> 1970 + e = y \<or> 1970 + e = y + 1" by linarith
  note yf = YearFromTime_def [of t, unfolded Let_def, folded d_def, folded e_def]
  from assms have A: "DayFromYear y \<le> d" "d < DayFromYear (y + 1)" by (simp_all add: d_def)
  have prev: "DayFromYear (y - 1) \<le> DayFromYear y"
    using DayFromYear_Suc [of "y - 1"] DaysInYear_bounds(1) [of "y - 1"] by simp
  from three show ?thesis
  proof (elim disjE)
    assume 1: "1970 + e = y - 1"
    show ?thesis unfolding yf 1 using A prev by simp
  next
    assume 2: "1970 + e = y"
    show ?thesis unfolding yf 2 using A by simp
  next
    assume 3: "1970 + e = y + 1"
    show ?thesis unfolding yf 3 using A by simp
  qed
qed


lemma DayFromYear_mono:
  assumes "y \<le> y'"
  shows "DayFromYear y \<le> DayFromYear y'"
proof -
  have "DayFromYear y \<le> DayFromYear (y + int n)" for n
  proof (induction n)
    case 0
    show ?case by simp
  next
    case (Suc n)
    have "DayFromYear (y + int (Suc n)) = DayFromYear (y + int n) + DaysInYear (y + int n)"
      using DayFromYear_Suc [of "y + int n"] by (simp add: algebra_simps)
    with Suc DaysInYear_bounds(1) [of "y + int n"] show ?case by simp
  qed
  from this [of "nat (y' - y)"] assms show ?thesis by simp
qed

lemma YearFromTime_bracket:
  "DayFromYear (YearFromTime t) \<le> Day t" "Day t < DayFromYear (YearFromTime t + 1)"
proof -
  define d where "d = Day t"
  define e where "e = (400 * d) div 146097"
  have eb: "146097 * e \<le> 400 * d" "400 * d \<le> 146097 * e + 146096"
    unfolding e_def using div_bounds [of 146097 "400 * d"] by simp_all
  have "400 * DayFromYear (1970 + e - 1) \<le> 400 * d"
    using DayFromYear_bounds(1) [of "1970 + e - 1"] eb by simp
  then have lo: "DayFromYear (1970 + e - 1) \<le> d" by simp
  have "400 * d < 400 * DayFromYear (1970 + e + 1 + 1)"
    using DayFromYear_bounds(2) [of "1970 + e + 1 + 1"] eb by simp
  then have hi: "d < DayFromYear (1970 + e + 1 + 1)" by simp
  note yf = YearFromTime_def [of t, unfolded Let_def, folded d_def, folded e_def]
  show "DayFromYear (YearFromTime t) \<le> Day t"
    unfolding yf d_def [symmetric] using lo by auto
  show "Day t < DayFromYear (YearFromTime t + 1)"
    unfolding yf d_def [symmetric] using hi by auto
qed

lemma YearFromTime_largest:
  "TimeFromYear (YearFromTime t) \<le> t \<and> (\<forall>y. TimeFromYear y \<le> t \<longrightarrow> y \<le> YearFromTime t)"
proof
  have "msPerDay * DayFromYear (YearFromTime t) \<le> msPerDay * Day t"
    using YearFromTime_bracket(1) [of t] by (simp add: msPerDay_def)
  also have "\<dots> \<le> t"
    unfolding Day_def using div_bounds(1) [of msPerDay t] by (simp add: msPerDay_def)
  finally show "TimeFromYear (YearFromTime t) \<le> t" by (simp add: TimeFromYear_def)
  show "\<forall>y. TimeFromYear y \<le> t \<longrightarrow> y \<le> YearFromTime t"
  proof (intro allI impI)
    fix y
    assume "TimeFromYear y \<le> t"
    then have "(msPerDay * DayFromYear y) div msPerDay \<le> t div msPerDay"
      unfolding TimeFromYear_def by (intro zdiv_mono1) (simp_all add: msPerDay_def)
    then have le: "DayFromYear y \<le> Day t" by (simp add: Day_def msPerDay_def)
    show "y \<le> YearFromTime t"
    proof (rule ccontr)
      assume "\<not> y \<le> YearFromTime t"
      then have "YearFromTime t + 1 \<le> y" by simp
      then have "DayFromYear (YearFromTime t + 1) \<le> DayFromYear y" by (rule DayFromYear_mono)
      with le YearFromTime_bracket(2) [of t] show False by simp
    qed
  qed
qed

lemma Day_MakeDate: "Day (MakeDate x 0) = x"
  by (simp add: Day_def MakeDate_def msPerDay_def)

lemma month_start_range:
  assumes "0 \<le> mn" "mn \<le> 11" "0 \<le> l" "l \<le> 1"
  shows "0 \<le> month_start l mn" "month_start l mn \<le> 334 + l"
  using assms by (auto simp: month_start_def)

lemma MakeDay_in_year:
  fixes y m d :: int
  assumes m: "1 \<le> m" "m \<le> 12" and d: "1 \<le> d" "d \<le> 31"
  defines "l \<equiv> (if DaysInYear y = 366 then 1 else 0)"
  defines "t \<equiv> MakeDate (MakeDay y (m - 1) d) 0"
  shows "YearFromTime t = y"
    and "DayWithinYear t = month_start l (m - 1) + d - 1"
    and "InLeapYear t = l"
proof -
  have dv: "(m - 1) div 12 = 0" and md: "(m - 1) mod 12 = m - 1"
    using m by simp_all
  have day: "Day t = DayFromYear y + month_start l (m - 1) + d - 1"
    by (simp add: t_def Day_MakeDate MakeDay_def Let_def dv md l_def)
  have l: "0 \<le> l" "l \<le> 1" "DaysInYear y = 365 + l"
    using DaysInYear_bounds [of y] by (auto simp: l_def DaysInYear_def)
  have ms: "0 \<le> month_start l (m - 1)" "month_start l (m - 1) \<le> 334 + l"
    using month_start_range [of "m - 1" l] m l by simp_all
  have "DayFromYear y \<le> Day t" using day ms d by simp
  moreover have "Day t < DayFromYear (y + 1)"
    unfolding DayFromYear_Suc day using ms d l by simp
  ultimately show y: "YearFromTime t = y" by (rule YearFromTime_unique)
  show "DayWithinYear t = month_start l (m - 1) + d - 1"
    by (simp add: DayWithinYear_def y day)
  show "InLeapYear t = l"
    by (simp add: InLeapYear_def y l_def)
qed

lemma month_date_roundtrip:
  fixes y m d :: int
  assumes m: "1 \<le> m" "m \<le> 12" and d: "1 \<le> d" "d \<le> 31"
  defines "l \<equiv> (if DaysInYear y = 366 then 1 else 0)"
  defines "t \<equiv> MakeDate (MakeDay y (m - 1) d) 0"
  shows "MonthFromTime t + 1 = m \<and> DateFromTime t = d \<longleftrightarrow> d \<le> month_length l m"
proof -
  have w: "DayWithinYear t = month_start l (m - 1) + d - 1" and il: "InLeapYear t = l"
    using MakeDay_in_year [OF m d, of y] by (simp_all add: l_def t_def)
  have l: "l = 0 \<or> l = 1" by (simp add: l_def)
  from m have "m = 1 \<or> m = 2 \<or> m = 3 \<or> m = 4 \<or> m = 5 \<or> m = 6 \<or> m = 7 \<or> m = 8 \<or> m = 9 \<or>
    m = 10 \<or> m = 11 \<or> m = 12" by arith
  then show ?thesis
  proof (elim disjE)
    assume "m = 1" then show ?thesis using d l
      by (auto simp: MonthFromTime_def DateFromTime_def w il Let_def month_start_def month_length_def)
  next
    assume "m = 2" then show ?thesis using d l
      by (auto simp: MonthFromTime_def DateFromTime_def w il Let_def month_start_def month_length_def)
  next
    assume "m = 3" then show ?thesis using d l
      by (auto simp: MonthFromTime_def DateFromTime_def w il Let_def month_start_def month_length_def)
  next
    assume "m = 4" then show ?thesis using d l
      by (auto simp: MonthFromTime_def DateFromTime_def w il Let_def month_start_def month_length_def)
  next
    assume "m = 5" then show ?thesis using d l
      by (auto simp: MonthFromTime_def DateFromTime_def w il Let_def month_start_def month_length_def)
  next
    assume "m = 6" then show ?thesis using d l
      by (auto simp: MonthFromTime_def DateFromTime_def w il Let_def month_start_def month_length_def)
  next
    assume "m = 7" then show ?thesis using d l
      by (auto simp: MonthFromTime_def DateFromTime_def w il Let_def month_start_def month_length_def)
  next
    assume "m = 8" then show ?thesis using d l
      by (auto simp: MonthFromTime_def DateFromTime_def w il Let_def month_start_def month_length_def)
  next
    assume "m = 9" then show ?thesis using d l
      by (auto simp: MonthFromTime_def DateFromTime_def w il Let_def month_start_def month_length_def)
  next
    assume "m = 10" then show ?thesis using d l
      by (auto simp: MonthFromTime_def DateFromTime_def w il Let_def month_start_def month_length_def)
  next
    assume "m = 11" then show ?thesis using d l
      by (auto simp: MonthFromTime_def DateFromTime_def w il Let_def month_start_def month_length_def)
  next
    assume "m = 12" then show ?thesis using d l
      by (auto simp: MonthFromTime_def DateFromTime_def w il Let_def month_start_def month_length_def)
  qed
qed


lemma digit_not_dash: "is_digit c \<Longrightarrow> c \<noteq> CHR ''-''"
  by (auto simp: is_digit_def)

lemma dateRegex_split:
  assumes "dateRegex_test s"
  shows "map digits_to_nat (split CHR ''-'' s) =
    [digits_to_nat (take 4 s), digits_to_nat (take 2 (drop 5 s)), digits_to_nat (drop 8 s)]"
  using assms
  by (rule dateRegex_test.elims(2)) (simp add: digit_not_dash)

lemma leap_year_DaysInYear: "DaysInYear (int y) = 366 \<longleftrightarrow> leap_year y"
proof -
  have "int y mod 4 = int (y mod 4)" "int y mod 100 = int (y mod 100)"
    "int y mod 400 = int (y mod 400)" by (simp_all add: zmod_int)
  then have e: "int y mod 4 = 0 \<longleftrightarrow> y mod 4 = 0" "int y mod 100 = 0 \<longleftrightarrow> y mod 100 = 0"
    "int y mod 400 = 0 \<longleftrightarrow> y mod 400 = 0" by simp_all
  have "y mod 100 = 0 \<Longrightarrow> y mod 4 = 0"
    using mod_100_4 [of "int y"] e by simp
  then show ?thesis
    by (auto simp: DaysInYear_def leap_year_def e)
qed

lemma month_length_days_in_month:
  "month_length (if DaysInYear (int y) = 366 then 1 else 0) (int m) = int (days_in_month y m)"
  by (simp add: month_length_def days_in_month_def leap_year_DaysInYear)

lemma days_in_month_le: "days_in_month y m \<le> 31"
  by (simp add: days_in_month_def)

lemma validateDateString_string:
  assumes "dateRegex_test s" "date_fields s = (y, m, d)"
  shows "validateDateString (JStr s) f =
    (if calendar_date y m d then Inr () else Inl (ValidationError f ''is not a valid date''))"
proof (cases "1 \<le> m \<and> m \<le> 12 \<and> 1 \<le> d \<and> d \<le> 31")
  case False
  then have "\<not> calendar_date y m d"
    using days_in_month_le [of y m] by (auto simp: calendar_date_def)
  moreover have "Date_new s = None"
    using False assms by (auto simp: Date_new_def Let_def date_fields_def)
  ultimately show ?thesis using assms by (simp add: validateDateString_def)
next
  case True
  define t where "t = MakeDate (MakeDay (int y) (int m - 1) (int d)) 0"
  have dn: "Date_new s = Some t"
    using True assms by (auto simp: Date_new_def Let_def date_fields_def t_def)
  have sp: "map digits_to_nat (split CHR ''-'' s) = [y, m, d]"
    using dateRegex_split [OF assms(1)] assms(2) by (simp add: date_fields_def)
  have R: "1 \<le> int m" "int m \<le> 12" "1 \<le> int d" "int d \<le> 31" using True by simp_all
  have yr: "YearFromTime t = int y"
    unfolding t_def by (rule MakeDay_in_year(1) [OF R])
  have md: "MonthFromTime t + 1 = int m \<and> DateFromTime t = int d \<longleftrightarrow> d \<le> days_in_month y m"
    using month_date_roundtrip [OF R, of "int y"]
    by (simp add: t_def month_length_days_in_month)
  have "calendar_date y m d \<longleftrightarrow> d \<le> days_in_month y m"
    using True by (simp add: calendar_date_def)
  with md yr show ?thesis
    using assms(1) by (auto simp: validateDateString_def dn sp)
qed

text \<open>
  C7. \<^verbatim>\<open>validateDateString\<close> accepts a value exactly when it is a string of the form
  \<^verbatim>\<open>YYYY-MM-DD\<close> whose digits denote a date of the calendar; the check is the round trip
  of the parsed year, month and day against the digits. \<^verbatim>\<open>2024-02-30\<close> and
  \<^verbatim>\<open>2024-13-01\<close> are refused, \<^verbatim>\<open>2024-02-29\<close> is accepted (2024 is a leap year) and
  \<^verbatim>\<open>2023-02-29\<close> is refused.
\<close>

theorem validateDateString_calendar:
  "validateDateString v f =
     (case v of
        JStr s \<Rightarrow>
          if \<not> dateRegex_test s then Inl (ValidationError f ''must be in YYYY-MM-DD format'')
          else (case date_fields s of (y, m, d) \<Rightarrow>
            if calendar_date y m d then Inr ()
            else Inl (ValidationError f ''is not a valid date''))
      | _ \<Rightarrow> Inl (ValidationError f ''must be a string'')) \<and>
   validateDateString (JStr ''2024-02-30'') f = Inl (ValidationError f ''is not a valid date'') \<and>
   validateDateString (JStr ''2024-13-01'') f = Inl (ValidationError f ''is not a valid date'') \<and>
   validateDateString (JStr ''2024-02-29'') f = Inr () \<and>
   validateDateString (JStr ''2023-02-29'') f = Inl (ValidationError f ''is not a valid date'')"
proof -
  have gen: "validateDateString v f =
     (case v of
        JStr s \<Rightarrow>
          if \<not> dateRegex_test s then Inl (ValidationError f ''must be in YYYY-MM-DD format'')
          else (case date_fields s of (y, m, d) \<Rightarrow>
            if calendar_date y m d then Inr ()
            else Inl (ValidationError f ''is not a valid date''))
      | _ \<Rightarrow> Inl (ValidationError f ''must be a string''))" for v
  proof (cases v)
    case (JStr s)
    show ?thesis
    proof (cases "dateRegex_test s")
      case True
      obtain y m d where "date_fields s = (y, m, d)" by (cases "date_fields s")
      with True JStr show ?thesis by (simp add: validateDateString_string)
    next
      case False
      with JStr show ?thesis by (simp add: validateDateString_def)
    qed
  qed (simp_all add: validateDateString_def)
  have r: "dateRegex_test ''2024-02-30''" "dateRegex_test ''2024-13-01''"
    "dateRegex_test ''2024-02-29''" "dateRegex_test ''2023-02-29''"
    by (simp_all add: is_digit_def)
  have f: "date_fields ''2024-02-30'' = (2024, 2, 30)" "date_fields ''2024-13-01'' = (2024, 13, 1)"
    "date_fields ''2024-02-29'' = (2024, 2, 29)" "date_fields ''2023-02-29'' = (2023, 2, 29)"
    by (simp_all add: date_fields_def digits_to_nat_def digit_val_def)
  have c: "\<not> calendar_date 2024 2 30" "\<not> calendar_date 2024 13 1" "calendar_date 2024 2 29"
    "\<not> calendar_date 2023 2 29"
    by (simp_all add: calendar_date_def days_in_month_def leap_year_def)
  show ?thesis
    using gen [of v] validateDateString_string [OF r(1) f(1), of f]
      validateDateString_string [OF r(2) f(2), of f]
      validateDateString_string [OF r(3) f(3), of f]
      validateDateString_string [OF r(4) f(4), of f] c
    by simp
qed

theorem validateDateString_calendar_witness:
  "validateDateString (JStr ''2024-02-30'') ''paid_date'' =
     Inl (ValidationError ''paid_date'' ''is not a valid date'') \<and>
   validateDateString (JStr ''2024-13-01'') ''paid_date'' =
     Inl (ValidationError ''paid_date'' ''is not a valid date'') \<and>
   validateDateString (JStr ''2024-02-29'') ''paid_date'' = Inr () \<and>
   validateDateString (JStr ''2023-02-29'') ''paid_date'' =
     Inl (ValidationError ''paid_date'' ''is not a valid date'')"
  using conjunct2 [OF validateDateString_calendar [of "JStr ''2024-02-29''" "''paid_date''"]] .

subsection \<open>Rounding to a double, and the round trip of an amount\<close>

lemma powi_pos: "0 < (2::rat) powi k"
  by (simp add: power_int_def)

lemma powi_mono: "m \<le> n \<Longrightarrow> (2::rat) powi m \<le> 2 powi n"
  by (rule power_int_increasing) simp_all

lemma powi_less_cancel: "(2::rat) powi m < 2 powi n \<Longrightarrow> m < n"
  using powi_mono [of n m] by (cases "m < n") simp_all

lemma powi_Suc: "(2::rat) powi (k + 1) = 2 * 2 powi k"
  by (simp add: power_int_add)

lemma powi_pred: "(2::rat) powi (k - 1) = 2 powi k / 2"
  using powi_Suc [of "k - 1"] by simp

lemma powi_diff: "(2::rat) powi (m - n) = 2 powi m / 2 powi n"
  by (simp add: power_int_diff)

lemma of_int_powi: "0 \<le> k \<Longrightarrow> (2::rat) powi k = of_int (2 ^ nat k)"
  by (simp add: power_int_def)

lemma abs_scale:
  fixes a r U :: rat
  assumes "0 < U"
  shows "\<bar>a - r / U\<bar> * U = \<bar>a * U - r\<bar>"
proof -
  have "(a - r / U) * U = a * U - r" using assms by (simp add: field_simps)
  then have "\<bar>a * U - r\<bar> = \<bar>a - r / U\<bar> * \<bar>U\<bar>" by (simp only: abs_mult [symmetric])
  then show ?thesis using assms by simp
qed

lemma ilog2_bounds:
  assumes "0 < r"
  shows "2 powi ilog2 r \<le> r" "r < 2 powi (ilog2 r + 1)"
proof -
  obtain p q where pq: "quotient_of r = (p, q)" by (cases "quotient_of r")
  then have q: "0 < q" and r: "r = of_int p / of_int q"
    by (simp_all add: quotient_of_denom_pos quotient_of_div)
  have p: "0 < p" using assms q r by (simp add: zero_less_divide_iff)
  define bp where "bp = bitlen p"
  define bq where "bq = bitlen q"
  have b1: "1 \<le> bp" "1 \<le> bq"
    using p q bitlen_eq_zero_iff [of p] bitlen_eq_zero_iff [of q] bitlen_nonneg [of p]
      bitlen_nonneg [of q] by (auto simp: bp_def bq_def)
  have "2 ^ nat (bp - 1) \<le> p" "p < 2 ^ nat bp" "2 ^ nat (bq - 1) \<le> q" "q < 2 ^ nat bq"
    using bitlen_bounds [OF p] bitlen_bounds [OF q] by (simp_all add: bp_def bq_def)
  then have "(of_int (2 ^ nat (bp - 1)) :: rat) \<le> of_int p" "(of_int p :: rat) < of_int (2 ^ nat bp)"
    "(of_int (2 ^ nat (bq - 1)) :: rat) \<le> of_int q" "(of_int q :: rat) < of_int (2 ^ nat bq)"
    by (simp_all only: of_int_le_iff of_int_less_iff)
  then have P: "2 powi (bp - 1) \<le> (of_int p :: rat)" "(of_int p :: rat) < 2 powi bp"
    and Q: "2 powi (bq - 1) \<le> (of_int q :: rat)" "(of_int q :: rat) < 2 powi bq"
    using b1 by (simp_all add: of_int_powi)
  have Qpos: "0 < (of_int q :: rat)" using q by simp
  have Ppos: "0 < (of_int p :: rat)" using p by simp
  have lo: "2 powi (bp - bq - 1) < r"
  proof -
    have "bp - bq - 1 = (bp - 1) - bq" by simp
    then have "2 powi (bp - bq - 1) = (2::rat) powi (bp - 1) / 2 powi bq"
      by (simp only: powi_diff)
    also have "\<dots> \<le> of_int p / 2 powi bq"
      using P(1) powi_pos [of bq] by (simp add: divide_right_mono)
    also have "\<dots> < of_int p / of_int q"
      using Q(2) Qpos Ppos by (simp add: divide_strict_left_mono)
    finally show ?thesis by (simp add: r)
  qed
  have hi: "r < 2 powi (bp - bq + 1)"
  proof -
    have "r \<le> of_int p / 2 powi (bq - 1)"
      unfolding r using Q(1) Ppos powi_pos [of "bq - 1"] by (intro frac_le) simp_all
    also have "\<dots> < 2 powi bp / 2 powi (bq - 1)"
      using P(2) powi_pos [of "bq - 1"] by (simp add: divide_strict_right_mono)
    also have "\<dots> = 2 powi (bp - (bq - 1))"
      by (simp only: powi_diff)
    also have "bp - (bq - 1) = bp - bq + 1" by simp
    finally show ?thesis .
  qed
  have il: "ilog2 r = (if 2 powi (bp - bq) \<le> r then bp - bq else bp - bq - 1)"
    by (simp add: ilog2_def pq Let_def bp_def bq_def)
  show "2 powi ilog2 r \<le> r"
    unfolding il using lo by auto
  show "r < 2 powi (ilog2 r + 1)"
    unfolding il using hi by auto
qed

lemma ilog2_eqI:
  assumes "2 powi k \<le> r" "r < 2 powi (k + 1)"
  shows "ilog2 r = k"
proof -
  have r: "0 < r" using powi_pos assms(1) by (rule less_le_trans)
  have "2 powi ilog2 r < (2::rat) powi (k + 1)"
    using ilog2_bounds(1) [OF r] assms(2) by simp
  then have "ilog2 r < k + 1" by (rule powi_less_cancel)
  moreover have "2 powi k < (2::rat) powi (ilog2 r + 1)"
    using ilog2_bounds(2) [OF r] assms(1) by simp
  then have "k < ilog2 r + 1" by (rule powi_less_cancel)
  ultimately show ?thesis by simp
qed

lemma ilog2_less:
  assumes "0 < r" "r < 2 powi k"
  shows "ilog2 r < k"
proof -
  have "2 powi ilog2 r < (2::rat) powi k"
    using ilog2_bounds(1) [OF assms(1)] assms(2) by simp
  then show ?thesis by (rule powi_less_cancel)
qed

lemma round_half_even_error: "\<bar>of_int (round_half_even x) - x\<bar> \<le> 1 / 2"
proof -
  define f where "f = \<lfloor>x\<rfloor>"
  have "of_int f \<le> x" "x < of_int f + 1" unfolding f_def by linarith+
  then show ?thesis
    unfolding round_half_even_def Let_def f_def [symmetric]
    by (auto simp: abs_if)
qed

lemma round_half_even_eqI:
  assumes "\<bar>of_int n - x\<bar> < 1 / 2"
  shows "round_half_even x = n"
proof -
  have "\<bar>of_int (round_half_even x) - (of_int n :: rat)\<bar> < 1"
    using round_half_even_error [of x] assms by linarith
  then have "\<bar>(of_int (round_half_even x - n) :: rat)\<bar> < of_int 1" by simp
  then have "\<bar>round_half_even x - n\<bar> < 1"
    by (simp only: of_int_abs [symmetric] of_int_less_iff)
  then show ?thesis by simp
qed

lemma fl_error:
  assumes "0 < r" "r < 2 powi k" "- 1021 \<le> k"
  shows "\<bar>fl r - r\<bar> \<le> 2 powi (k - 54)"
proof -
  define u where "u = ulp_exp r"
  define U :: rat where "U = 2 powi u"
  have "ilog2 r < k" using assms(1,2) by (rule ilog2_less)
  then have u: "u \<le> k - 53" using assms(1,3) by (simp add: u_def ulp_exp_def)
  have U: "0 < U" by (simp add: U_def powi_pos)
  define n where "n = round_half_even (r / U)"
  have f: "fl r = of_int n * U" using assms(1) by (simp add: fl_def n_def U_def u_def)
  have "\<bar>of_int n - r / U\<bar> \<le> 1 / 2" unfolding n_def by (rule round_half_even_error)
  then have "\<bar>of_int n - r / U\<bar> * U \<le> 1 / 2 * U" using U by (simp add: mult_right_mono)
  moreover have "\<bar>of_int n - r / U\<bar> * U = \<bar>of_int n * U - r\<bar>"
    using U by (rule abs_scale)
  ultimately have "\<bar>fl r - r\<bar> \<le> U / 2" by (simp add: f)
  also have "U / 2 = 2 powi (u - 1)" by (simp add: U_def powi_pred)
  also have "\<dots> \<le> 2 powi (k - 54)" using u by (intro powi_mono) simp
  finally show ?thesis .
qed

lemma fl_eqI:
  assumes "2 powi k \<le> r" "r < 2 powi (k + 1)" "- 1022 \<le> k"
    and "\<bar>of_int n * 2 powi (k - 52) - r\<bar> < 2 powi (k - 53)"
  shows "fl r = of_int n * 2 powi (k - 52)"
proof -
  have r: "0 < r" using powi_pos assms(1) by (rule less_le_trans)
  have "ilog2 r = k" using assms(1,2) by (rule ilog2_eqI)
  then have u: "ulp_exp r = k - 52" using r assms(3) by (simp add: ulp_exp_def)
  define U :: rat where "U = 2 powi (k - 52)"
  have U: "0 < U" by (simp add: U_def powi_pos)
  have h: "2 powi (k - 53) = U / 2" using powi_pred [of "k - 52"] by (simp add: U_def)
  have "\<bar>of_int n - r / U\<bar> * U = \<bar>of_int n * U - r\<bar>"
    using U by (rule abs_scale)
  also have "\<dots> < 1 / 2 * U" using assms(4) by (simp add: h U_def)
  finally have "\<bar>of_int n - r / U\<bar> < 1 / 2" using U by simp
  then have "round_half_even (r / U) = n" by (rule round_half_even_eqI)
  then show ?thesis using r by (simp add: fl_def u U_def)
qed


lemma floor_half_eqI:
  fixes z :: rat
  assumes "\<bar>z - of_int g\<bar> < 1 / 2"
  shows "\<lfloor>z + 1 / 2\<rfloor> = g"
proof (rule floor_unique)
  show "of_int g \<le> z + 1 / 2" using assms by linarith
  show "z + 1 / 2 < of_int g + 1" using assms by linarith
qed

lemma to_double_Fin:
  assumes "\<bar>fl r\<bar> < 2 powi 1024"
  shows "to_double r = Fin (fl r)"
  using assms by (simp add: to_double_def Let_def)

lemma powi_52_1024: "(2::rat) powi 52 \<le> 2 powi 1024"
  by (rule powi_mono) simp

lemma Math_round_int: "Math_round (Fin (of_int g)) = Fin (of_int g)"
proof -
  have "\<lfloor>(of_int g :: rat) + 1 / 2\<rfloor> = g" by (rule floor_half_eqI) simp
  then show ?thesis by simp
qed

lemma div_mul_round:
  assumes y: "fl (of_int g / 100) = y" and z: "fl (y * 100) = z"
    and small: "\<bar>y\<bar> < 2 powi 52" "\<bar>z\<bar> < 2 powi 52"
  shows "plnToGrosze (groszeToPLN (Inl (Fin (of_int g)))) = Fin (of_int \<lfloor>z + 1 / 2\<rfloor>)"
proof -
  have "\<bar>fl (of_int g / 100)\<bar> < 2 powi 1024"
    unfolding y using small(1) powi_52_1024 by (rule less_le_trans)
  then have a: "to_double (of_int g / 100) = Fin y"
    using y by (simp only: to_double_Fin)
  have "\<bar>fl (y * 100)\<bar> < 2 powi 1024"
    unfolding z using small(2) powi_52_1024 by (rule less_le_trans)
  then have b: "to_double (y * 100) = Fin z"
    using z by (simp only: to_double_Fin)
  have "groszeToPLN (Inl (Fin (of_int g))) = Fin y"
    unfolding groszeToPLN_def Let_def sum.case Math_round_int num_div_by.simps by (rule a)
  then show ?thesis
    unfolding plnToGrosze_def by (simp only: num_mul_by.simps b Math_round.simps)
qed

lemma roundtrip_small:
  assumes g: "0 < g" "g < 3518437208883200"
  shows "plnToGrosze (groszeToPLN (Inl (Fin (of_int g)))) = Fin (of_int g)"
proof -
  define G :: rat where "G = of_int g"
  have G: "1 \<le> G" "G < 3518437208883200" using g by (simp_all add: G_def)
  define y where "y = fl (G / 100)"
  have p45: "(2::rat) powi 45 = 35184372088832" by simp
  have p52: "(2::rat) powi 52 = 4503599627370496" by simp
  have "0 < G / 100" using G by simp
  moreover have "G / 100 < 2 powi 45" using G by (simp add: p45)
  ultimately have "\<bar>fl (G / 100) - G / 100\<bar> \<le> 2 powi (45 - 54)" by (rule fl_error) simp
  then have ey: "\<bar>y - G / 100\<bar> \<le> 1 / 512" by (simp add: y_def)
  have yb: "G / 100 - 1 / 512 \<le> y" "y \<le> G / 100 + 1 / 512" using ey by linarith+
  have ypos: "0 < y * 100" using yb(1) G by linarith
  have ylt: "y * 100 < 2 powi 52" unfolding p52 using yb(2) G by linarith
  have ysmall: "\<bar>y\<bar> < 2 powi 52" using ylt ypos by (simp add: p52)
  define z where "z = fl (y * 100)"
  have "\<bar>fl (y * 100) - y * 100\<bar> \<le> 2 powi (52 - 54)" using ypos ylt by (rule fl_error) simp
  then have ez: "\<bar>z - y * 100\<bar> \<le> 1 / 4" by (simp add: z_def)
  have zg: "\<bar>z - G\<bar> < 1 / 2" using ez ey by linarith
  have zsmall: "\<bar>z\<bar> < 2 powi 52" unfolding p52 using zg G by linarith
  have r2: "\<lfloor>z + 1 / 2\<rfloor> = g" using zg unfolding G_def by (rule floor_half_eqI)
  have "plnToGrosze (groszeToPLN (Inl (Fin (of_int g)))) = Fin (of_int \<lfloor>z + 1 / 2\<rfloor>)"
    using ysmall zsmall by (intro div_mul_round) (simp_all add: y_def z_def G_def)
  then show ?thesis by (simp only: r2)
qed

lemma roundtrip_zero: "plnToGrosze (groszeToPLN (Inl (Fin (of_int 0)))) = Fin (of_int 0)"
proof -
  have "plnToGrosze (groszeToPLN (Inl (Fin (of_int 0)))) = Fin (of_int \<lfloor>(0::rat) + 1 / 2\<rfloor>)"
    by (rule div_mul_round [of 0 0 0]) (simp_all add: fl_def)
  moreover have "\<lfloor>(0::rat) + 1 / 2\<rfloor> = 0"
    by (rule floor_unique) simp_all
  ultimately show ?thesis by (simp only:)
qed

lemma roundtrip_edge0:
  "plnToGrosze (groszeToPLN (Inl (Fin (of_int 3518437208883200)))) =
     Fin (of_int 3518437208883200)"
proof -
  have y: "fl (of_int 3518437208883200 / 100) = 35184372088832"
    using fl_eqI [of 45 "3518437208883200 / 100" 4503599627370496] by simp
  have z: "fl (35184372088832 * 100) = 3518437208883200"
    using fl_eqI [of 51 "35184372088832 * 100" 7036874417766400] by simp
  have "plnToGrosze (groszeToPLN (Inl (Fin (of_int 3518437208883200)))) =
      Fin (of_int \<lfloor>(3518437208883200::rat) + 1 / 2\<rfloor>)"
    using y z by (rule div_mul_round) simp_all
  moreover have "\<lfloor>(3518437208883200::rat) + 1 / 2\<rfloor> = 3518437208883200"
    by (rule floor_unique) simp_all
  ultimately show ?thesis by (simp only:)
qed

lemma roundtrip_edge1:
  "plnToGrosze (groszeToPLN (Inl (Fin (of_int 3518437208883201)))) =
     Fin (of_int 3518437208883201)"
proof -
  have y: "fl (of_int 3518437208883201 / 100) = 4503599627370497 / 128"
    using fl_eqI [of 45 "3518437208883201 / 100" 4503599627370497] by simp
  have z: "fl (4503599627370497 / 128 * 100) = 3518437208883201"
    using fl_eqI [of 51 "4503599627370497 / 128 * 100" 7036874417766402] by simp
  have "plnToGrosze (groszeToPLN (Inl (Fin (of_int 3518437208883201)))) =
      Fin (of_int \<lfloor>(3518437208883201::rat) + 1 / 2\<rfloor>)"
    using y z by (rule div_mul_round) simp_all
  moreover have "\<lfloor>(3518437208883201::rat) + 1 / 2\<rfloor> = 3518437208883201"
    by (rule floor_unique) simp_all
  ultimately show ?thesis by (simp only:)
qed

text \<open>
  C1, as amended. For every integer \<open>g\<close> from 0 up to 3518437208883201 (that is
  \<open>100 * 2 ^ 45 + 1\<close>), converting the amount \<open>g\<close> to major units and back gives \<open>g\<close>
  again: the two roundings to a double move the value by less than one half, which
  \<^verbatim>\<open>Math.round\<close> takes back.
\<close>

theorem plnToGrosze_groszeToPLN_roundtrip:
  assumes "0 \<le> g" "g < 3518437208883202"
  shows "plnToGrosze (groszeToPLN (Inl (Fin (of_int g)))) = Fin (of_int g)"
proof -
  consider "g = 0" | "0 < g \<and> g < 3518437208883200" | "g = 3518437208883200"
    | "g = 3518437208883201"
    using assms by linarith
  then show ?thesis
  proof cases
    case 1
    show ?thesis unfolding 1 by (rule roundtrip_zero)
  next
    case 2
    then show ?thesis by (simp only: roundtrip_small)
  next
    case 3
    show ?thesis unfolding 3 by (rule roundtrip_edge0)
  next
    case 4
    show ?thesis unfolding 4 by (rule roundtrip_edge1)
  qed
qed

theorem plnToGrosze_groszeToPLN_roundtrip_witness:
  "(0::int) \<le> 12345 \<and> (12345::int) < 3518437208883202 \<and>
   plnToGrosze (groszeToPLN (Inl (Fin 12345))) = Fin 12345"
  using plnToGrosze_groszeToPLN_roundtrip [of 12345] by simp

text \<open>
  The round trip as the claim states it, for every integer that is not negative, fails
  at 3518437208883202: the quotient by 100 is rounded up to a double, its product with
  100 is rounded to 3518437208883202.5, and \<^verbatim>\<open>Math.round\<close> gives 3518437208883203.
\<close>

theorem plnToGrosze_groszeToPLN_roundtrip_counterexample:
  "plnToGrosze (groszeToPLN (Inl (Fin (of_int 3518437208883202)))) = Fin 3518437208883203 \<and>
   plnToGrosze (groszeToPLN (Inl (Fin (of_int 3518437208883202)))) \<noteq> Fin (of_int 3518437208883202)"
proof -
  have y: "fl (of_int 3518437208883202 / 100) = 4503599627370499 / 128"
    using fl_eqI [of 45 "3518437208883202 / 100" 4503599627370499] by simp
  have z: "fl (4503599627370499 / 128 * 100) = 7036874417766405 / 2"
    using fl_eqI [of 51 "4503599627370499 / 128 * 100" 7036874417766405] by simp
  have "plnToGrosze (groszeToPLN (Inl (Fin (of_int 3518437208883202)))) =
      Fin (of_int \<lfloor>(7036874417766405 / 2 :: rat) + 1 / 2\<rfloor>)"
    using y z by (rule div_mul_round) simp_all
  moreover have "\<lfloor>(7036874417766405 / 2 :: rat) + 1 / 2\<rfloor> = 3518437208883203"
    by (rule floor_unique) simp_all
  ultimately have "plnToGrosze (groszeToPLN (Inl (Fin (of_int 3518437208883202)))) =
      Fin (of_int 3518437208883203)"
    by (simp only:)
  then show ?thesis by simp
qed

subsection \<open>Recognized keys\<close>

lemma proto_unrecognized: "''__proto__'' \<notin> set MONETARY_FIELDS"
  by (simp add: MONETARY_FIELDS_def)

lemma map_of_convert_entries:
  "map_of (convert_entries obj) k =
     (if k = ''__proto__'' then None
      else map_option (\<lambda>v. if k \<in> set MONETARY_FIELDS then convert_monetary v
                            else convertAllMonetaryFields v) (map_of obj k))"
  by (induction obj) (auto simp: Let_def)

lemma convert_items_map: "convert_items items = map convertAllMonetaryFields items"
  by (induction items) auto

text \<open>
  C3, as amended. Under a recognized key, a value that is neither a number nor a string
  (null, undefined, a boolean, an array, a nested object) is stored as it is, without a
  look inside it; a number and every string go through \<^verbatim>\<open>groszeToPLN\<close>.
\<close>

theorem convertAllMonetaryFields_recognized_key:
  assumes "key \<in> set MONETARY_FIELDS"
  shows "\<exists>obj'. convertAllMonetaryFields (JObj obj) = JObj obj' \<and>
     map_of obj' key =
       map_option
         (\<lambda>v. case v of
                 JNum n \<Rightarrow> JNum (groszeToPLN (Inl n))
               | JStr s \<Rightarrow> JNum (groszeToPLN (Inr s))
               | _ \<Rightarrow> v)
         (map_of obj key) \<and>
     (\<forall>v. map_of obj key = Some v \<and> typeof v \<noteq> ''number'' \<and> typeof v \<noteq> ''string'' \<longrightarrow>
        map_of obj' key = Some v)"
proof -
  have k: "key \<noteq> ''__proto__''" using assms proto_unrecognized by auto
  have pass: "convert_monetary v = v" if "typeof v \<noteq> ''number''" "typeof v \<noteq> ''string''" for v
    using that by (cases v) (simp_all add: convert_monetary_def)
  have "map_of (convert_entries obj) key = map_option convert_monetary (map_of obj key)"
    using assms k by (simp add: map_of_convert_entries)
  then show ?thesis
    using pass by (auto simp: convert_monetary_def [abs_def])
qed

theorem convertAllMonetaryFields_recognized_key_witness:
  "\<exists>obj'. convertAllMonetaryFields
       (JObj [(''price'', JNull), (''total'', JObj [(''price'', JNum (Fin 100))])]) = JObj obj' \<and>
     map_of obj' ''price'' = Some JNull \<and>
     map_of obj' ''total'' = Some (JObj [(''price'', JNum (Fin 100))])"
proof -
  let ?obj = "[(''price'', JNull), (''total'', JObj [(''price'', JNum (Fin 100))])]"
  have m: "''price'' \<in> set MONETARY_FIELDS" "''total'' \<in> set MONETARY_FIELDS"
    by (simp_all add: MONETARY_FIELDS_def)
  from convertAllMonetaryFields_recognized_key [OF m(1), of ?obj]
    convertAllMonetaryFields_recognized_key [OF m(2), of ?obj]
  show ?thesis by auto
qed

lemma parseFloat_NA: "parseFloat ''N/A'' = NaN"
  by (simp add: parseFloat_def parse_sign_def is_white_space_def is_digit_def parse_fraction_def)

text \<open>
  A string that is not numeric is converted too: \<^verbatim>\<open>"N/A"\<close> under \<^verbatim>\<open>price\<close> becomes NaN.
\<close>

theorem convertAllMonetaryFields_recognized_key_counterexample:
  "convertAllMonetaryFields (JObj [(''price'', JStr ''N/A'')]) = JObj [(''price'', JNum NaN)] \<and>
   convertAllMonetaryFields (JObj [(''price'', JStr ''N/A'')]) \<noteq> JObj [(''price'', JStr ''N/A'')]"
  by (simp add: MONETARY_FIELDS_def groszeToPLN_def parseFloat_NA convert_monetary_def)

subsection \<open>The conversion leaves its argument alone\<close>

lemma repr_items_list_all2: "repr_items P h vs ts \<longleftrightarrow> list_all2 (repr P h) vs ts"
  by (induction vs ts rule: list_induct2') simp_all

lemma repr_entries_list_all2:
  "repr_entries P h es ts \<longleftrightarrow> list_all2 (\<lambda>(k, v) (k', t). k = k' \<and> repr P h v t) es ts"
  by (induction es ts rule: list_induct2') auto

lemma repr_stable:
  assumes agree: "\<And>a. P a \<Longrightarrow> a < length h \<Longrightarrow> a < length h' \<and> h' ! a = h ! a"
    and mono: "\<And>a. P a \<Longrightarrow> a < length h \<Longrightarrow> Q a"
  shows "repr P h v t \<Longrightarrow> repr Q h' v t"
    and "repr_items P h vs ts \<Longrightarrow> repr_items Q h' vs ts"
    and "repr_entries P h es ps \<Longrightarrow> repr_entries Q h' es ps"
proof (induction t and ts and ps arbitrary: v and vs and es
    rule: depth_depth_items_depth_entries.induct)
  case (1 ts)
  then show ?case using agree mono
    by (auto split: hval.splits hobj.splits)
next
  case (2 ts)
  then show ?case using agree mono
    by (auto split: hval.splits hobj.splits)
next
  case (9 t ts)
  then show ?case by (cases vs) auto
next
  case (11 k t ts)
  then show ?case by (cases es) auto
next
  case 8
  then show ?case by (cases vs) auto
next
  case 10
  then show ?case by (cases es) auto
qed simp_all


lemma conv_okD:
  assumes "conv_ok t" "repr P h v t" "\<And>a. P a \<Longrightarrow> a < length h" "depth t < n"
  obtains v' h' where "convertAllMonetaryFields_h n h v = Some (v', h')"
    "length h \<le> length h'" "take (length h) h' = h"
    "repr (\<lambda>a. P a \<or> length h \<le> a) h' v' (convertAllMonetaryFields t)"
    "if is_scalar t then v' = v \<and> h' = h else v' = HRef (length h)"
  using assms unfolding conv_ok_def by blast

lemma take_nth_eq:
  assumes "take (length h) h' = h" "b < length h"
  shows "h' ! b = h ! b"
  using assms by (metis nth_take)

lemma update_fresh:
  assumes "key \<notin> fst ` set acc"
  shows "AList.update key x acc = acc @ [(key, x)]"
  using assms by (induction acc) auto

lemma convert_entries_h_correct:
  assumes kids: "\<forall>e \<in> set ts. conv_ok (snd e)"
    and rep: "repr_entries P h es ts"
    and below: "\<And>a. P a \<Longrightarrow> a < c"
    and c: "c < length h" "h ! c = HObject acc"
    and dist: "distinct (map fst es)" "fst ` set acc \<inter> fst ` set es = {}"
    and fuel: "depth_entries ts < n"
  shows "\<exists>h' new. convert_entries_h n h es c = Some h' \<and> length h \<le> length h' \<and>
      (\<forall>b < length h. b \<noteq> c \<longrightarrow> h' ! b = h ! b) \<and> h' ! c = HObject (acc @ new) \<and>
      map fst new = filter (\<lambda>k. k \<noteq> ''__proto__'') (map fst es) \<and>
      repr_entries (\<lambda>a. P a \<or> c < a) h' new (convert_entries ts)"
  using kids rep c dist fuel
proof (induction es arbitrary: ts h acc)
  case Nil
  then have "ts = []" by (cases ts) simp_all
  with Nil show ?case by simp
next
  case (Cons e es)
  obtain key v where e: "e = (key, v)" by (cases e)
  from Cons.prems(2) e obtain t ts' where ts: "ts = (key, t) # ts'"
    and rv: "repr P h v t" and res: "repr_entries P h es ts'"
    by (cases ts) auto
  have fresh: "key \<notin> fst ` set acc" using Cons.prems(6) e by auto
  have kids': "\<forall>e \<in> set ts'. conv_ok (snd e)" using Cons.prems(1) ts by auto
  have kid: "conv_ok t" using Cons.prems(1) ts by auto
  have dist': "distinct (map fst es)" using Cons.prems(5) by simp
  have fuel': "depth_entries ts' < n" "depth t < n" using Cons.prems(7) ts by simp_all
  let ?Q = "\<lambda>a. P a \<or> c < a"
  have nth_c [simp]: "g[c := y] ! a = g ! a" if "P a" for g :: heap and y a
    using below [OF that] by simp
  have inh: "\<And>a. P a \<Longrightarrow> a < length h"
    using below Cons.prems(3) by (meson order.strict_trans)
  \<comment> \<open>the value to store, and the store after computing it\<close>
  define y where "y = (if key \<in> set MONETARY_FIELDS then convert_monetary t
    else convertAllMonetaryFields t)"
  have "\<exists>x h0. (if key \<in> set MONETARY_FIELDS then x = convert_monetary_h v \<and> h0 = h
        else convertAllMonetaryFields_h n h v = Some (x, h0)) \<and>
      length h \<le> length h0 \<and> take (length h) h0 = h \<and>
      repr (\<lambda>a. P a \<or> length h \<le> a) h0 x y"
  proof (cases "key \<in> set MONETARY_FIELDS")
    case True
    have rv': "repr (\<lambda>a. P a \<or> length h \<le> a) h v t"
      by (rule repr_stable(1) [where P = P and h = h, OF _ _ rv]) auto
    have "repr (\<lambda>a. P a \<or> length h \<le> a) h (convert_monetary_h v) (convert_monetary t)"
      using rv rv'
      by (cases t)
        (auto simp: convert_monetary_def convert_monetary_h_def split: hval.splits)
    with True show ?thesis by (simp add: y_def)
  next
    case False
    from conv_okD [OF kid rv inh fuel'(2)]
    obtain x h0 where "convertAllMonetaryFields_h n h v = Some (x, h0)"
      "length h \<le> length h0" "take (length h) h0 = h"
      "repr (\<lambda>a. P a \<or> length h \<le> a) h0 x (convertAllMonetaryFields t)"
      by metis
    with False show ?thesis by (auto simp: y_def)
  qed
  then obtain x h0 where cv: "if key \<in> set MONETARY_FIELDS then x = convert_monetary_h v \<and> h0 = h
        else convertAllMonetaryFields_h n h v = Some (x, h0)"
    "length h \<le> length h0" "take (length h) h0 = h"
    "repr (\<lambda>a. P a \<or> length h \<le> a) h0 x y"
    by blast
  define acc' where "acc' = (if key = ''__proto__'' then acc else acc @ [(key, x)])"
  define h1 where "h1 = set_property h0 c key x"
  have h0c: "h0 ! c = HObject acc"
    using take_nth_eq [OF cv(3) Cons.prems(3)] Cons.prems(4) by simp
  have h1: "h1 = (if key = ''__proto__'' then h0 else h0[c := HObject acc'])"
    by (simp add: h1_def set_property_def h0c update_fresh [OF fresh] acc'_def)
  have step: "convert_entries_h n h (e # es) c = convert_entries_h n h1 es c"
    using cv(1) by (auto simp: e h1_def)
  have agree: "\<And>a. P a \<Longrightarrow> a < length h \<Longrightarrow> a < length h1 \<and> h1 ! a = h ! a"
    using cv(2) take_nth_eq [OF cv(3)] by (auto simp: h1)
  have res1: "repr_entries P h1 es ts'"
    by (rule repr_stable(3) [where P = P and h = h, OF _ _ res]) (use agree in auto)
  have c1: "c < length h1" "h1 ! c = HObject acc'"
    using Cons.prems(3) cv(2) h0c by (auto simp: h1 acc'_def)
  have disj': "fst ` set acc' \<inter> fst ` set es = {}"
    using Cons.prems(5,6) e by (auto simp: acc'_def)
  from Cons.IH [OF kids' res1 c1 dist' disj' fuel'(1)]
  obtain h' new where IH: "convert_entries_h n h1 es c = Some h'" "length h1 \<le> length h'"
    "\<forall>b<length h1. b \<noteq> c \<longrightarrow> h' ! b = h1 ! b" "h' ! c = HObject (acc' @ new)"
    "map fst new = filter (\<lambda>k. k \<noteq> ''__proto__'') (map fst es)"
    "repr_entries ?Q h' new (convert_entries ts')"
    by auto
  have len1: "length h1 = length h0" by (simp add: h1)
  have h1nth: "\<And>b. b \<noteq> c \<Longrightarrow> h1 ! b = h0 ! b" by (simp add: h1)
  have agree0: "a < length h' \<and> h' ! a = h0 ! a" if "P a \<or> length h \<le> a" "a < length h0" for a
  proof -
    from that(1) have "a \<noteq> c" using below Cons.prems(3) by auto
    then show ?thesis using IH(2,3) that(2) len1 h1nth by auto
  qed
  have rx: "repr ?Q h' x y"
    by (rule repr_stable(1) [where h = h0, OF _ _ cv(4)]) (use agree0 Cons.prems(3) in auto)
  have frame: "\<forall>b<length h. b \<noteq> c \<longrightarrow> h' ! b = h ! b"
    using IH(3) cv(2) take_nth_eq [OF cv(3)] len1 h1nth by auto
  define new' where "new' = (if key = ''__proto__'' then new else (key, x) # new)"
  have "h' ! c = HObject (acc @ new')" using IH(4) by (simp add: acc'_def new'_def)
  moreover have "map fst new' = filter (\<lambda>k. k \<noteq> ''__proto__'') (map fst (e # es))"
    using IH(5) by (simp add: new'_def e)
  moreover have "repr_entries ?Q h' new' (convert_entries ts)"
    using IH(6) rx by (simp add: new'_def ts Let_def y_def)
  moreover have "length h \<le> length h'" using IH(2) cv(2) len1 by simp
  moreover have "convert_entries_h n h (e # es) c = Some h'" using step IH(1) by simp
  ultimately show ?case
    using frame by (intro exI [of _ h'] exI [of _ new']) simp
qed

lemma depth_items_ge: "t \<in> set ts \<Longrightarrow> depth t \<le> depth_items ts"
  by (induction ts) auto

lemma depth_entries_ge: "e \<in> set ts \<Longrightarrow> depth (snd e) \<le> depth_entries ts"
  by (induction ts) auto

lemma convert_items_h_correct:
  assumes kids: "\<forall>t \<in> set ts. conv_ok t"
    and Pa: "P a"
    and below: "\<And>a. P a \<Longrightarrow> a < c"
    and fuel: "depth_items ts < n"
    and len: "length items = length ts"
    and src: "h ! a = HArray items" "repr_items P h items ts"
    and c: "c < length h" "h ! c = HArray out" "length out = length items"
    and k: "k \<le> length items"
      "\<forall>i<k. repr (\<lambda>a. P a \<or> c < a) h (out ! i) (convertAllMonetaryFields (ts ! i))"
  shows "\<exists>h' out'. convert_items_h n h a c k (length items) = Some h' \<and> length h \<le> length h' \<and>
      (\<forall>b<length h. b \<noteq> c \<longrightarrow> h' ! b = h ! b) \<and> h' ! c = HArray out' \<and>
      length out' = length items \<and>
      (\<forall>i<length items. repr (\<lambda>a. P a \<or> c < a) h' (out' ! i) (convertAllMonetaryFields (ts ! i)))"
  using src c k
proof (induction "length items - k" arbitrary: k h out)
  case 0
  then have "k = length items" by simp
  with 0 show ?case
    by (simp add: convert_items_h.simps)
next
  case (Suc m)
  let ?Q = "\<lambda>a. P a \<or> c < a"
  have klt: "k < length items" using Suc.hyps(2) by simp
  have ac: "a < c" using below Pa by simp
  have nth_c [simp]: "g[c := y] ! b = g ! b" if "P b" for g :: heap and y b
    using below [OF that] by simp
  have kin: "ts ! k \<in> set ts" using klt len by simp
  have kid: "conv_ok (ts ! k)" using kids kin by simp
  have rk: "repr P h (items ! k) (ts ! k)"
    using Suc.prems(2) klt by (simp add: repr_items_list_all2 list_all2_conv_all_nth)
  have gi: "get_index h a k = items ! k"
    using klt by (simp add: get_index_def Suc.prems(1))
  have inh: "\<And>b. P b \<Longrightarrow> b < length h"
    using below Suc.prems(3) by (meson order.strict_trans)
  have fk: "depth (ts ! k) < n" using depth_items_ge [OF kin] fuel by simp
  from conv_okD [OF kid rk inh fk]
  obtain x h0 where cv: "convertAllMonetaryFields_h n h (items ! k) = Some (x, h0)"
    "length h \<le> length h0" "take (length h) h0 = h"
    "repr (\<lambda>b. P b \<or> length h \<le> b) h0 x (convertAllMonetaryFields (ts ! k))"
    by metis
  define h1 where "h1 = set_index h0 c k x"
  have h0c: "h0 ! c = HArray out"
    using take_nth_eq [OF cv(3) Suc.prems(3)] Suc.prems(4) by simp
  have h1: "h1 = h0[c := HArray (out[k := x])]"
    by (simp add: h1_def set_index_def h0c)
  have agree: "\<And>b. P b \<Longrightarrow> b < length h \<Longrightarrow> b < length h1 \<and> h1 ! b = h ! b"
    using cv(2) take_nth_eq [OF cv(3)] by (auto simp: h1)
  have src1: "h1 ! a = HArray items"
    using agree [OF Pa inh [OF Pa]] Suc.prems(1) by simp
  have rep1: "repr_items P h1 items ts"
    by (rule repr_stable(2) [where P = P and h = h, OF _ _ Suc.prems(2)]) (use agree in auto)
  have c1: "c < length h1" "h1 ! c = HArray (out[k := x])" "length (out[k := x]) = length items"
    using Suc.prems(3,5) cv(2) by (simp_all add: h1)
  have agreeQ: "\<And>b. ?Q b \<Longrightarrow> b < length h \<Longrightarrow> b < length h1 \<and> h1 ! b = h ! b"
    using cv(2) take_nth_eq [OF cv(3)] below by (auto simp: h1)
  have agree0: "\<And>b. P b \<or> length h \<le> b \<Longrightarrow> b < length h0 \<Longrightarrow> b < length h1 \<and> h1 ! b = h0 ! b"
    using below Suc.prems(3) by (auto simp: h1)
  have rx: "repr ?Q h1 x (convertAllMonetaryFields (ts ! k))"
    by (rule repr_stable(1) [where h = h0, OF _ _ cv(4)]) (use agree0 Suc.prems(3) in auto)
  have done1: "\<forall>i<Suc k. repr ?Q h1 ((out[k := x]) ! i) (convertAllMonetaryFields (ts ! i))"
  proof (intro allI impI)
    fix i assume i: "i < Suc k"
    show "repr ?Q h1 ((out[k := x]) ! i) (convertAllMonetaryFields (ts ! i))"
    proof (cases "i = k")
      case True
      with rx klt Suc.prems(5) show ?thesis by simp
    next
      case False
      with i have ik: "i < k" by simp
      have "repr ?Q h (out ! i) (convertAllMonetaryFields (ts ! i))"
        using Suc.prems(7) ik by simp
      then have "repr ?Q h1 (out ! i) (convertAllMonetaryFields (ts ! i))"
        by (rule repr_stable(1) [where P = ?Q and h = h, rotated 2]) (use agreeQ in auto)
      with False show ?thesis by simp
    qed
  qed
  have m: "m = length items - Suc k" using Suc.hyps(2) by simp
  have k1: "Suc k \<le> length items" using klt by simp
  from Suc.hyps(1) [OF m src1 rep1 c1 k1 done1]
  obtain h' out' where IH: "convert_items_h n h1 a c (Suc k) (length items) = Some h'"
    "length h1 \<le> length h'" "\<forall>b<length h1. b \<noteq> c \<longrightarrow> h' ! b = h1 ! b"
    "h' ! c = HArray out'" "length out' = length items"
    "\<forall>i<length items. repr ?Q h' (out' ! i) (convertAllMonetaryFields (ts ! i))"
    by auto
  have frame: "\<forall>b<length h. b \<noteq> c \<longrightarrow> h' ! b = h ! b"
    using IH(3) cv(2) take_nth_eq [OF cv(3)] by (auto simp: h1)
  have run: "convert_items_h n h a c k (length items) = Some h'"
    using klt by (subst convert_items_h.simps) (simp add: gi cv(1) h1_def [symmetric] IH(1))
  show ?case
    using run IH frame cv(2) by (intro exI [of _ h'] exI [of _ out']) (auto simp: h1)
qed

lemma take_eqI:
  assumes "length h \<le> length h'" "\<forall>b<length h. h' ! b = h ! b"
  shows "take (length h) h' = h"
  using assms by (simp add: list_eq_iff_nth_eq)

lemma conv_ok_scalar:
  assumes "is_scalar t"
  shows "conv_ok t"
  unfolding conv_ok_def
proof (intro allI impI)
  fix n h v P
  assume r: "repr P h v t" and n: "depth t < n"
  from n obtain n' where n': "n = Suc n'" by (cases n) simp_all
  from assms r show "\<exists>v' h'. convertAllMonetaryFields_h n h v = Some (v', h') \<and>
           length h \<le> length h' \<and> take (length h) h' = h \<and>
           repr (\<lambda>a. P a \<or> length h \<le> a) h' v' (convertAllMonetaryFields t) \<and>
           (if is_scalar t then v' = v \<and> h' = h else v' = HRef (length h))"
    by (cases t) (simp_all add: n')
qed

lemma conv_ok_array:
  assumes kids: "\<forall>t \<in> set ts. conv_ok t"
  shows "conv_ok (JArr ts)"
  unfolding conv_ok_def
proof (intro allI impI)
  fix n h v P
  assume r: "repr P h v (JArr ts)" and inh: "\<forall>a. P a \<longrightarrow> a < length h"
    and n: "depth (JArr ts) < n"
  from n obtain n' where n': "n = Suc n'" "depth_items ts < n'" by (cases n) simp_all
  from r obtain a items where v: "v = HRef a" and a: "P a" "a < length h"
    and ha: "h ! a = HArray items" and ri: "repr_items P h items ts"
    by (auto split: hval.splits hobj.splits)
  have len: "length items = length ts"
    using ri by (simp add: repr_items_list_all2 list_all2_lengthD)
  define c where "c = length h"
  define out where "out = replicate (length items) HUndefined"
  define h1 where "h1 = h @ [HArray out]"
  let ?Q = "\<lambda>b. P b \<or> c < b"
  have below: "\<And>b. P b \<Longrightarrow> b < c" using inh by (simp add: c_def)
  have src1: "h1 ! a = HArray items" using a ha by (simp add: h1_def nth_append)
  have rep1: "repr_items P h1 items ts"
    by (rule repr_stable(2) [where P = P and h = h, OF _ _ ri]) (auto simp: h1_def nth_append)
  have c1: "c < length h1" "h1 ! c = HArray out" "length out = length items"
    by (simp_all add: h1_def c_def out_def)
  have k0: "0 \<le> length items"
    "\<forall>i<0. repr ?Q h1 (out ! i) (convertAllMonetaryFields (ts ! i))" by simp_all
  from convert_items_h_correct [OF kids a(1) below n'(2) len src1 rep1 c1 k0]
  obtain h' out' where L: "convert_items_h n' h1 a c 0 (length items) = Some h'"
    "length h1 \<le> length h'" "\<forall>b<length h1. b \<noteq> c \<longrightarrow> h' ! b = h1 ! b"
    "h' ! c = HArray out'" "length out' = length items"
    "\<forall>i<length items. repr ?Q h' (out' ! i) (convertAllMonetaryFields (ts ! i))"
    by auto
  have run: "convertAllMonetaryFields_h n h v = Some (HRef c, h')"
    using a ha L(1) by (simp add: n' v h1_def out_def c_def)
  have le: "length h \<le> length h'" using L(2) by (simp add: h1_def)
  have "\<forall>b<length h. h' ! b = h ! b"
    using L(3) by (auto simp: h1_def c_def nth_append)
  with le have frame: "take (length h) h' = h" by (rule take_eqI)
  have "\<forall>i<length items. repr (\<lambda>b. P b \<or> length h \<le> b) h' (out' ! i) (convertAllMonetaryFields (ts ! i))"
  proof (intro allI impI)
    fix i assume "i < length items"
    with L(6) have "repr ?Q h' (out' ! i) (convertAllMonetaryFields (ts ! i))" by simp
    then show "repr (\<lambda>b. P b \<or> length h \<le> b) h' (out' ! i) (convertAllMonetaryFields (ts ! i))"
      by (rule repr_stable(1) [where P = ?Q and h = h', rotated 2]) (auto simp: c_def)
  qed
  then have "repr_items (\<lambda>b. P b \<or> length h \<le> b) h' out' (convert_items ts)"
    using L(5) len
    by (simp add: repr_items_list_all2 list_all2_conv_all_nth convert_items_map)
  then have res: "repr (\<lambda>b. P b \<or> length h \<le> b) h' (HRef c) (convertAllMonetaryFields (JArr ts))"
    using L(2,4) by (simp add: c_def h1_def)
  show "\<exists>v' h'. convertAllMonetaryFields_h n h v = Some (v', h') \<and>
           length h \<le> length h' \<and> take (length h) h' = h \<and>
           repr (\<lambda>a. P a \<or> length h \<le> a) h' v' (convertAllMonetaryFields (JArr ts)) \<and>
           (if is_scalar (JArr ts) then v' = v \<and> h' = h else v' = HRef (length h))"
    using run le frame res by (auto simp: c_def)
qed

lemma conv_ok_object:
  assumes kids: "\<forall>e \<in> set ts. conv_ok (snd e)"
  shows "conv_ok (JObj ts)"
  unfolding conv_ok_def
proof (intro allI impI)
  fix n h v P
  assume r: "repr P h v (JObj ts)" and inh: "\<forall>a. P a \<longrightarrow> a < length h"
    and n: "depth (JObj ts) < n"
  from n obtain n' where n': "n = Suc n'" "depth_entries ts < n'" by (cases n) simp_all
  from r obtain a obj where v: "v = HRef a" and a: "P a" "a < length h"
    and ha: "h ! a = HObject obj" and d: "distinct (map fst obj)"
    and re: "repr_entries P h obj ts"
    by (auto split: hval.splits hobj.splits)
  define c where "c = length h"
  define h1 where "h1 = h @ [HObject []]"
  let ?Q = "\<lambda>b. P b \<or> c < b"
  have below: "\<And>b. P b \<Longrightarrow> b < c" using inh by (simp add: c_def)
  have rep1: "repr_entries P h1 obj ts"
    by (rule repr_stable(3) [where P = P and h = h, OF _ _ re]) (auto simp: h1_def nth_append)
  have c1: "c < length h1" "h1 ! c = HObject []"
    by (simp_all add: h1_def c_def)
  have disj: "fst ` set [] \<inter> fst ` set obj = {}" by simp
  from convert_entries_h_correct [OF kids rep1 below c1 d disj n'(2)]
  obtain h' new where L: "convert_entries_h n' h1 obj c = Some h'"
    "length h1 \<le> length h'" "\<forall>b<length h1. b \<noteq> c \<longrightarrow> h' ! b = h1 ! b"
    "h' ! c = HObject new" "map fst new = filter (\<lambda>k. k \<noteq> ''__proto__'') (map fst obj)"
    "repr_entries ?Q h' new (convert_entries ts)"
    by auto
  have run: "convertAllMonetaryFields_h n h v = Some (HRef c, h')"
    using a ha L(1) by (simp add: n' v h1_def c_def)
  have le: "length h \<le> length h'" using L(2) by (simp add: h1_def)
  have "\<forall>b<length h. h' ! b = h ! b"
    using L(3) by (auto simp: h1_def c_def nth_append)
  with le have frame: "take (length h) h' = h" by (rule take_eqI)
  have "repr_entries (\<lambda>b. P b \<or> length h \<le> b) h' new (convert_entries ts)"
    using L(6) by (rule repr_stable(3) [where P = ?Q and h = h', rotated 2]) (auto simp: c_def)
  then have res: "repr (\<lambda>b. P b \<or> length h \<le> b) h' (HRef c) (convertAllMonetaryFields (JObj ts))"
    using L(2,4,5) d by (simp add: c_def h1_def)
  show "\<exists>v' h'. convertAllMonetaryFields_h n h v = Some (v', h') \<and>
           length h \<le> length h' \<and> take (length h) h' = h \<and>
           repr (\<lambda>a. P a \<or> length h \<le> a) h' v' (convertAllMonetaryFields (JObj ts)) \<and>
           (if is_scalar (JObj ts) then v' = v \<and> h' = h else v' = HRef (length h))"
    using run le frame res by (auto simp: c_def)
qed

lemma conv_ok_all:
  fixes t :: jsval and ts :: "jsval list" and ps :: props
  shows "conv_ok t" and "\<forall>t \<in> set ts. conv_ok t" and "\<forall>e \<in> set ps. conv_ok (snd e)"
proof (induction t and ts and ps rule: depth_depth_items_depth_entries.induct)
  case (1 ts)
  then show ?case by (rule conv_ok_array)
next
  case (2 ts)
  then show ?case by (rule conv_ok_object)
qed (simp_all add: conv_ok_scalar)

lemma lookup_step_convert:
  assumes "unrecognized s"
  shows "lookup_step (convertAllMonetaryFields d) s =
    map_option convertAllMonetaryFields (lookup_step d s)"
  using assms
  by (cases d; cases s) (auto simp: map_of_convert_entries convert_items_map)

lemma lookup_path_convert:
  assumes "list_all unrecognized p"
  shows "lookup_path (convertAllMonetaryFields d) p =
    map_option convertAllMonetaryFields (lookup_path d p)"
  using assms
proof (induction p arbitrary: d)
  case Nil
  show ?case by simp
next
  case (Cons s p)
  then show ?case
    by (cases "lookup_step d s") (simp_all add: lookup_step_convert)
qed

lemma convert_scalar: "is_scalar u \<Longrightarrow> convertAllMonetaryFields u = u"
  by (cases u) simp_all

text \<open>
  What holds of the conversion. It returns for every value that stands for a tree,
  however deep (the bound on the recursion only has to exceed the depth). No array or
  object that existed before the call is changed: the store after the call starts with
  the store before it. A scalar, null and undefined are returned as they are; for an
  array or an object the result is a new one, which stands for the converted tree. In
  the converted tree, along every path of indices and of keys outside the recognized set
  (\<^verbatim>\<open>__proto__\<close> apart), there is a value exactly where the argument has one, it is
  the conversion of that value, and it is that value itself when it is a scalar.
\<close>

theorem convertAllMonetaryFields_frame:
  assumes "repr (\<lambda>a. a < length h) h v t" and "depth t < n"
  shows "\<exists>v' h'. convertAllMonetaryFields_h n h v = Some (v', h') \<and>
      take (length h) h' = h \<and>
      repr (\<lambda>a. a < length h') h' v' (convertAllMonetaryFields t) \<and>
      (if is_scalar t then v' = v \<and> h' = h else v' = HRef (length h)) \<and>
      (\<forall>p. list_all unrecognized p \<longrightarrow>
         lookup_path (convertAllMonetaryFields t) p =
           map_option convertAllMonetaryFields (lookup_path t p)) \<and>
      (\<forall>u. is_scalar u \<longrightarrow> convertAllMonetaryFields u = u)"
proof -
  from conv_okD [OF conv_ok_all(1) assms(1) _ assms(2)]
  obtain v' h' where c: "convertAllMonetaryFields_h n h v = Some (v', h')"
    "length h \<le> length h'" "take (length h) h' = h"
    "repr (\<lambda>a. a < length h \<or> length h \<le> a) h' v' (convertAllMonetaryFields t)"
    "if is_scalar t then v' = v \<and> h' = h else v' = HRef (length h)"
    by metis
  have "repr (\<lambda>a. a < length h') h' v' (convertAllMonetaryFields t)"
    using c(4)
    by (rule repr_stable(1) [where h = h', rotated 2]) simp_all
  with c lookup_path_convert convert_scalar show ?thesis by blast
qed

theorem convertAllMonetaryFields_frame_witness:
  "\<exists>v' h'. convertAllMonetaryFields_h 3
        [HObject [(''price'', HNull), (''items'', HRef 1)], HArray [HStr ''Dev'']] (HRef 0) =
        Some (v', h') \<and>
      take 2 h' = [HObject [(''price'', HNull), (''items'', HRef 1)], HArray [HStr ''Dev'']] \<and>
      v' = HRef 2 \<and>
      repr (\<lambda>a. a < length h') h' v'
        (JObj [(''price'', JNull), (''items'', JArr [JStr ''Dev''])])"
proof -
  let ?h = "[HObject [(''price'', HNull), (''items'', HRef 1)], HArray [HStr ''Dev'']]"
  let ?t = "JObj [(''price'', JNull), (''items'', JArr [JStr ''Dev''])]"
  have r: "repr (\<lambda>a. a < length ?h) ?h (HRef 0) ?t" by simp
  have d: "depth ?t < 3" by simp
  have e: "convertAllMonetaryFields ?t = ?t"
    by (simp add: MONETARY_FIELDS_def convert_monetary_def)
  from convertAllMonetaryFields_frame [OF r d]
  obtain v' h' where run: "convertAllMonetaryFields_h 3 ?h (HRef 0) = Some (v', h')"
    and frame: "take (length ?h) h' = ?h"
    and res: "repr (\<lambda>a. a < length h') h' v' (convertAllMonetaryFields ?t)"
    and new: "if is_scalar ?t then v' = HRef 0 \<and> h' = ?h else v' = HRef (length ?h)"
    by blast
  from new have v': "v' = HRef 2" by simp
  from frame have frame': "take 2 h' = ?h" by (simp add: numeral_2_eq_2)
  from res have res': "repr (\<lambda>a. a < length h') h' v' ?t" unfolding e .
  from run frame' v' res' show ?thesis by blast
qed

text \<open>
  C2. The claim is that every value stored under a key outside the recognized set is
  kept. The code loses the value stored under the key \<^verbatim>\<open>__proto__\<close>, which is outside
  the recognized set: for the argument \<^verbatim>\<open>{"__proto__": 5, "id": 1}\<close> (as
  \<^verbatim>\<open>JSON.parse\<close> builds it) the conversion returns an object whose only property is
  \<^verbatim>\<open>id\<close>, on the tree and on the store. The argument itself is left as it was.
\<close>

theorem convertAllMonetaryFields_proto_key:
  "convertAllMonetaryFields (JObj [(''__proto__'', JNum (Fin 5)), (''id'', JNum (Fin 1))]) =
     JObj [(''id'', JNum (Fin 1))] \<and>
   convertAllMonetaryFields_h 2
       [HObject [(''__proto__'', HNum (Fin 5)), (''id'', HNum (Fin 1))]] (HRef 0) =
     Some (HRef 1,
       [HObject [(''__proto__'', HNum (Fin 5)), (''id'', HNum (Fin 1))],
        HObject [(''id'', HNum (Fin 1))]])"
  by (simp add: MONETARY_FIELDS_def numeral_2_eq_2 set_property_def)

subsection \<open>Line items\<close>

lemma validateInvoiceService_gross_only:
  assumes "get_prop ps ''name'' = JStr n" "trim n \<noteq> []"
    and "get_prop ps ''tax_symbol'' = JStr t \<or> get_prop ps ''tax_symbol'' = JNum x"
    and "get_prop ps ''gross_price'' = JNum (Fin g)" "0 \<le> g"
    and "get_prop ps ''net_price'' = JUndefined" "get_prop ps ''unit_net_price'' = JUndefined"
    and "get_prop ps ''quantity'' = JUndefined"
  shows "validateInvoiceService (JObj ps) i = Inr ()"
  using assms
  by (auto simp: validateInvoiceService_def get_member_def validateRequiredString_def
      only_if_def validateNonNegativeNumber_def)

lemma validateInvoiceService_no_price:
  assumes "get_member v ''net_price'' = JUndefined" "get_member v ''unit_net_price'' = JUndefined"
    and "get_member v ''gross_price'' = JUndefined"
  shows "validateInvoiceService v i \<noteq> Inr ()"
  using assms
  by (auto simp: validateInvoiceService_def only_if_def split: sum.splits)

text \<open>
  C6. A line item with a name and a tax symbol and none of the three prices is refused,
  and \<^verbatim>\<open>validateInvoiceService\<close> names the field \<^verbatim>\<open>services\<close>. Called through
  \<^verbatim>\<open>validateArray\<close> on the field \<^verbatim>\<open>services\<close>, as every handler calls it, the error
  that comes out names the field \<^verbatim>\<open>services[0].services\<close>: \<^verbatim>\<open>validateArray\<close> puts
  \<^verbatim>\<open>services[0].\<close> in front of the field of the item's error, which is not relative to
  the item here. (The message keeps the prefix that the SDK's \<^verbatim>\<open>McpError\<close> puts before
  the text that \<^verbatim>\<open>validateArray\<close> removes.)
\<close>

theorem validateArray_no_price_path:
  "validateInvoiceService (JObj [(''name'', JStr ''Dev''), (''tax_symbol'', JNum (Fin 23))]) 0 =
     Inl (ValidationError ''services''
       ''each service must have at least one of: net_price, unit_net_price, or gross_price'') \<and>
   validateArray (JArr [JObj [(''name'', JStr ''Dev''), (''tax_symbol'', JNum (Fin 23))]])
       ''services'' (Some validateInvoiceService) =
     Inl (ValidationError ''services[0].services''
       ''MCP error -32602: each service must have at least one of: net_price, unit_net_price, or gross_price'')"
  by (simp add: validateArray_def validateInvoiceService_def get_member_def get_prop_def
      validateRequiredString_def trim_def is_white_space_def only_if_def
      validation_message_def mcp_message_def int_to_string_def nat_to_string.simps
      digit_char_def)

theorem validateArray_no_price_path_witness:
  "\<exists>e. validateArray (JArr [JObj [(''name'', JStr ''Dev''), (''tax_symbol'', JNum (Fin 23))]])
          ''services'' (Some validateInvoiceService) = Inl e \<and>
       instanceof_ValidationError e \<and>
       error_field e = ''services[0].services'' \<and>
       error_field e \<noteq> ''services''"
  using validateArray_no_price_path by simp

subsection \<open>Configuration: the sandbox flag and the base URL\<close>

lemma parseBooleanEnvVar_true:
  "parseBooleanEnvVar process_env name False \<longleftrightarrow>
     process_env name = Some ''true'' \<or> process_env name = Some ''1''"
  by (simp add: parseBooleanEnvVar_def split: option.splits)

lemma loadConfig_with_key:
  assumes "process_env ''INFAKT_API_KEY'' = Some key" and "10 \<le> length key"
  shows "loadConfig URL_parses process_env =
     (let sandbox = parseBooleanEnvVar process_env ''INFAKT_USE_SANDBOX'' False;
          url = (if sandbox then API_ENDPOINTS_SANDBOX
                 else (case process_env ''INFAKT_BASE_URL'' of
                         Some u \<Rightarrow> u
                       | None \<Rightarrow> API_ENDPOINTS_PRODUCTION))
      in if URL_parses url then Inr \<lparr>apiKey = key, baseUrl = url, useSandbox = sandbox\<rparr>
         else Inl (ConfigurationError (''Invalid URL format: '' @ url)))"
proof -
  from assms(2) have "key \<noteq> []" by auto
  with assms show ?thesis
    by (simp add: loadConfig_def requireEnvVar_def validateApiKey_def validateUrl_def Let_def)
qed

text \<open>
  C10. With an API key of at least ten characters in the environment:
  \<^verbatim>\<open>INFAKT_USE_SANDBOX\<close> reads as true exactly when it is set to \<^verbatim>\<open>true\<close> or \<^verbatim>\<open>1\<close>;
  when it does, \<open>loadConfig\<close> returns the fixed sandbox endpoint as base URL, whatever
  \<^verbatim>\<open>INFAKT_BASE_URL\<close> holds; when it does not (another value, or not set), the base URL
  is the value of \<^verbatim>\<open>INFAKT_BASE_URL\<close> if that is set, and the fixed production endpoint if
  it is not. In each case the chosen URL has to pass \<^verbatim>\<open>new URL\<close>.
\<close>

theorem loadConfig_sandbox_precedence:
  assumes "process_env ''INFAKT_API_KEY'' = Some key" and "10 \<le> length key"
  shows
    "(parseBooleanEnvVar process_env ''INFAKT_USE_SANDBOX'' False \<longleftrightarrow>
        process_env ''INFAKT_USE_SANDBOX'' = Some ''true'' \<or>
        process_env ''INFAKT_USE_SANDBOX'' = Some ''1'') \<and>
     (parseBooleanEnvVar process_env ''INFAKT_USE_SANDBOX'' False \<and>
      URL_parses ''https://api.sandbox-infakt.pl/api/v3'' \<longrightarrow>
        loadConfig URL_parses process_env =
          Inr \<lparr>apiKey = key, baseUrl = ''https://api.sandbox-infakt.pl/api/v3'',
               useSandbox = True\<rparr>) \<and>
     (\<forall>u. \<not> parseBooleanEnvVar process_env ''INFAKT_USE_SANDBOX'' False \<and>
          process_env ''INFAKT_BASE_URL'' = Some u \<and> URL_parses u \<longrightarrow>
        loadConfig URL_parses process_env =
          Inr \<lparr>apiKey = key, baseUrl = u, useSandbox = False\<rparr>) \<and>
     (\<not> parseBooleanEnvVar process_env ''INFAKT_USE_SANDBOX'' False \<and>
      process_env ''INFAKT_BASE_URL'' = None \<and>
      URL_parses ''https://api.infakt.pl/api/v3'' \<longrightarrow>
        loadConfig URL_parses process_env =
          Inr \<lparr>apiKey = key, baseUrl = ''https://api.infakt.pl/api/v3'',
               useSandbox = False\<rparr>)"
  using assms
  by (simp add: loadConfig_with_key parseBooleanEnvVar_true Let_def API_ENDPOINTS_SANDBOX_def
      API_ENDPOINTS_PRODUCTION_def)

theorem loadConfig_sandbox_precedence_witness:
  "loadConfig (\<lambda>u. take 8 u = ''https://'')
     [''INFAKT_API_KEY'' \<mapsto> ''0123456789'', ''INFAKT_USE_SANDBOX'' \<mapsto> ''true'',
      ''INFAKT_BASE_URL'' \<mapsto> ''https://localhost:3000/api/v3''] =
     Inr \<lparr>apiKey = ''0123456789'', baseUrl = ''https://api.sandbox-infakt.pl/api/v3'',
          useSandbox = True\<rparr> \<and>
   loadConfig (\<lambda>u. take 8 u = ''https://'')
     [''INFAKT_API_KEY'' \<mapsto> ''0123456789'', ''INFAKT_USE_SANDBOX'' \<mapsto> ''false'',
      ''INFAKT_BASE_URL'' \<mapsto> ''https://localhost:3000/api/v3''] =
     Inr \<lparr>apiKey = ''0123456789'', baseUrl = ''https://localhost:3000/api/v3'',
          useSandbox = False\<rparr> \<and>
   loadConfig (\<lambda>u. take 8 u = ''https://'')
     [''INFAKT_API_KEY'' \<mapsto> ''0123456789''] =
     Inr \<lparr>apiKey = ''0123456789'', baseUrl = ''https://api.infakt.pl/api/v3'',
          useSandbox = False\<rparr>"
  using
    loadConfig_sandbox_precedence [of
      "[''INFAKT_API_KEY'' \<mapsto> ''0123456789'', ''INFAKT_USE_SANDBOX'' \<mapsto> ''true'',
        ''INFAKT_BASE_URL'' \<mapsto> ''https://localhost:3000/api/v3'']"
      "''0123456789''" "\<lambda>u. take 8 u = ''https://''"]
    loadConfig_sandbox_precedence [of
      "[''INFAKT_API_KEY'' \<mapsto> ''0123456789'', ''INFAKT_USE_SANDBOX'' \<mapsto> ''false'',
        ''INFAKT_BASE_URL'' \<mapsto> ''https://localhost:3000/api/v3'']"
      "''0123456789''" "\<lambda>u. take 8 u = ''https://''"]
    loadConfig_sandbox_precedence [of
      "[''INFAKT_API_KEY'' \<mapsto> ''0123456789'']"
      "''0123456789''" "\<lambda>u. take 8 u = ''https://''"]
  by (simp add: parseBooleanEnvVar_def)

subsection \<open>Translation of a 422 response\<close>

lemma Array_join_two_strings:
  "Array_join [JStr a, JStr b] sep = a @ sep @ b"
  by (simp add: Array_join_def)

text \<open>
  C9. For an HTTP failure with status 422 and the body
  \<^verbatim>\<open>{"errors": ["name is blank", "tax_symbol invalid"]}\<close>, whatever message the HTTP
  library gave its error: \<open>extractErrorMessage\<close> returns the two strings joined by a
  comma and a space; \<open>handleApiError\<close> throws an \<^verbatim>\<open>McpError\<close> with the code
  \<open>InvalidParams\<close>, built from the message
  \<^verbatim>\<open>inFakt API error (422): name is blank, tax_symbol invalid\<close> followed by a line
  \<^verbatim>\<open>Details: \<close> and the body as JSON; the \<^verbatim>\<open>message\<close> property of the thrown error is that
  text after \<^verbatim>\<open>MCP error -32602: \<close>.
\<close>

theorem handleApiError_422_errors:
  "extractErrorMessage
     \<lparr>ax_message = m,
      ax_response = Some (422, JObj [(''errors'', JArr [JStr ''name is blank'',
                                                        JStr ''tax_symbol invalid''])])\<rparr> =
     ''name is blank, tax_symbol invalid'' \<and>
   handleApiError (AxiosError
     \<lparr>ax_message = m,
      ax_response = Some (422, JObj [(''errors'', JArr [JStr ''name is blank'',
                                                        JStr ''tax_symbol invalid''])])\<rparr>) =
     McpError InvalidParams
       (''inFakt API error (422): '' @ ''name is blank, tax_symbol invalid'' @ [CHR 0x0A] @
        ''Details: {'' @ [CHR 0x22] @ ''errors'' @ [CHR 0x22] @ '':['' @
        [CHR 0x22] @ ''name is blank'' @ [CHR 0x22] @ '','' @
        [CHR 0x22] @ ''tax_symbol invalid'' @ [CHR 0x22] @ '']}'') \<and>
   error_message (handleApiError (AxiosError
     \<lparr>ax_message = m,
      ax_response = Some (422, JObj [(''errors'', JArr [JStr ''name is blank'',
                                                        JStr ''tax_symbol invalid''])])\<rparr>)) =
     ''MCP error -32602: inFakt API error (422): '' @ ''name is blank, tax_symbol invalid'' @
     [CHR 0x0A] @
     ''Details: {'' @ [CHR 0x22] @ ''errors'' @ [CHR 0x22] @ '':['' @
     [CHR 0x22] @ ''name is blank'' @ [CHR 0x22] @ '','' @
     [CHR 0x22] @ ''tax_symbol invalid'' @ [CHR 0x22] @ '']}''"
proof -
  let ?body = "JObj [(''errors'', JArr [JStr ''name is blank'', JStr ''tax_symbol invalid''])]"
  let ?e = "\<lparr>ax_message = m, ax_response = Some (422, ?body)\<rparr>"
  have msg: "extractErrorMessage ?e = ''name is blank, tax_symbol invalid''"
    by (simp add: extractErrorMessage_def body_message_def get_member_def get_prop_def
        Array_join_two_strings)
  have js: "JSON_stringify ?body =
      Some (''{'' @ [CHR 0x22] @ ''errors'' @ [CHR 0x22] @ '':['' @
            [CHR 0x22] @ ''name is blank'' @ [CHR 0x22] @ '','' @
            [CHR 0x22] @ ''tax_symbol invalid'' @ [CHR 0x22] @ '']}'')"
    by (simp add: JSON_stringify_def json_wrap_def QuoteJSONString_def quote_char_def
        Let_def)
  have n: "nat_to_string 422 = ''422''"
    by (simp add: nat_to_string.simps digit_char_def)
  have h: "handleApiError (AxiosError ?e) =
      McpError InvalidParams
       (''inFakt API error (422): '' @ ''name is blank, tax_symbol invalid'' @ [CHR 0x0A] @
        ''Details: {'' @ [CHR 0x22] @ ''errors'' @ [CHR 0x22] @ '':['' @
        [CHR 0x22] @ ''name is blank'' @ [CHR 0x22] @ '','' @
        [CHR 0x22] @ ''tax_symbol invalid'' @ [CHR 0x22] @ '']}'')"
    unfolding handleApiError_def
    by (simp add: msg js n template_of_def Let_def del: extractErrorMessage_def)
  have c: "mcp_message InvalidParams t = ''MCP error -32602: '' @ t" for t
    by (simp add: mcp_message_def int_to_string_def nat_to_string.simps digit_char_def)
  show ?thesis
    unfolding h by (simp add: msg c)
qed

theorem handleApiError_422_errors_witness:
  "extractErrorMessage
     \<lparr>ax_message = ''Request failed with status code 422'',
      ax_response = Some (422, JObj [(''errors'', JArr [JStr ''name is blank'',
                                                        JStr ''tax_symbol invalid''])])\<rparr> =
     ''name is blank, tax_symbol invalid'' \<and>
   handleApiError (AxiosError
     \<lparr>ax_message = ''Request failed with status code 422'',
      ax_response = Some (422, JObj [(''errors'', JArr [JStr ''name is blank'',
                                                        JStr ''tax_symbol invalid''])])\<rparr>) =
     McpError InvalidParams
       (''inFakt API error (422): '' @ ''name is blank, tax_symbol invalid'' @ [CHR 0x0A] @
        ''Details: {'' @ [CHR 0x22] @ ''errors'' @ [CHR 0x22] @ '':['' @
        [CHR 0x22] @ ''name is blank'' @ [CHR 0x22] @ '','' @
        [CHR 0x22] @ ''tax_symbol invalid'' @ [CHR 0x22] @ '']}'') \<and>
   error_message (handleApiError (AxiosError
     \<lparr>ax_message = ''Request failed with status code 422'',
      ax_response = Some (422, JObj [(''errors'', JArr [JStr ''name is blank'',
                                                        JStr ''tax_symbol invalid''])])\<rparr>)) =
     ''MCP error -32602: inFakt API error (422): '' @ ''name is blank, tax_symbol invalid'' @
     [CHR 0x0A] @
     ''Details: {'' @ [CHR 0x22] @ ''errors'' @ [CHR 0x22] @ '':['' @
     [CHR 0x22] @ ''name is blank'' @ [CHR 0x22] @ '','' @
     [CHR 0x22] @ ''tax_symbol invalid'' @ [CHR 0x22] @ '']}''"
  using handleApiError_422_errors [of "''Request failed with status code 422''"] .

theorem handleApiError_422_errors_counterexample:
  "error_message (handleApiError (AxiosError
     \<lparr>ax_message = ''Request failed with status code 422'',
      ax_response = Some (422, JObj [(''errors'', JArr [JStr ''name is blank'',
                                                        JStr ''tax_symbol invalid''])])\<rparr>)) \<noteq>
     ''name is blank, tax_symbol invalid'' \<and>
   handleApiError (AxiosError
     \<lparr>ax_message = ''Request failed with status code 422'',
      ax_response = Some (422, JObj [(''errors'', JArr [JStr ''name is blank'',
                                                        JStr ''tax_symbol invalid''])])\<rparr>) \<noteq>
     McpError InvalidParams ''name is blank, tax_symbol invalid''"
proof -
  let ?body = "JObj [(''errors'', JArr [JStr ''name is blank'', JStr ''tax_symbol invalid''])]"
  let ?e = "\<lparr>ax_message = ''Request failed with status code 422'',
             ax_response = Some (422, ?body)\<rparr>"
  have msg: "extractErrorMessage ?e = ''name is blank, tax_symbol invalid''"
    by (simp add: extractErrorMessage_def body_message_def get_member_def get_prop_def
        Array_join_two_strings)
  have n: "nat_to_string 422 = ''422''"
    by (simp add: nat_to_string.simps digit_char_def)
  have h: "\<exists>rest. handleApiError (AxiosError ?e) =
      McpError InvalidParams (''inFakt API error (422): '' @ rest)"
    unfolding handleApiError_def
    by (simp add: msg n Let_def)
  then obtain rest where r: "handleApiError (AxiosError ?e) =
      McpError InvalidParams (''inFakt API error (422): '' @ rest)" by blast
  have c: "mcp_message InvalidParams t = ''MCP error -32602: '' @ t" for t
    by (simp add: mcp_message_def int_to_string_def nat_to_string.simps digit_char_def)
  show ?thesis
    unfolding r by (simp add: c)
qed

subsection \<open>What a handler returns\<close>

lemma handleApiError_McpError:
  "instanceof_McpError (handleApiError e)"
  by (cases e) (simp_all add: handleApiError_def Let_def)

lemma handleApiError_idem:
  "handleApiError (handleApiError e) = handleApiError e"
  using handleApiError_McpError [of e] by (simp add: handleApiError_def [of "handleApiError e"])

lemma call_result:
  assumes "respond_with (ApiClient_request client req0) f = (r, reqs)"
  shows "(reqs = [] \<and> (\<exists>e. r = Inl e)) \<or>
     (\<exists>req. reqs = [req] \<and>
        r = (case respond client req of
               Inl err \<Rightarrow> Inl (handleApiError err)
             | Inr d \<Rightarrow> Inr (f d)))"
  using assms
  by (auto simp: respond_with_def ApiClient_request_def split: sum.splits)

lemma checked_call_result:
  assumes "validated c (respond_with (ApiClient_request client req0) f) = (r, reqs)"
  shows "(reqs = [] \<and> (\<exists>e. r = Inl e)) \<or>
     (\<exists>req. reqs = [req] \<and>
        r = (case respond client req of
               Inl err \<Rightarrow> Inl (handleApiError err)
             | Inr d \<Rightarrow> Inr (f d)))"
proof (cases c)
  case (Inl e)
  with assms show ?thesis by (auto simp: validated_def)
next
  case (Inr u)
  with assms have "respond_with (ApiClient_request client req0) f = (r, reqs)"
    by (simp add: validated_def)
  then show ?thesis by (rule call_result)
qed

lemma checked_binary_call_result:
  assumes "validated c (respond_with (ApiClient_getBinary client url config) f) = (r, reqs)"
  shows "(reqs = [] \<and> (\<exists>e. r = Inl e)) \<or>
     (\<exists>req. reqs = [req] \<and>
        r = (case respond_binary client req of
               Inl err \<Rightarrow> Inl (handleApiError err)
             | Inr d \<Rightarrow> Inr (f d)))"
proof (cases c)
  case (Inl e)
  with assms show ?thesis by (auto simp: validated_def)
next
  case (Inr u)
  with assms have "respond_with (ApiClient_getBinary client url config) f = (r, reqs)"
    by (simp add: validated_def)
  then show ?thesis
    by (auto simp: respond_with_def ApiClient_getBinary_def Let_def split: sum.splits)
qed

lemma accepted_call:
  assumes "c = Inr ()"
  shows "validated c (respond_with (ApiClient_request client req) f) =
     (case respond client req of
        Inl err \<Rightarrow> (Inl (handleApiError err), [req])
      | Inr d \<Rightarrow> (Inr (f d), [req]))"
  using assms
  by (simp add: validated_def respond_with_def ApiClient_request_def split: sum.splits)

lemma unchecked_call:
  "respond_with (ApiClient_request client req) f =
     (case respond client req of
        Inl err \<Rightarrow> (Inl (handleApiError err), [req])
      | Inr d \<Rightarrow> (Inr (f d), [req]))"
  by (simp add: respond_with_def ApiClient_request_def split: sum.splits)

lemma accepted_binary_call:
  assumes "c = Inr ()"
  shows "\<exists>req. validated c (respond_with (ApiClient_getBinary client url config) f) =
     (case respond_binary client req of
        Inl err \<Rightarrow> (Inl (handleApiError err), [req])
      | Inr d \<Rightarrow> (Inr (f d), [req]))"
  using assms
  by (intro exI [where x = "\<lparr>req_method = GET, req_url = url, req_data = JUndefined,
                             req_config = with_responseType config\<rparr>"])
    (simp add: validated_def respond_with_def ApiClient_getBinary_def Let_def
      split: sum.splits)

text \<open>A registered tool under \<open>handleToolCall\<close>, from the result of its handler.\<close>

lemma registered_tool_result:
  assumes "map_of TOOL_HANDLERS name = Some handler"
    and "handleToolCall apiClient name args = (r, reqs)"
    and "\<And>r0. handler apiClient args = (r0, reqs) \<Longrightarrow>
       (reqs = [] \<and> (\<exists>e. r0 = Inl e)) \<or>
       (\<exists>req. reqs = [req] \<and>
          r0 = (case answer req of
                 Inl err \<Rightarrow> Inl (handleApiError err)
               | Inr d \<Rightarrow> Inr (f d)))"
  shows "(reqs = [] \<and> (\<exists>e. r = Inl e)) \<or>
     (\<exists>req. reqs = [req] \<and>
        r = (case answer req of
               Inl err \<Rightarrow> Inl (handleApiError err)
             | Inr d \<Rightarrow> Inr (Response (f d))))"
proof -
  obtain r0 reqs0 where h: "handler apiClient args = (r0, reqs0)"
    by (cases "handler apiClient args")
  from assms(1,2) h have reqs0: "reqs0 = reqs"
    and r: "r = (case r0 of Inl error \<Rightarrow> Inl (handleApiError error)
                  | Inr response \<Rightarrow> Inr (Response response))"
    by (auto simp: handleToolCall_def split: sum.splits)
  from assms(3) [OF h [unfolded reqs0]] show ?thesis
  proof
    assume "reqs = [] \<and> (\<exists>e. r0 = Inl e)"
    with r show ?thesis by auto
  next
    assume "\<exists>req. reqs = [req] \<and>
          r0 = (case answer req of
                 Inl err \<Rightarrow> Inl (handleApiError err)
               | Inr d \<Rightarrow> Inr (f d))"
    then obtain req where q: "reqs = [req]"
      and r0: "r0 = (case answer req of
                 Inl err \<Rightarrow> Inl (handleApiError err)
               | Inr d \<Rightarrow> Inr (f d))"
      by blast
    have "r = (case answer req of
               Inl err \<Rightarrow> Inl (handleApiError err)
             | Inr d \<Rightarrow> Inr (Response (f d)))"
      unfolding r r0 by (simp add: handleApiError_idem split: sum.splits)
    with q show ?thesis by blast
  qed
qed

lemma handler_infakt_create_invoice:
  "map_of TOOL_HANDLERS ''infakt_create_invoice'' = Some createInvoice"
  by (simp add: TOOL_HANDLERS_def)

lemma handler_infakt_check_invoice_status:
  "map_of TOOL_HANDLERS ''infakt_check_invoice_status'' = Some checkInvoiceStatus"
  by (simp add: TOOL_HANDLERS_def)

lemma handler_infakt_list_invoices:
  "map_of TOOL_HANDLERS ''infakt_list_invoices'' = Some listInvoices"
  by (simp add: TOOL_HANDLERS_def)

lemma handler_infakt_get_invoice:
  "map_of TOOL_HANDLERS ''infakt_get_invoice'' = Some getInvoice"
  by (simp add: TOOL_HANDLERS_def)

lemma handler_infakt_update_invoice:
  "map_of TOOL_HANDLERS ''infakt_update_invoice'' = Some updateInvoice"
  by (simp add: TOOL_HANDLERS_def)

lemma handler_infakt_delete_invoice:
  "map_of TOOL_HANDLERS ''infakt_delete_invoice'' = Some deleteInvoice"
  by (simp add: TOOL_HANDLERS_def)

lemma handler_infakt_download_invoice_pdf:
  "map_of TOOL_HANDLERS ''infakt_download_invoice_pdf'' = Some downloadInvoicePdf"
  by (simp add: TOOL_HANDLERS_def)

lemma handler_infakt_send_invoice_email:
  "map_of TOOL_HANDLERS ''infakt_send_invoice_email'' = Some sendInvoiceEmail"
  by (simp add: TOOL_HANDLERS_def)

lemma handler_infakt_mark_invoice_paid:
  "map_of TOOL_HANDLERS ''infakt_mark_invoice_paid'' = Some markInvoicePaid"
  by (simp add: TOOL_HANDLERS_def)

lemma handler_infakt_list_clients:
  "map_of TOOL_HANDLERS ''infakt_list_clients'' = Some listClients"
  by (simp add: TOOL_HANDLERS_def)

lemma handler_infakt_get_client:
  "map_of TOOL_HANDLERS ''infakt_get_client'' = Some getClient"
  by (simp add: TOOL_HANDLERS_def)

lemma handler_infakt_create_client:
  "map_of TOOL_HANDLERS ''infakt_create_client'' = Some createClient"
  by (simp add: TOOL_HANDLERS_def)

lemma handler_infakt_update_client:
  "map_of TOOL_HANDLERS ''infakt_update_client'' = Some updateClient"
  by (simp add: TOOL_HANDLERS_def)

lemma handler_infakt_delete_client:
  "map_of TOOL_HANDLERS ''infakt_delete_client'' = Some deleteClient"
  by (simp add: TOOL_HANDLERS_def)

lemma handler_infakt_list_products:
  "map_of TOOL_HANDLERS ''infakt_list_products'' = Some listProducts"
  by (simp add: TOOL_HANDLERS_def)

lemma handler_infakt_get_product:
  "map_of TOOL_HANDLERS ''infakt_get_product'' = Some getProduct"
  by (simp add: TOOL_HANDLERS_def)

lemma handler_infakt_create_product:
  "map_of TOOL_HANDLERS ''infakt_create_product'' = Some createProduct"
  by (simp add: TOOL_HANDLERS_def)

lemma handler_infakt_update_product:
  "map_of TOOL_HANDLERS ''infakt_update_product'' = Some updateProduct"
  by (simp add: TOOL_HANDLERS_def)

lemma handler_infakt_delete_product:
  "map_of TOOL_HANDLERS ''infakt_delete_product'' = Some deleteProduct"
  by (simp add: TOOL_HANDLERS_def)

lemma handler_infakt_get_vat_rates:
  "map_of TOOL_HANDLERS ''infakt_get_vat_rates'' = Some getVatRates"
  by (simp add: TOOL_HANDLERS_def)

lemma handler_infakt_get_bank_accounts:
  "map_of TOOL_HANDLERS ''infakt_get_bank_accounts'' = Some getBankAccounts"
  by (simp add: TOOL_HANDLERS_def)

lemma handler_infakt_get_account_info:
  "map_of TOOL_HANDLERS ''infakt_get_account_info'' = Some getAccountInfo"
  by (simp add: TOOL_HANDLERS_def)

lemma handler_infakt_list_costs:
  "map_of TOOL_HANDLERS ''infakt_list_costs'' = Some listCosts"
  by (simp add: TOOL_HANDLERS_def)

lemma handler_infakt_get_cost:
  "map_of TOOL_HANDLERS ''infakt_get_cost'' = Some getCost"
  by (simp add: TOOL_HANDLERS_def)

lemma createInvoice_result:
  assumes "createInvoice apiClient params = (r, reqs)"
  shows "(reqs = [] \<and> (\<exists>e. r = Inl e)) \<or>
     (\<exists>req. reqs = [req] \<and>
        r = (case respond apiClient req of
               Inl err \<Rightarrow> Inl (handleApiError err)
             | Inr d \<Rightarrow> Inr (createJsonResponse_invoice d)))"
  using assms unfolding createInvoice_def Let_def ApiClient_post_def
  by (rule checked_call_result)

lemma createInvoice_accepted:
  assumes "checks
          [ reads params ''client_company_name'',
            validateRequiredString (get_member params ''client_company_name'')
              ''client_company_name'',
            validateRequiredString (get_member params ''payment_method'') ''payment_method'',
            validateEnum (get_member params ''payment_method'') ''payment_method'' PAYMENT_METHODS,
            only_if (\<not> truthy (get_member params ''services''))
              (Inl (Error ''services is required'')),
            validateArray (get_member params ''services'') ''services''
              (Some validateInvoiceService),
            only_if (get_member params ''status'' \<noteq> JUndefined)
              (validateEnum (get_member params ''status'') ''status'' INVOICE_STATUSES),
            only_if (get_member params ''status'' = JStr ''paid'')
              (checks
                 [ only_if (\<not> truthy (get_member params ''paid_date''))
                     (Inl (Error (''paid_date is required when status is '' @
                                  [CHR 0x27] @ ''paid'' @ [CHR 0x27]))),
                   validateDateString (get_member params ''paid_date'') ''paid_date'' ]),
            only_if (get_member params ''invoice_date'' \<noteq> JUndefined)
              (validateDateString (get_member params ''invoice_date'') ''invoice_date''),
            only_if (get_member params ''sale_date'' \<noteq> JUndefined)
              (validateDateString (get_member params ''sale_date'') ''sale_date''),
            only_if (get_member params ''payment_date'' \<noteq> JUndefined)
              (validateDateString (get_member params ''payment_date'') ''payment_date'') ] = Inr ()"
  shows "\<exists>req. createInvoice apiClient params =
     (case respond apiClient req of
        Inl err \<Rightarrow> (Inl (handleApiError err), [req])
      | Inr d \<Rightarrow> (Inr (createJsonResponse_invoice d), [req]))"
  unfolding createInvoice_def Let_def ApiClient_post_def
  using assms by (intro exI, rule accepted_call)

lemma checkInvoiceStatus_result:
  assumes "checkInvoiceStatus apiClient params = (r, reqs)"
  shows "(reqs = [] \<and> (\<exists>e. r = Inl e)) \<or>
     (\<exists>req. reqs = [req] \<and>
        r = (case respond apiClient req of
               Inl err \<Rightarrow> Inl (handleApiError err)
             | Inr d \<Rightarrow> Inr (createJsonResponse_invoice d)))"
  using assms unfolding checkInvoiceStatus_def Let_def ApiClient_get_def
  by (rule checked_call_result)

lemma checkInvoiceStatus_accepted:
  assumes "checks
          [ reads params ''task_reference_number'',
            validateRequiredString (get_member params ''task_reference_number'')
              ''task_reference_number'' ] = Inr ()"
  shows "\<exists>req. checkInvoiceStatus apiClient params =
     (case respond apiClient req of
        Inl err \<Rightarrow> (Inl (handleApiError err), [req])
      | Inr d \<Rightarrow> (Inr (createJsonResponse_invoice d), [req]))"
  unfolding checkInvoiceStatus_def Let_def ApiClient_get_def
  using assms by (intro exI, rule accepted_call)

lemma listInvoices_result:
  assumes "listInvoices apiClient params = (r, reqs)"
  shows "(reqs = [] \<and> (\<exists>e. r = Inl e)) \<or>
     (\<exists>req. reqs = [req] \<and>
        r = (case respond apiClient req of
               Inl err \<Rightarrow> Inl (handleApiError err)
             | Inr d \<Rightarrow> Inr (createJsonResponse_invoice d)))"
  using assms unfolding listInvoices_def Let_def ApiClient_get_def
  by (rule checked_call_result)

lemma listInvoices_accepted:
  assumes "checks
          [ reads params ''offset'',
            validatePaginationParams (own_props params),
            only_if (truthy (get_member params ''number''))
              (validateRequiredString (get_member params ''number'') ''number''),
            only_if (truthy (get_member params ''client_company_name''))
              (validateRequiredString (get_member params ''client_company_name'')
                 ''client_company_name''),
            only_if (truthy (get_member params ''status''))
              (validateEnum (get_member params ''status'') ''status'' INVOICE_STATUSES),
            only_if (truthy (get_member params ''invoice_date_from''))
              (validateDateString (get_member params ''invoice_date_from'') ''invoice_date_from''),
            only_if (truthy (get_member params ''invoice_date_to''))
              (validateDateString (get_member params ''invoice_date_to'') ''invoice_date_to'') ] = Inr ()"
  shows "\<exists>req. listInvoices apiClient params =
     (case respond apiClient req of
        Inl err \<Rightarrow> (Inl (handleApiError err), [req])
      | Inr d \<Rightarrow> (Inr (createJsonResponse_invoice d), [req]))"
  unfolding listInvoices_def Let_def ApiClient_get_def
  using assms by (intro exI, rule accepted_call)

lemma getInvoice_result:
  assumes "getInvoice apiClient params = (r, reqs)"
  shows "(reqs = [] \<and> (\<exists>e. r = Inl e)) \<or>
     (\<exists>req. reqs = [req] \<and>
        r = (case respond apiClient req of
               Inl err \<Rightarrow> Inl (handleApiError err)
             | Inr d \<Rightarrow> Inr (createJsonResponse_invoice d)))"
  using assms unfolding getInvoice_def Let_def ApiClient_get_def
  by (rule checked_call_result)

lemma getInvoice_accepted:
  assumes "checks
          [ reads params ''invoice_uuid'',
            validateUUID (get_member params ''invoice_uuid'') ''invoice_uuid'' ] = Inr ()"
  shows "\<exists>req. getInvoice apiClient params =
     (case respond apiClient req of
        Inl err \<Rightarrow> (Inl (handleApiError err), [req])
      | Inr d \<Rightarrow> (Inr (createJsonResponse_invoice d), [req]))"
  unfolding getInvoice_def Let_def ApiClient_get_def
  using assms by (intro exI, rule accepted_call)

lemma updateInvoice_result:
  assumes "updateInvoice apiClient params = (r, reqs)"
  shows "(reqs = [] \<and> (\<exists>e. r = Inl e)) \<or>
     (\<exists>req. reqs = [req] \<and>
        r = (case respond apiClient req of
               Inl err \<Rightarrow> Inl (handleApiError err)
             | Inr d \<Rightarrow> Inr (createJsonResponse_invoice d)))"
  using assms unfolding updateInvoice_def Let_def ApiClient_put_def
  by (rule checked_call_result)

lemma updateInvoice_accepted:
  assumes "checks
          [ reads params ''invoice_uuid'',
            validateUUID (get_member params ''invoice_uuid'') ''invoice_uuid'',
            only_if (get_member params ''payment_method'' \<noteq> JUndefined)
              (validateEnum (get_member params ''payment_method'') ''payment_method''
                 PAYMENT_METHODS),
            only_if (get_member params ''invoice_date'' \<noteq> JUndefined)
              (validateDateString (get_member params ''invoice_date'') ''invoice_date''),
            only_if (get_member params ''sale_date'' \<noteq> JUndefined)
              (validateDateString (get_member params ''sale_date'') ''sale_date''),
            only_if (get_member params ''payment_date'' \<noteq> JUndefined)
              (validateDateString (get_member params ''payment_date'') ''payment_date''),
            only_if (get_member params ''services'' \<noteq> JUndefined)
              (validateArray (get_member params ''services'') ''services''
                 (Some validateInvoiceService)) ] = Inr ()"
  shows "\<exists>req. updateInvoice apiClient params =
     (case respond apiClient req of
        Inl err \<Rightarrow> (Inl (handleApiError err), [req])
      | Inr d \<Rightarrow> (Inr (createJsonResponse_invoice d), [req]))"
  unfolding updateInvoice_def Let_def ApiClient_put_def
  using assms by (intro exI, rule accepted_call)

lemma sendInvoiceEmail_result:
  assumes "sendInvoiceEmail apiClient params = (r, reqs)"
  shows "(reqs = [] \<and> (\<exists>e. r = Inl e)) \<or>
     (\<exists>req. reqs = [req] \<and>
        r = (case respond apiClient req of
               Inl err \<Rightarrow> Inl (handleApiError err)
             | Inr d \<Rightarrow> Inr (createJsonResponse_invoice d)))"
  using assms unfolding sendInvoiceEmail_def Let_def ApiClient_post_def
  by (rule checked_call_result)

lemma sendInvoiceEmail_accepted:
  assumes "checks
          [ reads params ''invoice_uuid'',
            validateUUID (get_member params ''invoice_uuid'') ''invoice_uuid'' ] = Inr ()"
  shows "\<exists>req. sendInvoiceEmail apiClient params =
     (case respond apiClient req of
        Inl err \<Rightarrow> (Inl (handleApiError err), [req])
      | Inr d \<Rightarrow> (Inr (createJsonResponse_invoice d), [req]))"
  unfolding sendInvoiceEmail_def Let_def ApiClient_post_def
  using assms by (intro exI, rule accepted_call)

lemma markInvoicePaid_result:
  assumes "markInvoicePaid apiClient params = (r, reqs)"
  shows "(reqs = [] \<and> (\<exists>e. r = Inl e)) \<or>
     (\<exists>req. reqs = [req] \<and>
        r = (case respond apiClient req of
               Inl err \<Rightarrow> Inl (handleApiError err)
             | Inr d \<Rightarrow> Inr (createJsonResponse_invoice d)))"
  using assms unfolding markInvoicePaid_def Let_def ApiClient_post_def
  by (rule checked_call_result)

lemma markInvoicePaid_accepted:
  assumes "checks
          [ reads params ''invoice_uuid'',
            validateUUID (get_member params ''invoice_uuid'') ''invoice_uuid'',
            validateDateString (get_member params ''paid_date'') ''paid_date'' ] = Inr ()"
  shows "\<exists>req. markInvoicePaid apiClient params =
     (case respond apiClient req of
        Inl err \<Rightarrow> (Inl (handleApiError err), [req])
      | Inr d \<Rightarrow> (Inr (createJsonResponse_invoice d), [req]))"
  unfolding markInvoicePaid_def Let_def ApiClient_post_def
  using assms by (intro exI, rule accepted_call)

lemma listClients_result:
  assumes "listClients apiClient params = (r, reqs)"
  shows "(reqs = [] \<and> (\<exists>e. r = Inl e)) \<or>
     (\<exists>req. reqs = [req] \<and>
        r = (case respond apiClient req of
               Inl err \<Rightarrow> Inl (handleApiError err)
             | Inr d \<Rightarrow> Inr (createJsonResponse_client d)))"
  using assms unfolding listClients_def Let_def ApiClient_get_def
  by (rule checked_call_result)

lemma listClients_accepted:
  assumes "checks
          [ reads params ''offset'',
            validatePaginationParams (own_props params),
            only_if (truthy (get_member params ''company_name''))
              (validateRequiredString (get_member params ''company_name'') ''company_name''),
            only_if (truthy (get_member params ''nip''))
              (validateRequiredString (get_member params ''nip'') ''nip''),
            only_if (truthy (get_member params ''email''))
              (validateRequiredString (get_member params ''email'') ''email'') ] = Inr ()"
  shows "\<exists>req. listClients apiClient params =
     (case respond apiClient req of
        Inl err \<Rightarrow> (Inl (handleApiError err), [req])
      | Inr d \<Rightarrow> (Inr (createJsonResponse_client d), [req]))"
  unfolding listClients_def Let_def ApiClient_get_def
  using assms by (intro exI, rule accepted_call)

lemma getClient_result:
  assumes "getClient apiClient params = (r, reqs)"
  shows "(reqs = [] \<and> (\<exists>e. r = Inl e)) \<or>
     (\<exists>req. reqs = [req] \<and>
        r = (case respond apiClient req of
               Inl err \<Rightarrow> Inl (handleApiError err)
             | Inr d \<Rightarrow> Inr (createJsonResponse_client d)))"
  using assms unfolding getClient_def Let_def ApiClient_get_def
  by (rule checked_call_result)

lemma getClient_accepted:
  assumes "checks
          [ reads params ''client_id'',
            validatePositiveNumber (get_member params ''client_id'') ''client_id'' ] = Inr ()"
  shows "\<exists>req. getClient apiClient params =
     (case respond apiClient req of
        Inl err \<Rightarrow> (Inl (handleApiError err), [req])
      | Inr d \<Rightarrow> (Inr (createJsonResponse_client d), [req]))"
  unfolding getClient_def Let_def ApiClient_get_def
  using assms by (intro exI, rule accepted_call)

lemma createClient_result:
  assumes "createClient apiClient params = (r, reqs)"
  shows "(reqs = [] \<and> (\<exists>e. r = Inl e)) \<or>
     (\<exists>req. reqs = [req] \<and>
        r = (case respond apiClient req of
               Inl err \<Rightarrow> Inl (handleApiError err)
             | Inr d \<Rightarrow> Inr (createJsonResponse_client d)))"
  using assms unfolding createClient_def Let_def ApiClient_post_def
  by (rule checked_call_result)

lemma createClient_accepted:
  assumes "checks
          [ reads params ''company_name'',
            validateRequiredString (get_member params ''company_name'') ''company_name'',
            only_if (get_member params ''business_activity_kind'' \<noteq> JUndefined)
              (validateEnum (get_member params ''business_activity_kind'')
                 ''business_activity_kind'' BUSINESS_ACTIVITY_KINDS) ] = Inr ()"
  shows "\<exists>req. createClient apiClient params =
     (case respond apiClient req of
        Inl err \<Rightarrow> (Inl (handleApiError err), [req])
      | Inr d \<Rightarrow> (Inr (createJsonResponse_client d), [req]))"
  unfolding createClient_def Let_def ApiClient_post_def
  using assms by (intro exI, rule accepted_call)

lemma updateClient_result:
  assumes "updateClient apiClient params = (r, reqs)"
  shows "(reqs = [] \<and> (\<exists>e. r = Inl e)) \<or>
     (\<exists>req. reqs = [req] \<and>
        r = (case respond apiClient req of
               Inl err \<Rightarrow> Inl (handleApiError err)
             | Inr d \<Rightarrow> Inr (createJsonResponse_client d)))"
  using assms unfolding updateClient_def Let_def ApiClient_put_def
  by (rule checked_call_result)

lemma updateClient_accepted:
  assumes "checks
          [ reads params ''client_id'',
            validatePositiveNumber (get_member params ''client_id'') ''client_id'' ] = Inr ()"
  shows "\<exists>req. updateClient apiClient params =
     (case respond apiClient req of
        Inl err \<Rightarrow> (Inl (handleApiError err), [req])
      | Inr d \<Rightarrow> (Inr (createJsonResponse_client d), [req]))"
  unfolding updateClient_def Let_def ApiClient_put_def
  using assms by (intro exI, rule accepted_call)

lemma getVatRates_result:
  assumes "getVatRates apiClient params = (r, reqs)"
  shows "(reqs = [] \<and> (\<exists>e. r = Inl e)) \<or>
     (\<exists>req. reqs = [req] \<and>
        r = (case respond apiClient req of
               Inl err \<Rightarrow> Inl (handleApiError err)
             | Inr d \<Rightarrow> Inr (createJsonResponse_reference d)))"
  using assms unfolding getVatRates_def Let_def ApiClient_get_def
  by (rule call_result)

lemma getVatRates_accepted:
  "\<exists>req. getVatRates apiClient params =
     (case respond apiClient req of
        Inl err \<Rightarrow> (Inl (handleApiError err), [req])
      | Inr d \<Rightarrow> (Inr (createJsonResponse_reference d), [req]))"
  unfolding getVatRates_def Let_def ApiClient_get_def
  by (rule exI, rule unchecked_call)

lemma getBankAccounts_result:
  assumes "getBankAccounts apiClient params = (r, reqs)"
  shows "(reqs = [] \<and> (\<exists>e. r = Inl e)) \<or>
     (\<exists>req. reqs = [req] \<and>
        r = (case respond apiClient req of
               Inl err \<Rightarrow> Inl (handleApiError err)
             | Inr d \<Rightarrow> Inr (createJsonResponse_reference d)))"
  using assms unfolding getBankAccounts_def Let_def ApiClient_get_def
  by (rule call_result)

lemma getBankAccounts_accepted:
  "\<exists>req. getBankAccounts apiClient params =
     (case respond apiClient req of
        Inl err \<Rightarrow> (Inl (handleApiError err), [req])
      | Inr d \<Rightarrow> (Inr (createJsonResponse_reference d), [req]))"
  unfolding getBankAccounts_def Let_def ApiClient_get_def
  by (rule exI, rule unchecked_call)

lemma getAccountInfo_result:
  assumes "getAccountInfo apiClient params = (r, reqs)"
  shows "(reqs = [] \<and> (\<exists>e. r = Inl e)) \<or>
     (\<exists>req. reqs = [req] \<and>
        r = (case respond apiClient req of
               Inl err \<Rightarrow> Inl (handleApiError err)
             | Inr d \<Rightarrow> Inr (createJsonResponse_reference d)))"
  using assms unfolding getAccountInfo_def Let_def ApiClient_get_def
  by (rule call_result)

lemma getAccountInfo_accepted:
  "\<exists>req. getAccountInfo apiClient params =
     (case respond apiClient req of
        Inl err \<Rightarrow> (Inl (handleApiError err), [req])
      | Inr d \<Rightarrow> (Inr (createJsonResponse_reference d), [req]))"
  unfolding getAccountInfo_def Let_def ApiClient_get_def
  by (rule exI, rule unchecked_call)

lemma listProducts_result:
  assumes "listProducts apiClient params = (r, reqs)"
  shows "(reqs = [] \<and> (\<exists>e. r = Inl e)) \<or>
     (\<exists>req. reqs = [req] \<and>
        r = (case respond apiClient req of
               Inl err \<Rightarrow> Inl (handleApiError err)
             | Inr d \<Rightarrow> Inr (createJsonResponse_product d)))"
  using assms unfolding listProducts_def Let_def ApiClient_get_def
  by (rule checked_call_result)

lemma listProducts_accepted:
  assumes "checks
          [ reads params ''offset'',
            validatePaginationParams (own_props params),
            only_if (truthy (get_member params ''name''))
              (validateRequiredString (get_member params ''name'') ''name'') ] = Inr ()"
  shows "\<exists>req. listProducts apiClient params =
     (case respond apiClient req of
        Inl err \<Rightarrow> (Inl (handleApiError err), [req])
      | Inr d \<Rightarrow> (Inr (createJsonResponse_product d), [req]))"
  unfolding listProducts_def Let_def ApiClient_get_def
  using assms by (intro exI, rule accepted_call)

lemma getProduct_result:
  assumes "getProduct apiClient params = (r, reqs)"
  shows "(reqs = [] \<and> (\<exists>e. r = Inl e)) \<or>
     (\<exists>req. reqs = [req] \<and>
        r = (case respond apiClient req of
               Inl err \<Rightarrow> Inl (handleApiError err)
             | Inr d \<Rightarrow> Inr (createJsonResponse_product d)))"
  using assms unfolding getProduct_def Let_def ApiClient_get_def
  by (rule checked_call_result)

lemma getProduct_accepted:
  assumes "checks
          [ reads params ''product_id'',
            validatePositiveNumber (get_member params ''product_id'') ''product_id'' ] = Inr ()"
  shows "\<exists>req. getProduct apiClient params =
     (case respond apiClient req of
        Inl err \<Rightarrow> (Inl (handleApiError err), [req])
      | Inr d \<Rightarrow> (Inr (createJsonResponse_product d), [req]))"
  unfolding getProduct_def Let_def ApiClient_get_def
  using assms by (intro exI, rule accepted_call)

lemma createProduct_result:
  assumes "createProduct apiClient params = (r, reqs)"
  shows "(reqs = [] \<and> (\<exists>e. r = Inl e)) \<or>
     (\<exists>req. reqs = [req] \<and>
        r = (case respond apiClient req of
               Inl err \<Rightarrow> Inl (handleApiError err)
             | Inr d \<Rightarrow> Inr (createJsonResponse_product d)))"
  using assms unfolding createProduct_def Let_def ApiClient_post_def
  by (rule checked_call_result)

lemma createProduct_accepted:
  assumes "checks
          [ reads params ''name'',
            validateRequiredString (get_member params ''name'') ''name'',
            validatePositiveNumber (get_member params ''unit_net_price'') ''unit_net_price'',
            only_if
              (get_member params ''tax_symbol'' = JUndefined \<or>
               (typeof (get_member params ''tax_symbol'') \<noteq> ''string'' \<and>
                typeof (get_member params ''tax_symbol'') \<noteq> ''number''))
              (Inl (Error ''tax_symbol is required and must be a string or number'')) ] = Inr ()"
  shows "\<exists>req. createProduct apiClient params =
     (case respond apiClient req of
        Inl err \<Rightarrow> (Inl (handleApiError err), [req])
      | Inr d \<Rightarrow> (Inr (createJsonResponse_product d), [req]))"
  unfolding createProduct_def Let_def ApiClient_post_def
  using assms by (intro exI, rule accepted_call)

lemma updateProduct_result:
  assumes "updateProduct apiClient params = (r, reqs)"
  shows "(reqs = [] \<and> (\<exists>e. r = Inl e)) \<or>
     (\<exists>req. reqs = [req] \<and>
        r = (case respond apiClient req of
               Inl err \<Rightarrow> Inl (handleApiError err)
             | Inr d \<Rightarrow> Inr (createJsonResponse_product d)))"
  using assms unfolding updateProduct_def Let_def ApiClient_put_def
  by (rule checked_call_result)

lemma updateProduct_accepted:
  assumes "checks
          [ reads params ''product_id'',
            validatePositiveNumber (get_member params ''product_id'') ''product_id'',
            only_if (get_member params ''unit_net_price'' \<noteq> JUndefined)
              (validatePositiveNumber (get_member params ''unit_net_price'') ''unit_net_price'') ] = Inr ()"
  shows "\<exists>req. updateProduct apiClient params =
     (case respond apiClient req of
        Inl err \<Rightarrow> (Inl (handleApiError err), [req])
      | Inr d \<Rightarrow> (Inr (createJsonResponse_product d), [req]))"
  unfolding updateProduct_def Let_def ApiClient_put_def
  using assms by (intro exI, rule accepted_call)

lemma listCosts_result:
  assumes "listCosts apiClient params = (r, reqs)"
  shows "(reqs = [] \<and> (\<exists>e. r = Inl e)) \<or>
     (\<exists>req. reqs = [req] \<and>
        r = (case respond apiClient req of
               Inl err \<Rightarrow> Inl (handleApiError err)
             | Inr d \<Rightarrow> Inr (createJsonResponse_cost d)))"
  using assms unfolding listCosts_def Let_def ApiClient_get_def
  by (rule checked_call_result)

lemma listCosts_accepted:
  assumes "checks
          [ reads params ''offset'',
            validatePaginationParams (own_props params) ] = Inr ()"
  shows "\<exists>req. listCosts apiClient params =
     (case respond apiClient req of
        Inl err \<Rightarrow> (Inl (handleApiError err), [req])
      | Inr d \<Rightarrow> (Inr (createJsonResponse_cost d), [req]))"
  unfolding listCosts_def Let_def ApiClient_get_def
  using assms by (intro exI, rule accepted_call)

lemma getCost_result:
  assumes "getCost apiClient params = (r, reqs)"
  shows "(reqs = [] \<and> (\<exists>e. r = Inl e)) \<or>
     (\<exists>req. reqs = [req] \<and>
        r = (case respond apiClient req of
               Inl err \<Rightarrow> Inl (handleApiError err)
             | Inr d \<Rightarrow> Inr (createJsonResponse_cost d)))"
  using assms unfolding getCost_def Let_def ApiClient_get_def
  by (rule checked_call_result)

lemma getCost_accepted:
  assumes "checks
          [ reads params ''cost_uuid'',
            validateUUID (get_member params ''cost_uuid'') ''cost_uuid'' ] = Inr ()"
  shows "\<exists>req. getCost apiClient params =
     (case respond apiClient req of
        Inl err \<Rightarrow> (Inl (handleApiError err), [req])
      | Inr d \<Rightarrow> (Inr (createJsonResponse_cost d), [req]))"
  unfolding getCost_def Let_def ApiClient_get_def
  using assms by (intro exI, rule accepted_call)

lemma deleteInvoice_result:
  assumes "deleteInvoice apiClient params = (r, reqs)"
  shows "(reqs = [] \<and> (\<exists>e. r = Inl e)) \<or>
     (\<exists>req. reqs = [req] \<and>
        r = (case respond apiClient req of
               Inl err \<Rightarrow> Inl (handleApiError err)
             | Inr d \<Rightarrow> Inr (createTextResponse
                (''Invoice '' @ String (get_member params ''invoice_uuid'') @ '' deleted successfully''))))"
  using assms unfolding deleteInvoice_def Let_def ApiClient_delete_def
  by (rule checked_call_result)

lemma deleteInvoice_accepted:
  assumes "checks
          [ reads params ''invoice_uuid'',
            validateUUID (get_member params ''invoice_uuid'') ''invoice_uuid'' ] = Inr ()"
  shows "\<exists>req. deleteInvoice apiClient params =
     (case respond apiClient req of
        Inl err \<Rightarrow> (Inl (handleApiError err), [req])
      | Inr d \<Rightarrow> (Inr (createTextResponse
                (''Invoice '' @ String (get_member params ''invoice_uuid'') @ '' deleted successfully'')), [req]))"
  unfolding deleteInvoice_def Let_def ApiClient_delete_def
  using assms by (intro exI, rule accepted_call)

lemma deleteClient_result:
  assumes "deleteClient apiClient params = (r, reqs)"
  shows "(reqs = [] \<and> (\<exists>e. r = Inl e)) \<or>
     (\<exists>req. reqs = [req] \<and>
        r = (case respond apiClient req of
               Inl err \<Rightarrow> Inl (handleApiError err)
             | Inr d \<Rightarrow> Inr (createTextResponse
                (''Client '' @ String (get_member params ''client_id'') @ '' deleted successfully''))))"
  using assms unfolding deleteClient_def Let_def ApiClient_delete_def
  by (rule checked_call_result)

lemma deleteClient_accepted:
  assumes "checks
          [ reads params ''client_id'',
            validatePositiveNumber (get_member params ''client_id'') ''client_id'' ] = Inr ()"
  shows "\<exists>req. deleteClient apiClient params =
     (case respond apiClient req of
        Inl err \<Rightarrow> (Inl (handleApiError err), [req])
      | Inr d \<Rightarrow> (Inr (createTextResponse
                (''Client '' @ String (get_member params ''client_id'') @ '' deleted successfully'')), [req]))"
  unfolding deleteClient_def Let_def ApiClient_delete_def
  using assms by (intro exI, rule accepted_call)

lemma deleteProduct_result:
  assumes "deleteProduct apiClient params = (r, reqs)"
  shows "(reqs = [] \<and> (\<exists>e. r = Inl e)) \<or>
     (\<exists>req. reqs = [req] \<and>
        r = (case respond apiClient req of
               Inl err \<Rightarrow> Inl (handleApiError err)
             | Inr d \<Rightarrow> Inr (createTextResponse
                (''Product '' @ String (get_member params ''product_id'') @ '' deleted successfully''))))"
  using assms unfolding deleteProduct_def Let_def ApiClient_delete_def
  by (rule checked_call_result)

lemma deleteProduct_accepted:
  assumes "checks
          [ reads params ''product_id'',
            validatePositiveNumber (get_member params ''product_id'') ''product_id'' ] = Inr ()"
  shows "\<exists>req. deleteProduct apiClient params =
     (case respond apiClient req of
        Inl err \<Rightarrow> (Inl (handleApiError err), [req])
      | Inr d \<Rightarrow> (Inr (createTextResponse
                (''Product '' @ String (get_member params ''product_id'') @ '' deleted successfully'')), [req]))"
  unfolding deleteProduct_def Let_def ApiClient_delete_def
  using assms by (intro exI, rule accepted_call)

lemma downloadInvoicePdf_result:
  assumes "downloadInvoicePdf apiClient params = (r, reqs)"
  shows "(reqs = [] \<and> (\<exists>e. r = Inl e)) \<or>
     (\<exists>req. reqs = [req] \<and>
        r = (case respond_binary apiClient req of
               Inl err \<Rightarrow> Inl (handleApiError err)
             | Inr bytes \<Rightarrow> Inr (\<lparr>content =
                [ \<lparr>content_type = ''text'',
                   content_text =
                     Some (''PDF downloaded successfully. Base64 encoded ('' @
                           nat_to_string (length (base64 bytes)) @
                           '' characters). Use base64 decode to save the file.'')\<rparr>,
                  \<lparr>content_type = ''text'', content_text = Some (base64 bytes)\<rparr> ]\<rparr>)))"
  using assms unfolding downloadInvoicePdf_def Let_def
  by (rule checked_binary_call_result)

lemma downloadInvoicePdf_accepted:
  assumes "checks
          [ reads params ''invoice_uuid'',
            validateUUID (get_member params ''invoice_uuid'') ''invoice_uuid'',
            only_if (get_member params ''document_type'' \<noteq> JUndefined)
              (validateEnum (get_member params ''document_type'') ''document_type''
                 DOCUMENT_TYPES),
            only_if (get_member params ''locale'' \<noteq> JUndefined)
              (validateEnum (get_member params ''locale'') ''locale'' LOCALES) ] = Inr ()"
  shows "\<exists>req. downloadInvoicePdf apiClient params =
     (case respond_binary apiClient req of
        Inl err \<Rightarrow> (Inl (handleApiError err), [req])
      | Inr bytes \<Rightarrow> (Inr (\<lparr>content =
                [ \<lparr>content_type = ''text'',
                   content_text =
                     Some (''PDF downloaded successfully. Base64 encoded ('' @
                           nat_to_string (length (base64 bytes)) @
                           '' characters). Use base64 decode to save the file.'')\<rparr>,
                  \<lparr>content_type = ''text'', content_text = Some (base64 bytes)\<rparr> ]\<rparr>), [req]))"
  unfolding downloadInvoicePdf_def Let_def
  using assms by (rule accepted_binary_call)

lemma infakt_create_invoice_result:
  assumes "handleToolCall apiClient ''infakt_create_invoice'' args = (r, reqs)"
  shows "(reqs = [] \<and> (\<exists>e. r = Inl e)) \<or>
     (\<exists>req. reqs = [req] \<and>
        r = (case respond apiClient req of
               Inl err \<Rightarrow> Inl (handleApiError err)
             | Inr d \<Rightarrow> Inr (Response (\<lparr>content =
                [\<lparr>content_type = ''text'',
                  content_text = JSON_stringify_2 (convertAllMonetaryFields d)\<rparr>]\<rparr>))))"
  using registered_tool_result [OF handler_infakt_create_invoice assms,
      where answer = "respond apiClient" and f = "\<lambda>d. createJsonResponse_invoice d", OF createInvoice_result]
  unfolding createJsonResponse_invoice_def Let_def .

lemma infakt_check_invoice_status_result:
  assumes "handleToolCall apiClient ''infakt_check_invoice_status'' args = (r, reqs)"
  shows "(reqs = [] \<and> (\<exists>e. r = Inl e)) \<or>
     (\<exists>req. reqs = [req] \<and>
        r = (case respond apiClient req of
               Inl err \<Rightarrow> Inl (handleApiError err)
             | Inr d \<Rightarrow> Inr (Response (\<lparr>content =
                [\<lparr>content_type = ''text'',
                  content_text = JSON_stringify_2 (convertAllMonetaryFields d)\<rparr>]\<rparr>))))"
  using registered_tool_result [OF handler_infakt_check_invoice_status assms,
      where answer = "respond apiClient" and f = "\<lambda>d. createJsonResponse_invoice d", OF checkInvoiceStatus_result]
  unfolding createJsonResponse_invoice_def Let_def .

lemma infakt_list_invoices_result:
  assumes "handleToolCall apiClient ''infakt_list_invoices'' args = (r, reqs)"
  shows "(reqs = [] \<and> (\<exists>e. r = Inl e)) \<or>
     (\<exists>req. reqs = [req] \<and>
        r = (case respond apiClient req of
               Inl err \<Rightarrow> Inl (handleApiError err)
             | Inr d \<Rightarrow> Inr (Response (\<lparr>content =
                [\<lparr>content_type = ''text'',
                  content_text = JSON_stringify_2 (convertAllMonetaryFields d)\<rparr>]\<rparr>))))"
  using registered_tool_result [OF handler_infakt_list_invoices assms,
      where answer = "respond apiClient" and f = "\<lambda>d. createJsonResponse_invoice d", OF listInvoices_result]
  unfolding createJsonResponse_invoice_def Let_def .

lemma infakt_get_invoice_result:
  assumes "handleToolCall apiClient ''infakt_get_invoice'' args = (r, reqs)"
  shows "(reqs = [] \<and> (\<exists>e. r = Inl e)) \<or>
     (\<exists>req. reqs = [req] \<and>
        r = (case respond apiClient req of
               Inl err \<Rightarrow> Inl (handleApiError err)
             | Inr d \<Rightarrow> Inr (Response (\<lparr>content =
                [\<lparr>content_type = ''text'',
                  content_text = JSON_stringify_2 (convertAllMonetaryFields d)\<rparr>]\<rparr>))))"
  using registered_tool_result [OF handler_infakt_get_invoice assms,
      where answer = "respond apiClient" and f = "\<lambda>d. createJsonResponse_invoice d", OF getInvoice_result]
  unfolding createJsonResponse_invoice_def Let_def .

lemma infakt_update_invoice_result:
  assumes "handleToolCall apiClient ''infakt_update_invoice'' args = (r, reqs)"
  shows "(reqs = [] \<and> (\<exists>e. r = Inl e)) \<or>
     (\<exists>req. reqs = [req] \<and>
        r = (case respond apiClient req of
               Inl err \<Rightarrow> Inl (handleApiError err)
             | Inr d \<Rightarrow> Inr (Response (\<lparr>content =
                [\<lparr>content_type = ''text'',
                  content_text = JSON_stringify_2 (convertAllMonetaryFields d)\<rparr>]\<rparr>))))"
  using registered_tool_result [OF handler_infakt_update_invoice assms,
      where answer = "respond apiClient" and f = "\<lambda>d. createJsonResponse_invoice d", OF updateInvoice_result]
  unfolding createJsonResponse_invoice_def Let_def .

lemma infakt_send_invoice_email_result:
  assumes "handleToolCall apiClient ''infakt_send_invoice_email'' args = (r, reqs)"
  shows "(reqs = [] \<and> (\<exists>e. r = Inl e)) \<or>
     (\<exists>req. reqs = [req] \<and>
        r = (case respond apiClient req of
               Inl err \<Rightarrow> Inl (handleApiError err)
             | Inr d \<Rightarrow> Inr (Response (\<lparr>content =
                [\<lparr>content_type = ''text'',
                  content_text = JSON_stringify_2 (convertAllMonetaryFields d)\<rparr>]\<rparr>))))"
  using registered_tool_result [OF handler_infakt_send_invoice_email assms,
      where answer = "respond apiClient" and f = "\<lambda>d. createJsonResponse_invoice d", OF sendInvoiceEmail_result]
  unfolding createJsonResponse_invoice_def Let_def .

lemma infakt_mark_invoice_paid_result:
  assumes "handleToolCall apiClient ''infakt_mark_invoice_paid'' args = (r, reqs)"
  shows "(reqs = [] \<and> (\<exists>e. r = Inl e)) \<or>
     (\<exists>req. reqs = [req] \<and>
        r = (case respond apiClient req of
               Inl err \<Rightarrow> Inl (handleApiError err)
             | Inr d \<Rightarrow> Inr (Response (\<lparr>content =
                [\<lparr>content_type = ''text'',
                  content_text = JSON_stringify_2 (convertAllMonetaryFields d)\<rparr>]\<rparr>))))"
  using registered_tool_result [OF handler_infakt_mark_invoice_paid assms,
      where answer = "respond apiClient" and f = "\<lambda>d. createJsonResponse_invoice d", OF markInvoicePaid_result]
  unfolding createJsonResponse_invoice_def Let_def .

lemma infakt_list_clients_result:
  assumes "handleToolCall apiClient ''infakt_list_clients'' args = (r, reqs)"
  shows "(reqs = [] \<and> (\<exists>e. r = Inl e)) \<or>
     (\<exists>req. reqs = [req] \<and>
        r = (case respond apiClient req of
               Inl err \<Rightarrow> Inl (handleApiError err)
             | Inr d \<Rightarrow> Inr (Response (\<lparr>content =
                [\<lparr>content_type = ''text'',
                  content_text = JSON_stringify_2 (convertAllMonetaryFields d)\<rparr>]\<rparr>))))"
  using registered_tool_result [OF handler_infakt_list_clients assms,
      where answer = "respond apiClient" and f = "\<lambda>d. createJsonResponse_client d", OF listClients_result]
  unfolding createJsonResponse_client_def Let_def .

lemma infakt_get_client_result:
  assumes "handleToolCall apiClient ''infakt_get_client'' args = (r, reqs)"
  shows "(reqs = [] \<and> (\<exists>e. r = Inl e)) \<or>
     (\<exists>req. reqs = [req] \<and>
        r = (case respond apiClient req of
               Inl err \<Rightarrow> Inl (handleApiError err)
             | Inr d \<Rightarrow> Inr (Response (\<lparr>content =
                [\<lparr>content_type = ''text'',
                  content_text = JSON_stringify_2 (convertAllMonetaryFields d)\<rparr>]\<rparr>))))"
  using registered_tool_result [OF handler_infakt_get_client assms,
      where answer = "respond apiClient" and f = "\<lambda>d. createJsonResponse_client d", OF getClient_result]
  unfolding createJsonResponse_client_def Let_def .

lemma infakt_create_client_result:
  assumes "handleToolCall apiClient ''infakt_create_client'' args = (r, reqs)"
  shows "(reqs = [] \<and> (\<exists>e. r = Inl e)) \<or>
     (\<exists>req. reqs = [req] \<and>
        r = (case respond apiClient req of
               Inl err \<Rightarrow> Inl (handleApiError err)
             | Inr d \<Rightarrow> Inr (Response (\<lparr>content =
                [\<lparr>content_type = ''text'',
                  content_text = JSON_stringify_2 (convertAllMonetaryFields d)\<rparr>]\<rparr>))))"
  using registered_tool_result [OF handler_infakt_create_client assms,
      where answer = "respond apiClient" and f = "\<lambda>d. createJsonResponse_client d", OF createClient_result]
  unfolding createJsonResponse_client_def Let_def .

lemma infakt_update_client_result:
  assumes "handleToolCall apiClient ''infakt_update_client'' args = (r, reqs)"
  shows "(reqs = [] \<and> (\<exists>e. r = Inl e)) \<or>
     (\<exists>req. reqs = [req] \<and>
        r = (case respond apiClient req of
               Inl err \<Rightarrow> Inl (handleApiError err)
             | Inr d \<Rightarrow> Inr (Response (\<lparr>content =
                [\<lparr>content_type = ''text'',
                  content_text = JSON_stringify_2 (convertAllMonetaryFields d)\<rparr>]\<rparr>))))"
  using registered_tool_result [OF handler_infakt_update_client assms,
      where answer = "respond apiClient" and f = "\<lambda>d. createJsonResponse_client d", OF updateClient_result]
  unfolding createJsonResponse_client_def Let_def .

lemma infakt_get_vat_rates_result:
  assumes "handleToolCall apiClient ''infakt_get_vat_rates'' args = (r, reqs)"
  shows "(reqs = [] \<and> (\<exists>e. r = Inl e)) \<or>
     (\<exists>req. reqs = [req] \<and>
        r = (case respond apiClient req of
               Inl err \<Rightarrow> Inl (handleApiError err)
             | Inr d \<Rightarrow> Inr (Response (\<lparr>content =
                [\<lparr>content_type = ''text'',
                  content_text = JSON_stringify_2 (convertAllMonetaryFields d)\<rparr>]\<rparr>))))"
  using registered_tool_result [OF handler_infakt_get_vat_rates assms,
      where answer = "respond apiClient" and f = "\<lambda>d. createJsonResponse_reference d", OF getVatRates_result]
  unfolding createJsonResponse_reference_def Let_def .

lemma infakt_get_bank_accounts_result:
  assumes "handleToolCall apiClient ''infakt_get_bank_accounts'' args = (r, reqs)"
  shows "(reqs = [] \<and> (\<exists>e. r = Inl e)) \<or>
     (\<exists>req. reqs = [req] \<and>
        r = (case respond apiClient req of
               Inl err \<Rightarrow> Inl (handleApiError err)
             | Inr d \<Rightarrow> Inr (Response (\<lparr>content =
                [\<lparr>content_type = ''text'',
                  content_text = JSON_stringify_2 (convertAllMonetaryFields d)\<rparr>]\<rparr>))))"
  using registered_tool_result [OF handler_infakt_get_bank_accounts assms,
      where answer = "respond apiClient" and f = "\<lambda>d. createJsonResponse_reference d", OF getBankAccounts_result]
  unfolding createJsonResponse_reference_def Let_def .

lemma infakt_get_account_info_result:
  assumes "handleToolCall apiClient ''infakt_get_account_info'' args = (r, reqs)"
  shows "(reqs = [] \<and> (\<exists>e. r = Inl e)) \<or>
     (\<exists>req. reqs = [req] \<and>
        r = (case respond apiClient req of
               Inl err \<Rightarrow> Inl (handleApiError err)
             | Inr d \<Rightarrow> Inr (Response (\<lparr>content =
                [\<lparr>content_type = ''text'',
                  content_text = JSON_stringify_2 (convertAllMonetaryFields d)\<rparr>]\<rparr>))))"
  using registered_tool_result [OF handler_infakt_get_account_info assms,
      where answer = "respond apiClient" and f = "\<lambda>d. createJsonResponse_reference d", OF getAccountInfo_result]
  unfolding createJsonResponse_reference_def Let_def .

lemma infakt_list_products_result:
  assumes "handleToolCall apiClient ''infakt_list_products'' args = (r, reqs)"
  shows "(reqs = [] \<and> (\<exists>e. r = Inl e)) \<or>
     (\<exists>req. reqs = [req] \<and>
        r = (case respond apiClient req of
               Inl err \<Rightarrow> Inl (handleApiError err)
             | Inr d \<Rightarrow> Inr (Response (\<lparr>content = [\<lparr>content_type = ''text'', content_text = JSON_stringify_2 d\<rparr>]\<rparr>))))"
  using registered_tool_result [OF handler_infakt_list_products assms,
      where answer = "respond apiClient" and f = "\<lambda>d. createJsonResponse_product d", OF listProducts_result]
  unfolding createJsonResponse_product_def .

lemma infakt_get_product_result:
  assumes "handleToolCall apiClient ''infakt_get_product'' args = (r, reqs)"
  shows "(reqs = [] \<and> (\<exists>e. r = Inl e)) \<or>
     (\<exists>req. reqs = [req] \<and>
        r = (case respond apiClient req of
               Inl err \<Rightarrow> Inl (handleApiError err)
             | Inr d \<Rightarrow> Inr (Response (\<lparr>content = [\<lparr>content_type = ''text'', content_text = JSON_stringify_2 d\<rparr>]\<rparr>))))"
  using registered_tool_result [OF handler_infakt_get_product assms,
      where answer = "respond apiClient" and f = "\<lambda>d. createJsonResponse_product d", OF getProduct_result]
  unfolding createJsonResponse_product_def .

lemma infakt_create_product_result:
  assumes "handleToolCall apiClient ''infakt_create_product'' args = (r, reqs)"
  shows "(reqs = [] \<and> (\<exists>e. r = Inl e)) \<or>
     (\<exists>req. reqs = [req] \<and>
        r = (case respond apiClient req of
               Inl err \<Rightarrow> Inl (handleApiError err)
             | Inr d \<Rightarrow> Inr (Response (\<lparr>content = [\<lparr>content_type = ''text'', content_text = JSON_stringify_2 d\<rparr>]\<rparr>))))"
  using registered_tool_result [OF handler_infakt_create_product assms,
      where answer = "respond apiClient" and f = "\<lambda>d. createJsonResponse_product d", OF createProduct_result]
  unfolding createJsonResponse_product_def .

lemma infakt_update_product_result:
  assumes "handleToolCall apiClient ''infakt_update_product'' args = (r, reqs)"
  shows "(reqs = [] \<and> (\<exists>e. r = Inl e)) \<or>
     (\<exists>req. reqs = [req] \<and>
        r = (case respond apiClient req of
               Inl err \<Rightarrow> Inl (handleApiError err)
             | Inr d \<Rightarrow> Inr (Response (\<lparr>content = [\<lparr>content_type = ''text'', content_text = JSON_stringify_2 d\<rparr>]\<rparr>))))"
  using registered_tool_result [OF handler_infakt_update_product assms,
      where answer = "respond apiClient" and f = "\<lambda>d. createJsonResponse_product d", OF updateProduct_result]
  unfolding createJsonResponse_product_def .

lemma infakt_list_costs_result:
  assumes "handleToolCall apiClient ''infakt_list_costs'' args = (r, reqs)"
  shows "(reqs = [] \<and> (\<exists>e. r = Inl e)) \<or>
     (\<exists>req. reqs = [req] \<and>
        r = (case respond apiClient req of
               Inl err \<Rightarrow> Inl (handleApiError err)
             | Inr d \<Rightarrow> Inr (Response (\<lparr>content = [\<lparr>content_type = ''text'', content_text = JSON_stringify_2 d\<rparr>]\<rparr>))))"
  using registered_tool_result [OF handler_infakt_list_costs assms,
      where answer = "respond apiClient" and f = "\<lambda>d. createJsonResponse_cost d", OF listCosts_result]
  unfolding createJsonResponse_cost_def .

lemma infakt_get_cost_result:
  assumes "handleToolCall apiClient ''infakt_get_cost'' args = (r, reqs)"
  shows "(reqs = [] \<and> (\<exists>e. r = Inl e)) \<or>
     (\<exists>req. reqs = [req] \<and>
        r = (case respond apiClient req of
               Inl err \<Rightarrow> Inl (handleApiError err)
             | Inr d \<Rightarrow> Inr (Response (\<lparr>content = [\<lparr>content_type = ''text'', content_text = JSON_stringify_2 d\<rparr>]\<rparr>))))"
  using registered_tool_result [OF handler_infakt_get_cost assms,
      where answer = "respond apiClient" and f = "\<lambda>d. createJsonResponse_cost d", OF getCost_result]
  unfolding createJsonResponse_cost_def .

lemma infakt_delete_invoice_result:
  assumes "handleToolCall apiClient ''infakt_delete_invoice'' args = (r, reqs)"
  shows "(reqs = [] \<and> (\<exists>e. r = Inl e)) \<or>
     (\<exists>req. reqs = [req] \<and>
        r = (case respond apiClient req of
               Inl err \<Rightarrow> Inl (handleApiError err)
             | Inr d \<Rightarrow> Inr (Response (\<lparr>content =
                [\<lparr>content_type = ''text'',
                  content_text =
                    Some (''Invoice '' @ String (get_member args ''invoice_uuid'') @
                          '' deleted successfully'')\<rparr>]\<rparr>))))"
  using registered_tool_result [OF handler_infakt_delete_invoice assms,
      where answer = "respond apiClient" and f = "\<lambda>d. createTextResponse
                (''Invoice '' @ String (get_member args ''invoice_uuid'') @ '' deleted successfully'')", OF deleteInvoice_result]
  unfolding createTextResponse_def .

lemma infakt_delete_client_result:
  assumes "handleToolCall apiClient ''infakt_delete_client'' args = (r, reqs)"
  shows "(reqs = [] \<and> (\<exists>e. r = Inl e)) \<or>
     (\<exists>req. reqs = [req] \<and>
        r = (case respond apiClient req of
               Inl err \<Rightarrow> Inl (handleApiError err)
             | Inr d \<Rightarrow> Inr (Response (\<lparr>content =
                [\<lparr>content_type = ''text'',
                  content_text =
                    Some (''Client '' @ String (get_member args ''client_id'') @
                          '' deleted successfully'')\<rparr>]\<rparr>))))"
  using registered_tool_result [OF handler_infakt_delete_client assms,
      where answer = "respond apiClient" and f = "\<lambda>d. createTextResponse
                (''Client '' @ String (get_member args ''client_id'') @ '' deleted successfully'')", OF deleteClient_result]
  unfolding createTextResponse_def .

lemma infakt_delete_product_result:
  assumes "handleToolCall apiClient ''infakt_delete_product'' args = (r, reqs)"
  shows "(reqs = [] \<and> (\<exists>e. r = Inl e)) \<or>
     (\<exists>req. reqs = [req] \<and>
        r = (case respond apiClient req of
               Inl err \<Rightarrow> Inl (handleApiError err)
             | Inr d \<Rightarrow> Inr (Response (\<lparr>content =
                [\<lparr>content_type = ''text'',
                  content_text =
                    Some (''Product '' @ String (get_member args ''product_id'') @
                          '' deleted successfully'')\<rparr>]\<rparr>))))"
  using registered_tool_result [OF handler_infakt_delete_product assms,
      where answer = "respond apiClient" and f = "\<lambda>d. createTextResponse
                (''Product '' @ String (get_member args ''product_id'') @ '' deleted successfully'')", OF deleteProduct_result]
  unfolding createTextResponse_def .

lemma infakt_download_invoice_pdf_result:
  assumes "handleToolCall apiClient ''infakt_download_invoice_pdf'' args = (r, reqs)"
  shows "(reqs = [] \<and> (\<exists>e. r = Inl e)) \<or>
     (\<exists>req. reqs = [req] \<and>
        r = (case respond_binary apiClient req of
               Inl err \<Rightarrow> Inl (handleApiError err)
             | Inr bytes \<Rightarrow> Inr (Response (\<lparr>content =
                [ \<lparr>content_type = ''text'',
                   content_text =
                     Some (''PDF downloaded successfully. Base64 encoded ('' @
                           nat_to_string (length (base64 bytes)) @
                           '' characters). Use base64 decode to save the file.'')\<rparr>,
                  \<lparr>content_type = ''text'', content_text = Some (base64 bytes)\<rparr> ]\<rparr>))))"
  using registered_tool_result [OF handler_infakt_download_invoice_pdf assms,
      where answer = "respond_binary apiClient" and f = "\<lambda>bytes. \<lparr>content =
                [ \<lparr>content_type = ''text'',
                   content_text =
                     Some (''PDF downloaded successfully. Base64 encoded ('' @
                           nat_to_string (length (base64 bytes)) @
                           '' characters). Use base64 decode to save the file.'')\<rparr>,
                  \<lparr>content_type = ''text'', content_text = Some (base64 bytes)\<rparr> ]\<rparr>",
      OF downloadInvoicePdf_result] .

lemma converting_tools:
  assumes "handleToolCall apiClient name args = (r, reqs)"
    and "name \<in> set [''infakt_create_invoice'', ''infakt_check_invoice_status'', ''infakt_list_invoices'', ''infakt_get_invoice'', ''infakt_update_invoice'', ''infakt_send_invoice_email'', ''infakt_mark_invoice_paid'', ''infakt_list_clients'', ''infakt_get_client'', ''infakt_create_client'', ''infakt_update_client'', ''infakt_get_vat_rates'', ''infakt_get_bank_accounts'', ''infakt_get_account_info'']"
  shows "(reqs = [] \<and> (\<exists>e. r = Inl e)) \<or>
     (\<exists>req. reqs = [req] \<and>
        r = (case respond apiClient req of
               Inl err \<Rightarrow> Inl (handleApiError err)
             | Inr d \<Rightarrow> Inr (Response (\<lparr>content =
                [\<lparr>content_type = ''text'',
                  content_text = JSON_stringify_2 (convertAllMonetaryFields d)\<rparr>]\<rparr>))))"
proof -
  from assms(2) have
    "name = ''infakt_create_invoice'' \<or>
    name = ''infakt_check_invoice_status'' \<or>
    name = ''infakt_list_invoices'' \<or>
    name = ''infakt_get_invoice'' \<or>
    name = ''infakt_update_invoice'' \<or>
    name = ''infakt_send_invoice_email'' \<or>
    name = ''infakt_mark_invoice_paid'' \<or>
    name = ''infakt_list_clients'' \<or>
    name = ''infakt_get_client'' \<or>
    name = ''infakt_create_client'' \<or>
    name = ''infakt_update_client'' \<or>
    name = ''infakt_get_vat_rates'' \<or>
    name = ''infakt_get_bank_accounts'' \<or>
    name = ''infakt_get_account_info''"
    by (simp only: list.set insert_iff empty_iff simp_thms)
  then show ?thesis
  proof (elim disjE)
    assume n: "name = ''infakt_create_invoice''"
    from infakt_create_invoice_result [OF assms(1) [unfolded n]] show ?thesis .
  next
    assume n: "name = ''infakt_check_invoice_status''"
    from infakt_check_invoice_status_result [OF assms(1) [unfolded n]] show ?thesis .
  next
    assume n: "name = ''infakt_list_invoices''"
    from infakt_list_invoices_result [OF assms(1) [unfolded n]] show ?thesis .
  next
    assume n: "name = ''infakt_get_invoice''"
    from infakt_get_invoice_result [OF assms(1) [unfolded n]] show ?thesis .
  next
    assume n: "name = ''infakt_update_invoice''"
    from infakt_update_invoice_result [OF assms(1) [unfolded n]] show ?thesis .
  next
    assume n: "name = ''infakt_send_invoice_email''"
    from infakt_send_invoice_email_result [OF assms(1) [unfolded n]] show ?thesis .
  next
    assume n: "name = ''infakt_mark_invoice_paid''"
    from infakt_mark_invoice_paid_result [OF assms(1) [unfolded n]] show ?thesis .
  next
    assume n: "name = ''infakt_list_clients''"
    from infakt_list_clients_result [OF assms(1) [unfolded n]] show ?thesis .
  next
    assume n: "name = ''infakt_get_client''"
    from infakt_get_client_result [OF assms(1) [unfolded n]] show ?thesis .
  next
    assume n: "name = ''infakt_create_client''"
    from infakt_create_client_result [OF assms(1) [unfolded n]] show ?thesis .
  next
    assume n: "name = ''infakt_update_client''"
    from infakt_update_client_result [OF assms(1) [unfolded n]] show ?thesis .
  next
    assume n: "name = ''infakt_get_vat_rates''"
    from infakt_get_vat_rates_result [OF assms(1) [unfolded n]] show ?thesis .
  next
    assume n: "name = ''infakt_get_bank_accounts''"
    from infakt_get_bank_accounts_result [OF assms(1) [unfolded n]] show ?thesis .
  next
    assume n: "name = ''infakt_get_account_info''"
    from infakt_get_account_info_result [OF assms(1) [unfolded n]] show ?thesis .
  qed
qed

lemma plain_tools:
  assumes "handleToolCall apiClient name args = (r, reqs)"
    and "name \<in> set [''infakt_list_products'', ''infakt_get_product'', ''infakt_create_product'', ''infakt_update_product'', ''infakt_list_costs'', ''infakt_get_cost'']"
  shows "(reqs = [] \<and> (\<exists>e. r = Inl e)) \<or>
     (\<exists>req. reqs = [req] \<and>
        r = (case respond apiClient req of
               Inl err \<Rightarrow> Inl (handleApiError err)
             | Inr d \<Rightarrow> Inr (Response (\<lparr>content = [\<lparr>content_type = ''text'', content_text = JSON_stringify_2 d\<rparr>]\<rparr>))))"
proof -
  from assms(2) have
    "name = ''infakt_list_products'' \<or>
    name = ''infakt_get_product'' \<or>
    name = ''infakt_create_product'' \<or>
    name = ''infakt_update_product'' \<or>
    name = ''infakt_list_costs'' \<or>
    name = ''infakt_get_cost''"
    by (simp only: list.set insert_iff empty_iff simp_thms)
  then show ?thesis
  proof (elim disjE)
    assume n: "name = ''infakt_list_products''"
    from infakt_list_products_result [OF assms(1) [unfolded n]] show ?thesis .
  next
    assume n: "name = ''infakt_get_product''"
    from infakt_get_product_result [OF assms(1) [unfolded n]] show ?thesis .
  next
    assume n: "name = ''infakt_create_product''"
    from infakt_create_product_result [OF assms(1) [unfolded n]] show ?thesis .
  next
    assume n: "name = ''infakt_update_product''"
    from infakt_update_product_result [OF assms(1) [unfolded n]] show ?thesis .
  next
    assume n: "name = ''infakt_list_costs''"
    from infakt_list_costs_result [OF assms(1) [unfolded n]] show ?thesis .
  next
    assume n: "name = ''infakt_get_cost''"
    from infakt_get_cost_result [OF assms(1) [unfolded n]] show ?thesis .
  qed
qed

lemma registered_tool_requests:
  "map_of TOOL_HANDLERS name = Some handler \<Longrightarrow>
     snd (handleToolCall apiClient name args) = snd (handler apiClient args)"
  by (simp add: handleToolCall_def split: prod.splits sum.splits)

lemma accepted_requests:
  assumes "\<exists>req. h = (case answer req of
        Inl err \<Rightarrow> (Inl (g err), [req])
      | Inr d \<Rightarrow> (Inr (f d), [req]))"
  shows "snd h \<noteq> []"
proof -
  from assms obtain req where h: "h = (case answer req of
        Inl err \<Rightarrow> (Inl (g err), [req])
      | Inr d \<Rightarrow> (Inr (f d), [req]))" ..
  show ?thesis unfolding h by (cases "answer req") simp_all
qed

lemma reference_tools_request:
  assumes "handleToolCall apiClient name args = (r, reqs)"
    and "name \<in> set [''infakt_get_vat_rates'', ''infakt_get_bank_accounts'',
                      ''infakt_get_account_info'']"
  shows "reqs \<noteq> []"
proof -
  from assms(1) have s: "reqs = snd (handleToolCall apiClient name args)" by simp
  from assms(2) have
    "name = ''infakt_get_vat_rates'' \<or> name = ''infakt_get_bank_accounts'' \<or>
     name = ''infakt_get_account_info''"
    by (simp only: list.set insert_iff empty_iff simp_thms)
  then show ?thesis
  proof (elim disjE)
    assume n: "name = ''infakt_get_vat_rates''"
    show ?thesis
      unfolding s n registered_tool_requests [OF handler_infakt_get_vat_rates]
      by (rule accepted_requests [OF getVatRates_accepted])
  next
    assume n: "name = ''infakt_get_bank_accounts''"
    show ?thesis
      unfolding s n registered_tool_requests [OF handler_infakt_get_bank_accounts]
      by (rule accepted_requests [OF getBankAccounts_accepted])
  next
    assume n: "name = ''infakt_get_account_info''"
    show ?thesis
      unfolding s n registered_tool_requests [OF handler_infakt_get_account_info]
      by (rule accepted_requests [OF getAccountInfo_accepted])
  qed
qed

text \<open>Under the names that \<^verbatim>\<open>TOOL_HANDLERS\<close> inherits no request is made.\<close>

lemma handleToolCall_inherited:
  "handleToolCall apiClient ''toString'' args = (Inr (ReturnedString ''[object Undefined]''), [])"
  "handleToolCall apiClient ''constructor'' args = (Inr ApiClientObject, [])"
  "handleToolCall apiClient ''__proto__'' args =
     (Inl (McpError InternalError ''Unexpected error: handler is not a function''), [])"
  "handleToolCall apiClient ''valueOf'' args =
     (Inl (McpError InternalError
             ''Unexpected error: Cannot convert undefined or null to object''), [])"
  by (simp_all add: handleToolCall_def TOOL_HANDLERS_def Object_prototype_call_def
      handleApiError_def)
lemma json_wrap_hd:
  "hd (json_wrap gap ind (a # opening) closing partial) = a"
  by (simp add: json_wrap_def)

lemma JSON_stringify_2_object:
  "JSON_stringify_2 (convertAllMonetaryFields (JObj ps)) = Some s \<Longrightarrow> hd s = CHR ''{''"
  by (auto simp: JSON_stringify_2_def json_wrap_hd)

text \<open>
  C4. Every call of a registered tool is either refused before any request, with an
  error, or makes exactly one request, and then its result is fixed by the answer to that
  request. When the remote call succeeds with the answer \<open>d\<close>, the call of the tool
  returns: for the tools of invoices, clients and reference data that return data, one
  text holding \<^verbatim>\<open>JSON.stringify(convertAllMonetaryFields(d), null, 2)\<close>; for the tools of
  products and costs that return data, one text holding \<^verbatim>\<open>JSON.stringify(d, null, 2)\<close>,
  with no conversion; for the three tools that delete, a sentence of confirmation in
  which the answer does not occur; for the download of an invoice, the number of
  characters and the base64 text of the bytes answered, again without conversion. When
  the remote call fails, the result is the translated error. The tools of reference data
  check no argument and always make their request.
\<close>

theorem handleToolCall_response_text:
  "case handleToolCall apiClient name args of
     (r, reqs) \<Rightarrow>
    (name \<in> set [''infakt_create_invoice'',
                  ''infakt_check_invoice_status'',
                  ''infakt_list_invoices'',
                  ''infakt_get_invoice'',
                  ''infakt_update_invoice'',
                  ''infakt_send_invoice_email'',
                  ''infakt_mark_invoice_paid'',
                  ''infakt_list_clients'',
                  ''infakt_get_client'',
                  ''infakt_create_client'',
                  ''infakt_update_client'',
                  ''infakt_get_vat_rates'',
                  ''infakt_get_bank_accounts'',
                  ''infakt_get_account_info''] \<longrightarrow>
     (reqs = [] \<and> (\<exists>e. r = Inl e)) \<or>
     (\<exists>req. reqs = [req] \<and>
        r = (case respond apiClient req of
               Inl err \<Rightarrow> Inl (handleApiError err)
             | Inr d \<Rightarrow> Inr (Response (\<lparr>content =
                [\<lparr>content_type = ''text'',
                  content_text = JSON_stringify_2 (convertAllMonetaryFields d)\<rparr>]\<rparr>))))) \<and>
    (name \<in> set [''infakt_get_vat_rates'', ''infakt_get_bank_accounts'',
                  ''infakt_get_account_info''] \<longrightarrow>
     reqs \<noteq> []) \<and>
    (name \<in> set [''infakt_list_products'',
                  ''infakt_get_product'',
                  ''infakt_create_product'',
                  ''infakt_update_product'',
                  ''infakt_list_costs'',
                  ''infakt_get_cost''] \<longrightarrow>
     (reqs = [] \<and> (\<exists>e. r = Inl e)) \<or>
     (\<exists>req. reqs = [req] \<and>
        r = (case respond apiClient req of
               Inl err \<Rightarrow> Inl (handleApiError err)
             | Inr d \<Rightarrow> Inr (Response (\<lparr>content = [\<lparr>content_type = ''text'', content_text = JSON_stringify_2 d\<rparr>]\<rparr>))))) \<and>
    (name = ''infakt_delete_invoice'' \<longrightarrow>
     (reqs = [] \<and> (\<exists>e. r = Inl e)) \<or>
     (\<exists>req. reqs = [req] \<and>
        r = (case respond apiClient req of
               Inl err \<Rightarrow> Inl (handleApiError err)
             | Inr d \<Rightarrow> Inr (Response (\<lparr>content =
                [\<lparr>content_type = ''text'',
                  content_text =
                    Some (''Invoice '' @ String (get_member args ''invoice_uuid'') @
                          '' deleted successfully'')\<rparr>]\<rparr>))))) \<and>
    (name = ''infakt_delete_client'' \<longrightarrow>
     (reqs = [] \<and> (\<exists>e. r = Inl e)) \<or>
     (\<exists>req. reqs = [req] \<and>
        r = (case respond apiClient req of
               Inl err \<Rightarrow> Inl (handleApiError err)
             | Inr d \<Rightarrow> Inr (Response (\<lparr>content =
                [\<lparr>content_type = ''text'',
                  content_text =
                    Some (''Client '' @ String (get_member args ''client_id'') @
                          '' deleted successfully'')\<rparr>]\<rparr>))))) \<and>
    (name = ''infakt_delete_product'' \<longrightarrow>
     (reqs = [] \<and> (\<exists>e. r = Inl e)) \<or>
     (\<exists>req. reqs = [req] \<and>
        r = (case respond apiClient req of
               Inl err \<Rightarrow> Inl (handleApiError err)
             | Inr d \<Rightarrow> Inr (Response (\<lparr>content =
                [\<lparr>content_type = ''text'',
                  content_text =
                    Some (''Product '' @ String (get_member args ''product_id'') @
                          '' deleted successfully'')\<rparr>]\<rparr>))))) \<and>
    (name = ''infakt_download_invoice_pdf'' \<longrightarrow>
     (reqs = [] \<and> (\<exists>e. r = Inl e)) \<or>
     (\<exists>req. reqs = [req] \<and>
        r = (case respond_binary apiClient req of
               Inl err \<Rightarrow> Inl (handleApiError err)
             | Inr bytes \<Rightarrow> Inr (Response (\<lparr>content =
                [ \<lparr>content_type = ''text'',
                   content_text =
                     Some (''PDF downloaded successfully. Base64 encoded ('' @
                           nat_to_string (length (base64 bytes)) @
                           '' characters). Use base64 decode to save the file.'')\<rparr>,
                  \<lparr>content_type = ''text'', content_text = Some (base64 bytes)\<rparr> ]\<rparr>)))))"
proof -
  obtain r reqs where e: "handleToolCall apiClient name args = (r, reqs)"
    by (cases "handleToolCall apiClient name args")
  show ?thesis
    unfolding e prod.case
  proof (intro conjI impI)
    assume "name \<in> set [''infakt_create_invoice'',
                  ''infakt_check_invoice_status'',
                  ''infakt_list_invoices'',
                  ''infakt_get_invoice'',
                  ''infakt_update_invoice'',
                  ''infakt_send_invoice_email'',
                  ''infakt_mark_invoice_paid'',
                  ''infakt_list_clients'',
                  ''infakt_get_client'',
                  ''infakt_create_client'',
                  ''infakt_update_client'',
                  ''infakt_get_vat_rates'',
                  ''infakt_get_bank_accounts'',
                  ''infakt_get_account_info'']"
    with e show "(reqs = [] \<and> (\<exists>e. r = Inl e)) \<or>
     (\<exists>req. reqs = [req] \<and>
        r = (case respond apiClient req of
               Inl err \<Rightarrow> Inl (handleApiError err)
             | Inr d \<Rightarrow> Inr (Response (\<lparr>content =
                [\<lparr>content_type = ''text'',
                  content_text = JSON_stringify_2 (convertAllMonetaryFields d)\<rparr>]\<rparr>))))"
      by (rule converting_tools)
  next
    assume "name \<in> set [''infakt_get_vat_rates'', ''infakt_get_bank_accounts'',
                  ''infakt_get_account_info'']"
    with e show "reqs \<noteq> []"
      by (rule reference_tools_request)
  next
    assume "name \<in> set [''infakt_list_products'',
                  ''infakt_get_product'',
                  ''infakt_create_product'',
                  ''infakt_update_product'',
                  ''infakt_list_costs'',
                  ''infakt_get_cost'']"
    with e show "(reqs = [] \<and> (\<exists>e. r = Inl e)) \<or>
     (\<exists>req. reqs = [req] \<and>
        r = (case respond apiClient req of
               Inl err \<Rightarrow> Inl (handleApiError err)
             | Inr d \<Rightarrow> Inr (Response (\<lparr>content = [\<lparr>content_type = ''text'', content_text = JSON_stringify_2 d\<rparr>]\<rparr>))))"
      by (rule plain_tools)
  next
    assume n: "name = ''infakt_delete_invoice''"
    from infakt_delete_invoice_result [OF e [unfolded n]]
    show "(reqs = [] \<and> (\<exists>e. r = Inl e)) \<or>
     (\<exists>req. reqs = [req] \<and>
        r = (case respond apiClient req of
               Inl err \<Rightarrow> Inl (handleApiError err)
             | Inr d \<Rightarrow> Inr (Response (\<lparr>content =
                [\<lparr>content_type = ''text'',
                  content_text =
                    Some (''Invoice '' @ String (get_member args ''invoice_uuid'') @
                          '' deleted successfully'')\<rparr>]\<rparr>))))" .
  next
    assume n: "name = ''infakt_delete_client''"
    from infakt_delete_client_result [OF e [unfolded n]]
    show "(reqs = [] \<and> (\<exists>e. r = Inl e)) \<or>
     (\<exists>req. reqs = [req] \<and>
        r = (case respond apiClient req of
               Inl err \<Rightarrow> Inl (handleApiError err)
             | Inr d \<Rightarrow> Inr (Response (\<lparr>content =
                [\<lparr>content_type = ''text'',
                  content_text =
                    Some (''Client '' @ String (get_member args ''client_id'') @
                          '' deleted successfully'')\<rparr>]\<rparr>))))" .
  next
    assume n: "name = ''infakt_delete_product''"
    from infakt_delete_product_result [OF e [unfolded n]]
    show "(reqs = [] \<and> (\<exists>e. r = Inl e)) \<or>
     (\<exists>req. reqs = [req] \<and>
        r = (case respond apiClient req of
               Inl err \<Rightarrow> Inl (handleApiError err)
             | Inr d \<Rightarrow> Inr (Response (\<lparr>content =
                [\<lparr>content_type = ''text'',
                  content_text =
                    Some (''Product '' @ String (get_member args ''product_id'') @
                          '' deleted successfully'')\<rparr>]\<rparr>))))" .
  next
    assume n: "name = ''infakt_download_invoice_pdf''"
    from infakt_download_invoice_pdf_result [OF e [unfolded n]]
    show "(reqs = [] \<and> (\<exists>e. r = Inl e)) \<or>
     (\<exists>req. reqs = [req] \<and>
        r = (case respond_binary apiClient req of
               Inl err \<Rightarrow> Inl (handleApiError err)
             | Inr bytes \<Rightarrow> Inr (Response (\<lparr>content =
                [ \<lparr>content_type = ''text'',
                   content_text =
                     Some (''PDF downloaded successfully. Base64 encoded ('' @
                           nat_to_string (length (base64 bytes)) @
                           '' characters). Use base64 decode to save the file.'')\<rparr>,
                  \<lparr>content_type = ''text'', content_text = Some (base64 bytes)\<rparr> ]\<rparr>))))" .
  qed
qed
theorem handleToolCall_response_text_witness:
  "(\<exists>req. handleToolCall
       \<lparr>respond = (\<lambda>_. Inr (JObj [(''gross_price'', JNum (Fin 12300))])),
        respond_binary = (\<lambda>_. Inr [77, 97, 110])\<rparr>
       ''infakt_get_vat_rates'' (JObj []) =
     (Inr (Response
        \<lparr>content = [\<lparr>content_type = ''text'',
            content_text = JSON_stringify_2 (convertAllMonetaryFields (JObj [(''gross_price'', JNum (Fin 12300))]))\<rparr>]\<rparr>),
      [req])) \<and>
   (\<exists>req. handleToolCall
       \<lparr>respond = (\<lambda>_. Inr (JObj [(''gross_price'', JNum (Fin 12300))])),
        respond_binary = (\<lambda>_. Inr [77, 97, 110])\<rparr>
       ''infakt_list_costs'' (JObj []) =
     (Inr (Response
        \<lparr>content = [\<lparr>content_type = ''text'', content_text = JSON_stringify_2 (JObj [(''gross_price'', JNum (Fin 12300))])\<rparr>]\<rparr>),
      [req])) \<and>
   (\<exists>req. handleToolCall
       \<lparr>respond = (\<lambda>_. Inr (JObj [(''gross_price'', JNum (Fin 12300))])),
        respond_binary = (\<lambda>_. Inr [77, 97, 110])\<rparr>
       ''infakt_delete_invoice'' (JObj [(''invoice_uuid'', JStr ''01234567-89ab-cdef-0123-456789abcdef'')]) =
     (Inr (Response
        \<lparr>content = [\<lparr>content_type = ''text'',
            content_text = Some
              ''Invoice 01234567-89ab-cdef-0123-456789abcdef deleted successfully''\<rparr>]\<rparr>),
      [req])) \<and>
   (\<exists>req. handleToolCall
       \<lparr>respond = (\<lambda>_. Inr (JObj [(''gross_price'', JNum (Fin 12300))])),
        respond_binary = (\<lambda>_. Inr [77, 97, 110])\<rparr>
       ''infakt_download_invoice_pdf'' (JObj [(''invoice_uuid'', JStr ''01234567-89ab-cdef-0123-456789abcdef'')]) =
     (Inr (Response
        \<lparr>content =
            [\<lparr>content_type = ''text'',
              content_text = Some
                ''PDF downloaded successfully. Base64 encoded (4 characters). Use base64 decode to save the file.''\<rparr>,
             \<lparr>content_type = ''text'', content_text = Some ''TWFu''\<rparr>]\<rparr>),
      [req]))"
proof -
  let ?C = "\<lparr>respond = (\<lambda>_. Inr (JObj [(''gross_price'', JNum (Fin 12300))])),
        respond_binary = (\<lambda>_. Inr [77, 97, 110])\<rparr>"
  let ?D = "JObj [(''gross_price'', JNum (Fin 12300))]"
  let ?U = "JObj [(''invoice_uuid'', JStr ''01234567-89ab-cdef-0123-456789abcdef'')]"
  have u: "validateUUID (JStr ''01234567-89ab-cdef-0123-456789abcdef'') ''invoice_uuid'' = Inr ()"
    by (simp add: validateUUID_def uuidRegex_test_def is_hex_digit_def is_digit_def)
  obtain r1 q1 where e1:
    "handleToolCall ?C ''infakt_get_vat_rates'' (JObj []) = (Inr (Response r1), [q1])"
    by (simp add: handleToolCall_def handler_infakt_get_vat_rates getVatRates_def
        respond_with_def ApiClient_get_def ApiClient_request_def)
  obtain r2 q2 where e2:
    "handleToolCall ?C ''infakt_list_costs'' (JObj []) = (Inr (Response r2), [q2])"
    by (simp add: handleToolCall_def handler_infakt_list_costs listCosts_def validated_def
        reads_def validatePaginationParams_def own_props_def get_prop_def only_if_def
        respond_with_def ApiClient_get_def ApiClient_request_def Let_def)
  obtain r3 q3 where e3:
    "handleToolCall ?C ''infakt_delete_invoice'' ?U = (Inr (Response r3), [q3])"
    by (simp add: handleToolCall_def handler_infakt_delete_invoice deleteInvoice_def
        validated_def reads_def get_member_def get_prop_def u
        respond_with_def ApiClient_delete_def ApiClient_request_def)
  obtain r4 q4 where e4:
    "handleToolCall ?C ''infakt_download_invoice_pdf'' ?U = (Inr (Response r4), [q4])"
    by (simp add: handleToolCall_def handler_infakt_download_invoice_pdf downloadInvoicePdf_def
        validated_def reads_def get_member_def get_prop_def u only_if_def
        respond_with_def ApiClient_getBinary_def Let_def)
  note t1 = handleToolCall_response_text
    [where apiClient = ?C and name = "''infakt_get_vat_rates''" and args = "JObj []",
      unfolded e1 prod.case, THEN conjunct1]
  have "r1 = \<lparr>content = [\<lparr>content_type = ''text'',
            content_text = JSON_stringify_2 (convertAllMonetaryFields ?D)\<rparr>]\<rparr>"
    using t1 by simp
  with e1 have 1: "\<exists>req. handleToolCall ?C ''infakt_get_vat_rates'' (JObj []) =
     (Inr (Response \<lparr>content = [\<lparr>content_type = ''text'',
            content_text = JSON_stringify_2 (convertAllMonetaryFields ?D)\<rparr>]\<rparr>), [req])"
    by blast
  note t2 = handleToolCall_response_text
    [where apiClient = ?C and name = "''infakt_list_costs''" and args = "JObj []",
      unfolded e2 prod.case, THEN conjunct2, THEN conjunct2, THEN conjunct1]
  have "r2 = \<lparr>content = [\<lparr>content_type = ''text'', content_text = JSON_stringify_2 ?D\<rparr>]\<rparr>"
    using t2 by simp
  with e2 have 2: "\<exists>req. handleToolCall ?C ''infakt_list_costs'' (JObj []) =
     (Inr (Response \<lparr>content = [\<lparr>content_type = ''text'', content_text = JSON_stringify_2 ?D\<rparr>]\<rparr>), [req])"
    by blast
  note t3 = handleToolCall_response_text
    [where apiClient = ?C and name = "''infakt_delete_invoice''" and args = "?U",
      unfolded e3 prod.case, THEN conjunct2, THEN conjunct2, THEN conjunct2, THEN conjunct1]
  have "r3 = \<lparr>content = [\<lparr>content_type = ''text'',
            content_text = Some
              ''Invoice 01234567-89ab-cdef-0123-456789abcdef deleted successfully''\<rparr>]\<rparr>"
    using t3 by (simp add: get_member_def get_prop_def)
  with e3 have 3: "\<exists>req. handleToolCall ?C ''infakt_delete_invoice'' ?U =
     (Inr (Response \<lparr>content = [\<lparr>content_type = ''text'',
            content_text = Some
              ''Invoice 01234567-89ab-cdef-0123-456789abcdef deleted successfully''\<rparr>]\<rparr>), [req])"
    by blast
  note t4 = handleToolCall_response_text
    [where apiClient = ?C and name = "''infakt_download_invoice_pdf''" and args = "?U",
      unfolded e4 prod.case, THEN conjunct2, THEN conjunct2, THEN conjunct2, THEN conjunct2, THEN conjunct2, THEN conjunct2]
  have b: "base64 [77, 97, 110] = ''TWFu''"
    by (simp add: base64_char_def)
  have n: "nat_to_string (length ''TWFu'') = ''4''"
    by (simp add: nat_to_string.simps digit_char_def)
  have "r4 = \<lparr>content =
                [ \<lparr>content_type = ''text'',
                   content_text =
                     Some (''PDF downloaded successfully. Base64 encoded ('' @
                           nat_to_string (length (base64 [77, 97, 110])) @
                           '' characters). Use base64 decode to save the file.'')\<rparr>,
                  \<lparr>content_type = ''text'', content_text = Some (base64 [77, 97, 110])\<rparr> ]\<rparr>"
    using t4 by (simp del: base64.simps)
  then have "r4 = \<lparr>content =
            [\<lparr>content_type = ''text'',
              content_text = Some
                ''PDF downloaded successfully. Base64 encoded (4 characters). Use base64 decode to save the file.''\<rparr>,
             \<lparr>content_type = ''text'', content_text = Some ''TWFu''\<rparr>]\<rparr>"
    unfolding b n by simp
  with e4 have 4: "\<exists>req. handleToolCall ?C ''infakt_download_invoice_pdf'' ?U =
     (Inr (Response \<lparr>content =
            [\<lparr>content_type = ''text'',
              content_text = Some
                ''PDF downloaded successfully. Base64 encoded (4 characters). Use base64 decode to save the file.''\<rparr>,
             \<lparr>content_type = ''text'', content_text = Some ''TWFu''\<rparr>]\<rparr>), [req])"
    by blast
  from 1 2 3 4 show ?thesis by (intro conjI)
qed

theorem handleToolCall_response_text_counterexample:
  "(\<exists>req. handleToolCall
       \<lparr>respond = (\<lambda>_. Inr (JObj [(''gross_price'', JNum (Fin 12300))])),
        respond_binary = (\<lambda>_. Inr [77, 97, 110])\<rparr>
       ''infakt_delete_invoice'' (JObj [(''invoice_uuid'', JStr ''01234567-89ab-cdef-0123-456789abcdef'')]) =
     (Inr (Response
        \<lparr>content = [\<lparr>content_type = ''text'',
                      content_text = Some
                        ''Invoice 01234567-89ab-cdef-0123-456789abcdef deleted successfully''\<rparr>]\<rparr>),
      [req]) \<and>
     respond
       \<lparr>respond = (\<lambda>_. Inr (JObj [(''gross_price'', JNum (Fin 12300))])),
        respond_binary = (\<lambda>_. Inr [77, 97, 110])\<rparr>
       req = Inr (JObj [(''gross_price'', JNum (Fin 12300))])) \<and>
   JSON_stringify_2 (convertAllMonetaryFields (JObj [(''gross_price'', JNum (Fin 12300))])) \<noteq>
     Some ''Invoice 01234567-89ab-cdef-0123-456789abcdef deleted successfully''"
proof -
  let ?C = "\<lparr>respond = (\<lambda>_. Inr (JObj [(''gross_price'', JNum (Fin 12300))])),
        respond_binary = (\<lambda>_. Inr [77, 97, 110])\<rparr>"
  let ?U = "JObj [(''invoice_uuid'', JStr ''01234567-89ab-cdef-0123-456789abcdef'')]"
  have u: "validateUUID (JStr ''01234567-89ab-cdef-0123-456789abcdef'') ''invoice_uuid'' = Inr ()"
    by (simp add: validateUUID_def uuidRegex_test_def is_hex_digit_def is_digit_def)
  have "\<exists>req. handleToolCall ?C ''infakt_delete_invoice'' ?U =
     (Inr (Response
        \<lparr>content = [\<lparr>content_type = ''text'',
                      content_text = Some
                        ''Invoice 01234567-89ab-cdef-0123-456789abcdef deleted successfully''\<rparr>]\<rparr>),
      [req]) \<and> respond ?C req = Inr (JObj [(''gross_price'', JNum (Fin 12300))])"
    by (simp add: handleToolCall_def handler_infakt_delete_invoice deleteInvoice_def
        validated_def reads_def get_member_def get_prop_def u createTextResponse_def
        respond_with_def ApiClient_delete_def ApiClient_request_def)
  moreover have "JSON_stringify_2 (convertAllMonetaryFields (JObj [(''gross_price'', JNum (Fin 12300))])) \<noteq>
     Some ''Invoice 01234567-89ab-cdef-0123-456789abcdef deleted successfully''"
  proof
    assume "JSON_stringify_2 (convertAllMonetaryFields (JObj [(''gross_price'', JNum (Fin 12300))])) =
     Some ''Invoice 01234567-89ab-cdef-0123-456789abcdef deleted successfully''"
    from JSON_stringify_2_object [OF this] show False by simp
  qed
  ultimately show ?thesis by (intro conjI)
qed
subsection \<open>Rejections of createInvoice\<close>

lemma handleApiError_ValidationError:
  "handleApiError (ValidationError field message) = ValidationError field message"
  by (simp add: handleApiError_def)

lemma createInvoice_requests:
  assumes "createInvoice apiClient params = (r, reqs)"
  shows "(reqs = [] \<and> (\<exists>e. r = Inl e)) \<or>
         reqs = [\<lparr>req_method = POST, req_url = ''/async/invoices.json'',
                  req_data = JObj [(''invoice'', params)], req_config = JUndefined\<rparr>]"
proof -
  have *: "(reqs = [] \<and> (\<exists>e. r = Inl e)) \<or> reqs = [req]"
    if "validated c (respond_with (ApiClient_request apiClient req) f) = (r, reqs)"
    for c req and f :: "jsval \<Rightarrow> ToolResponse"
    using that
    by (cases c)
      (auto simp: validated_def respond_with_def ApiClient_request_def split: sum.splits)
  from assms show ?thesis
    unfolding createInvoice_def ApiClient_post_def by (rule *)
qed

text \<open>
  C5. \<^verbatim>\<open>createInvoice\<close> refuses arguments without \<^verbatim>\<open>services\<close>, and arguments
  with the status \<^verbatim>\<open>paid\<close> and no \<^verbatim>\<open>paid_date\<close>, before any request, but not with a
  \<^verbatim>\<open>ValidationError\<close>: it throws a plain \<^verbatim>\<open>Error\<close> that has no field, and the caller
  of the tool gets an \<^verbatim>\<open>McpError\<close> with the code \<open>InternalError\<close> and the message
  \<^verbatim>\<open>Unexpected error: services is required\<close> (or
  \<^verbatim>\<open>Unexpected error: paid_date is required when status is 'paid'\<close>).
\<close>

theorem createInvoice_missing_services:
  "createInvoice apiClient
     (JObj [(''client_company_name'', JStr ''ACME''), (''payment_method'', JStr ''transfer'')]) =
     (Inl (Error ''services is required''), []) \<and>
   handleToolCall apiClient ''infakt_create_invoice''
     (JObj [(''client_company_name'', JStr ''ACME''), (''payment_method'', JStr ''transfer'')]) =
     (Inl (McpError InternalError ''Unexpected error: services is required''), []) \<and>
   createInvoice apiClient
     (JObj [(''client_company_name'', JStr ''ACME''), (''payment_method'', JStr ''transfer''),
            (''services'', JArr [JObj [(''name'', JStr ''Dev''), (''tax_symbol'', JNum (Fin 23)),
                                       (''gross_price'', JNum (Fin 100))]]),
            (''status'', JStr ''paid'')]) =
     (Inl (Error (''paid_date is required when status is '' @ [CHR 0x27] @ ''paid'' @ [CHR 0x27])),
      []) \<and>
   handleToolCall apiClient ''infakt_create_invoice''
     (JObj [(''client_company_name'', JStr ''ACME''), (''payment_method'', JStr ''transfer''),
            (''services'', JArr [JObj [(''name'', JStr ''Dev''), (''tax_symbol'', JNum (Fin 23)),
                                       (''gross_price'', JNum (Fin 100))]]),
            (''status'', JStr ''paid'')]) =
     (Inl (McpError InternalError
             (''Unexpected error: paid_date is required when status is '' @
              [CHR 0x27] @ ''paid'' @ [CHR 0x27])), [])"
proof -
  have s: "validateInvoiceService
      (JObj [(''name'', JStr ''Dev''), (''tax_symbol'', JNum (Fin 23)),
             (''gross_price'', JNum (Fin 100))]) 0 = Inr ()"
    by (rule validateInvoiceService_gross_only [where n = "''Dev''" and x = "Fin 23" and g = 100])
      (simp_all add: get_prop_def trim_def is_white_space_def)
  have 1: "createInvoice apiClient
     (JObj [(''client_company_name'', JStr ''ACME''), (''payment_method'', JStr ''transfer'')]) =
     (Inl (Error ''services is required''), [])"
    by (simp add: createInvoice_def validated_def reads_def get_member_def get_prop_def
        validateRequiredString_def trim_def is_white_space_def validateEnum_def
        PAYMENT_METHODS_def only_if_def)
  have 2: "createInvoice apiClient
     (JObj [(''client_company_name'', JStr ''ACME''), (''payment_method'', JStr ''transfer''),
            (''services'', JArr [JObj [(''name'', JStr ''Dev''), (''tax_symbol'', JNum (Fin 23)),
                                       (''gross_price'', JNum (Fin 100))]]),
            (''status'', JStr ''paid'')]) =
     (Inl (Error (''paid_date is required when status is '' @ [CHR 0x27] @ ''paid'' @ [CHR 0x27])),
      [])"
    by (simp add: createInvoice_def validated_def reads_def get_member_def get_prop_def
        validateRequiredString_def trim_def is_white_space_def validateEnum_def
        PAYMENT_METHODS_def INVOICE_STATUSES_def only_if_def validateArray_def s)
  show ?thesis
    by (simp add: handleToolCall_def handler_infakt_create_invoice 1 2 handleApiError_def)
qed

theorem createInvoice_missing_services_witness:
  "createInvoice \<lparr>respond = (\<lambda>_. Inr JNull), respond_binary = (\<lambda>_. Inr [])\<rparr>
     (JObj [(''client_company_name'', JStr ''ACME''), (''payment_method'', JStr ''transfer'')]) =
     (Inl (Error ''services is required''), []) \<and>
   handleToolCall \<lparr>respond = (\<lambda>_. Inr JNull), respond_binary = (\<lambda>_. Inr [])\<rparr> ''infakt_create_invoice''
     (JObj [(''client_company_name'', JStr ''ACME''), (''payment_method'', JStr ''transfer'')]) =
     (Inl (McpError InternalError ''Unexpected error: services is required''), []) \<and>
   createInvoice \<lparr>respond = (\<lambda>_. Inr JNull), respond_binary = (\<lambda>_. Inr [])\<rparr>
     (JObj [(''client_company_name'', JStr ''ACME''), (''payment_method'', JStr ''transfer''),
            (''services'', JArr [JObj [(''name'', JStr ''Dev''), (''tax_symbol'', JNum (Fin 23)),
                                       (''gross_price'', JNum (Fin 100))]]),
            (''status'', JStr ''paid'')]) =
     (Inl (Error (''paid_date is required when status is '' @ [CHR 0x27] @ ''paid'' @ [CHR 0x27])),
      []) \<and>
   handleToolCall \<lparr>respond = (\<lambda>_. Inr JNull), respond_binary = (\<lambda>_. Inr [])\<rparr> ''infakt_create_invoice''
     (JObj [(''client_company_name'', JStr ''ACME''), (''payment_method'', JStr ''transfer''),
            (''services'', JArr [JObj [(''name'', JStr ''Dev''), (''tax_symbol'', JNum (Fin 23)),
                                       (''gross_price'', JNum (Fin 100))]]),
            (''status'', JStr ''paid'')]) =
     (Inl (McpError InternalError
             (''Unexpected error: paid_date is required when status is '' @
              [CHR 0x27] @ ''paid'' @ [CHR 0x27])), [])"
  using createInvoice_missing_services
    [of "\<lparr>respond = (\<lambda>_. Inr JNull), respond_binary = (\<lambda>_. Inr [])\<rparr>"] .

end
